theory Spec2Isabelle
  imports Main "HOL-Library.Word"
begin

section \<open>Shared library: string utilities (Shared/Utility/Strings.cpp)\<close>

text \<open>
  \<open>std::wstring\<close> is modelled as a character list. Positions are \<open>size_t\<close> values; the
  toolchain targets 32-bit Windows, so \<open>size_t\<close> is a 32-bit word and \<open>npos\<close> is its
  largest value. The subtraction and addition in \<open>endpos - pos + 1\<close> wrap around, as
  they do in the source.
\<close>

datatype string_error = OutOfRange

type_synonym size_t = "32 word"

definition npos :: size_t where
  "npos = - 1"

definition whitespacechars :: string where
  "whitespacechars = [CHR '' '', CHR 0x09, CHR 0x0D, CHR 0x0A]"

primrec first_index :: "(char \<Rightarrow> bool) \<Rightarrow> string \<Rightarrow> nat option" where
  "first_index P [] = None"
| "first_index P (c # cs) = (if P c then Some 0 else map_option Suc (first_index P cs))"

definition find_first_not_of :: "string \<Rightarrow> string \<Rightarrow> size_t" where
  "find_first_not_of str chars =
     (case first_index (\<lambda>c. c \<notin> set chars) str of
        None \<Rightarrow> npos
      | Some i \<Rightarrow> of_nat i)"

definition find_last_not_of :: "string \<Rightarrow> string \<Rightarrow> size_t" where
  "find_last_not_of str chars =
     (case first_index (\<lambda>c. c \<notin> set chars) (rev str) of
        None \<Rightarrow> npos
      | Some j \<Rightarrow> of_nat (length str - 1 - j))"

text \<open>\<open>basic_string::substr(pos, n)\<close> throws \<open>out_of_range\<close> when \<open>pos > size()\<close> and
  otherwise copies \<open>min n (size() - pos)\<close> characters starting at \<open>pos\<close>.\<close>

definition substr :: "string \<Rightarrow> size_t \<Rightarrow> size_t \<Rightarrow> string_error + string" where
  "substr str pos n =
     (if length str < unat pos then Inl OutOfRange
      else Inr (take (unat n) (drop (unat pos) str)))"

definition StripWhitespace :: "string \<Rightarrow> string_error + string" where
  "StripWhitespace str =
     (if str = [] then Inr str
      else
        let pos = find_first_not_of str whitespacechars;
            endpos = find_last_not_of str whitespacechars
        in substr str pos (endpos - pos + 1))"


section \<open>The intermediate representation\<close>

text \<open>The closed set of primitive type tags.\<close>

datatype EpochVariableTypeID =
    EpochVariableType_Error
  | EpochVariableType_Null
  | EpochVariableType_Integer
  | EpochVariableType_Integer16
  | EpochVariableType_Real
  | EpochVariableType_Boolean
  | EpochVariableType_String
  | EpochVariableType_Tuple
  | EpochVariableType_Structure
  | EpochVariableType_Function
  | EpochVariableType_Address
  | EpochVariableType_Array
  | EpochVariableType_TaskHandle
  | EpochVariableType_Buffer

text \<open>
  Scopes and blocks are heap objects that the builder and the loader reach through
  pointers (a block under construction is on the \<open>Blocks\<close> stack and, for an else-if
  wrapper, already owned by an \<open>If\<close> operation), so they live in stores and are named
  by references. Operations are values held in their block's sequence; an operation that
  owns a child block holds its reference.
\<close>

type_synonym scope_ref = nat
type_synonym block_ref = nat

datatype ArithmeticKind = Sum | Subtract | Multiply | Divide

text \<open>The default constructor of an arithmetic operation builds the fold over a single
  array; the two-argument constructor builds the binary form with its two is-array flags.\<close>

datatype ArithmeticForm = FoldOverArray | Binary bool bool

text \<open>
  The operation variants the modelled builder and loader code constructs or inspects.
  \<open>ArithmeticOp Sum EpochVariableType_Integer\<close> is \<open>SumIntegers\<close>,
  \<open>ArithmeticOp Divide EpochVariableType_Real\<close> is \<open>DivideReals\<close>, and so on. The four
  compound operators own a list of sub-operations. \<open>OtherOperation\<close> stands for the
  variants that the modelled code only moves around.
\<close>

datatype Operation =
    NoOp
  | PushOperation Operation
  | ConsArray EpochVariableTypeID nat
  | ArithmeticOp ArithmeticKind EpochVariableTypeID ArithmeticForm
  | BitwiseOr EpochVariableTypeID "Operation list"
  | BitwiseAnd EpochVariableTypeID "Operation list"
  | LogicalOr "Operation list"
  | LogicalAnd "Operation list"
  | GetVariableValue string
  | AssignValue string
  | If block_ref "block_ref option" "Operation option"
  | ElseIf block_ref
  | ElseIfWrapper block_ref
  | ExitIfChain
  | WhileLoop block_ref
  | ExecuteBlock block_ref
  | ForkTask block_ref
  | ForkThread block_ref
  | ParallelFor block_ref string bool nat
  | OtherOperation string

record Block =
  Operations :: "Operation list"
  BoundScope :: "scope_ref option"

section \<open>The semantic builder (Parser State Machine)\<close>

datatype StackEntryType =
    STACKENTRYTYPE_IDENTIFIER
  | STACKENTRYTYPE_OPERATION
  | STACKENTRYTYPE_SCOPE
  | STACKENTRYTYPE_OTHER

record StackEntry =
  Type :: StackEntryType
  StringValue :: string
  OperationPointer :: "Operation option"
  ScopePointer :: "scope_ref option"

datatype BlockType =
    BLOCKENTRYTYPE_FREE
  | BLOCKENTRYTYPE_GLOBAL
  | BLOCKENTRYTYPE_FUNCTION
  | BLOCKENTRYTYPE_FUNCTION_NOCREATE
  | BLOCKENTRYTYPE_DOLOOP
  | BLOCKENTRYTYPE_IF
  | BLOCKENTRYTYPE_ELSEIFWRAPPER
  | BLOCKENTRYTYPE_ELSEIF
  | BLOCKENTRYTYPE_ELSE
  | BLOCKENTRYTYPE_WHILELOOP
  | BLOCKENTRYTYPE_TASK
  | BLOCKENTRYTYPE_THREAD
  | BLOCKENTRYTYPE_MSGDISPATCH
  | BLOCKENTRYTYPE_RESPONSEMAP
  | BLOCKENTRYTYPE_PARALLELFOR
  | BLOCKENTRYTYPE_EXTENSIONCONTROL

datatype BlockEntry = BlockEntry (TheBlock: "block_ref option") (EntryType: BlockType)

text \<open>A stack entry holding an operation, and one holding an identifier.\<close>

definition operation_entry :: "Operation \<Rightarrow> StackEntry" where
  "operation_entry op =
     \<lparr>Type = STACKENTRYTYPE_OPERATION, StringValue = [], OperationPointer = Some op,
      ScopePointer = None\<rparr>"

definition identifier_entry :: "string \<Rightarrow> StackEntry" where
  "identifier_entry name =
     \<lparr>Type = STACKENTRYTYPE_IDENTIFIER, StringValue = name, OperationPointer = None,
      ScopePointer = None\<rparr>"

text \<open>
  The ways a builder call can end other than by returning: the two exception classes the
  source throws, and \<open>InvalidAccess\<close> for the places where the C++ reads the back of an
  empty container or dereferences a null pointer (undefined behaviour, which the model
  records as a failure instead of inventing a value).
\<close>

datatype failure =
    ParserFailureException string
  | SyntaxException string
  | InvalidAccess


subsection \<open>Composite type descriptors and scopes\<close>

text \<open>
  Modelled from the spec: the composite type descriptor and the scope descriptor
  (\<open>Structure.h\<close>, \<open>ScopeDescription.h\<close> and their implementations are not among the
  sources at hand). A descriptor has the ordered \<open>MemberOrder\<close> and, per member, its type,
  offset and optional type hint; a function-typed member carries the name of its
  signature. A scope has its parent link, its variables in insertion order and its
  structure type bindings.
\<close>

datatype MemberInfo =
  MemberInfo (MemberType: EpochVariableTypeID) (MemberOffset: nat) (TypeHint: "nat option")
    (SignatureHint: "string option")

record StructureType =
  MemberOrder :: "string list"
  MemberInfoMap :: "(string \<times> MemberInfo) list"

definition new_StructureType :: StructureType where
  "new_StructureType = \<lparr>MemberOrder = [], MemberInfoMap = []\<rparr>"

definition AddMember :: "string \<Rightarrow> EpochVariableTypeID \<Rightarrow> nat option \<Rightarrow> StructureType \<Rightarrow> StructureType" where
  "AddMember name type hint t =
     t\<lparr>MemberOrder := MemberOrder t @ [name],
       MemberInfoMap := MemberInfoMap t @ [(name, MemberInfo type 0 hint None)]\<rparr>"

definition AddFunctionMember :: "string \<Rightarrow> string \<Rightarrow> StructureType \<Rightarrow> StructureType" where
  "AddFunctionMember name signame t =
     t\<lparr>MemberOrder := MemberOrder t @ [name],
       MemberInfoMap := MemberInfoMap t
          @ [(name, MemberInfo EpochVariableType_Function 0 None (Some signame))]\<rparr>"

record ScopeDescription =
  ParentScope :: "scope_ref option"
  Variables :: "(string \<times> EpochVariableTypeID) list"
  StructureTypes :: "(string \<times> nat) list"

definition new_ScopeDescription :: ScopeDescription where
  "new_ScopeDescription = \<lparr>ParentScope = None, Variables = [], StructureTypes = []\<rparr>"

definition AddVariable :: "string \<Rightarrow> EpochVariableTypeID \<Rightarrow> ScopeDescription \<Rightarrow> ScopeDescription" where
  "AddVariable name type sc = sc\<lparr>Variables := Variables sc @ [(name, type)]\<rparr>"

subsection \<open>The builder's state\<close>

text \<open>
  The members of \<open>ParserState\<close> that the modelled routines read or write
  (\<open>ParserState.h\<close> is not among the sources at hand; the members are the ones the
  routines name). Every stack is a list whose head is the top (the \<open>back()\<close> of the
  deque); a block's operation sequence is in emission order. \<open>ScopeHeap\<close> and
  \<open>BlockHeap\<close> are the stores, \<open>NextRef\<close> is the next unused reference. Freeing is not
  modelled: a block or scope whose owner is destroyed stays in the store, unreachable.
  \<open>FatalError\<close> is the Program's fatal flag and \<open>Diagnostics\<close> the messages reported so
  far; \<open>StringPool\<close> is the Program's pool of interned strings; \<open>TypeRegistry\<close> maps a
  structure type ID to its owning scope and descriptor; \<open>DebugInfo\<close> is the task name
  table.
\<close>

record ParserState =
  FatalError :: bool
  Diagnostics :: "string list"
  StringPool :: "string set"
  ScopeHeap :: "scope_ref \<Rightarrow> ScopeDescription option"
  BlockHeap :: "block_ref \<Rightarrow> Block option"
  NextRef :: nat
  GlobalScope :: scope_ref
  CurrentScope :: "scope_ref option"
  TheStack :: "StackEntry list"
  Blocks :: "BlockEntry list"
  ExpectedBlockTypes :: "BlockType list"
  PassedParameterCount :: "nat list"
  InfixOperatorList :: "string list list"
  InfixOperandCount :: "nat list"
  ExtensionControlKeywords :: "string list"
  DisplacedScopes :: "scope_ref option list"
  SavedTaskNames :: "string list"
  MessageDispatchScope :: "scope_ref option"
  ControlVarName :: string
  ControlVarType :: EpochVariableTypeID
  CreatedStructureType :: "StructureType option"
  VariableNameStack :: "string list"
  UpcomingNestedMemberType :: string
  TypeRegistry :: "(nat \<times> scope_ref \<times> StructureType) list"
  DebugInfo :: "(Operation \<times> string) list"

text \<open>
  The collaborators whose code is not among the sources at hand are parameters of the
  model. Each takes the builder state it is called in; the scope argument of the C++ is
  the state's \<open>CurrentScope\<close> at the call.
  \<^item> \<open>GetType\<close>: \<open>Operation::GetType(scope)\<close>.
  \<^item> \<open>DetermineEffectiveType\<close>, \<open>IsArray\<close>: the two \<open>StackEntry\<close> queries.
  \<^item> \<open>GetVariableType\<close>: \<open>ScopeDescription::GetVariableType(name)\<close>.
  \<^item> \<open>TailView\<close>: \<open>Block::GetOperationFromEnd(offset, scope)\<close>, as the finite table of
    the positions (in the block's sequence) that it yields for the offsets 0, 1, 2, ...;
    past the end of the table it yields a null pointer.
  \<^item> \<open>CountTailOps\<close>: \<open>Block::CountTailOps(n, scope)\<close>.
  \<^item> \<open>CreateOperation\<close>: \<open>ParserState::CreateOperation(name)\<close>, the dispatch to the
    operation builders.
  \<^item> \<open>HasTupleType\<close> ... \<open>IsFunctionSignature\<close>: the type queries of the current scope.
  \<^item> \<open>ComputeOffsets\<close>: \<open>CompositeType::ComputeOffsets(scope)\<close>.
  \<^item> \<open>GetLibraryProvidingExtension\<close>: the extension registry's lookup, which throws for
    an unknown control word.
  \<^item> \<open>EnterFunctionBlock\<close>, \<open>ExitFunctionBlock\<close>, \<open>ExitExtensionControlBlock\<close>: the
    bodies of the function-block and extension-control cases of \<open>EnterBlock\<close> and
    \<open>ExitBlock\<close>, which work on functions, ghost sets and extension parameter tables.
\<close>

record Collaborators =
  GetType :: "ParserState \<Rightarrow> Operation \<Rightarrow> EpochVariableTypeID"
  DetermineEffectiveType :: "ParserState \<Rightarrow> StackEntry \<Rightarrow> EpochVariableTypeID"
  IsArray :: "StackEntry \<Rightarrow> bool"
  GetVariableType :: "ParserState \<Rightarrow> string \<Rightarrow> EpochVariableTypeID"
  TailView :: "ParserState \<Rightarrow> Operation list \<Rightarrow> nat list"
  CountTailOps :: "ParserState \<Rightarrow> Operation list \<Rightarrow> nat \<Rightarrow> nat"
  CreateOperation :: "string \<Rightarrow> ParserState \<Rightarrow> failure + Operation \<times> ParserState"
  HasTupleType :: "ParserState \<Rightarrow> string \<Rightarrow> bool"
  GetTupleTypeID :: "ParserState \<Rightarrow> string \<Rightarrow> nat"
  HasStructureType :: "ParserState \<Rightarrow> string \<Rightarrow> bool"
  GetStructureTypeID :: "ParserState \<Rightarrow> string \<Rightarrow> nat"
  IsFunctionSignature :: "ParserState \<Rightarrow> string \<Rightarrow> bool"
  ComputeOffsets :: "ParserState \<Rightarrow> StructureType \<Rightarrow> StructureType"
  GetLibraryProvidingExtension :: "string \<Rightarrow> failure option"
  EnterFunctionBlock :: "BlockEntry \<Rightarrow> ParserState \<Rightarrow> failure + ParserState"
  ExitFunctionBlock :: "ParserState \<Rightarrow> failure + ParserState"
  ExitExtensionControlBlock :: "ParserState \<Rightarrow> failure + ParserState"

text \<open>Modelled from the spec: \<open>ReportFatalError\<close> (its code is not among the sources at
  hand) sets the Program's fatal flag; parsing continues. The message is kept so that
  the diagnostics can be told apart.\<close>

definition ReportFatalError :: "string \<Rightarrow> ParserState \<Rightarrow> ParserState" where
  "ReportFatalError msg s = s\<lparr>FatalError := True, Diagnostics := Diagnostics s @ [msg]\<rparr>"

text \<open>Modelled from the spec: \<open>PoolStaticString\<close> interns a string in the Program's
  string pool and returns the pooled string.\<close>

definition PoolStaticString :: "string \<Rightarrow> ParserState \<Rightarrow> ParserState" where
  "PoolStaticString str s = s\<lparr>StringPool := insert str (StringPool s)\<rparr>"

text \<open>\<open>n\<close> times \<open>pop_back\<close>; popping an empty deque is undefined behaviour.\<close>

primrec pop_back_n :: "nat \<Rightarrow> 'a list \<Rightarrow> failure + 'a list" where
  "pop_back_n 0 xs = Inr xs"
| "pop_back_n (Suc n) xs = (case xs of [] \<Rightarrow> Inl InvalidAccess | _ # rest \<Rightarrow> pop_back_n n rest)"

subsection \<open>Operation generation: arithmetic (Op Generation/Arithmetic.cpp)\<close>

text \<open>
  The four builders \<open>CreateOperation_Add\<close>, \<open>_Subtract\<close>, \<open>_Multiply\<close> and \<open>_Divide\<close> have
  the same control flow and differ in the operation family they construct and in their
  diagnostics. \<open>CreateArithmeticOperation\<close> is that control flow; the four builders
  supply their family and their six messages, in the order in which the source issues
  them.
\<close>

record ArithmeticMessages =
  msgExpectsOneArray :: string
  msgExpectedConsArray :: string
  msgElementType :: string
  msgExpectsTwo :: string
  msgSameType :: string
  msgParameterType :: string

definition CreateArithmeticOperation ::
  "ArithmeticKind \<Rightarrow> ArithmeticMessages \<Rightarrow> Collaborators \<Rightarrow> ParserState
     \<Rightarrow> failure + Operation \<times> ParserState" where
  "CreateArithmeticOperation kind m x s =
    (case PassedParameterCount s of
       [] \<Rightarrow> Inl InvalidAccess
     | count # _ \<Rightarrow>
        if count = 1 then
          (case TheStack s of
             [] \<Rightarrow> Inl InvalidAccess
           | back # rest \<Rightarrow>
              if Type back \<noteq> STACKENTRYTYPE_OPERATION then
                Inr (NoOp, (ReportFatalError (msgExpectsOneArray m) s)\<lparr>TheStack := rest\<rparr>)
              else
                (case OperationPointer back of
                   None \<Rightarrow> Inl InvalidAccess
                 | Some op \<Rightarrow>
                    if GetType x s op \<noteq> EpochVariableType_Array then
                      Inr (NoOp, (ReportFatalError (msgExpectsOneArray m) s)\<lparr>TheStack := rest\<rparr>)
                    else
                      (case op of
                         ConsArray elementtype numelements \<Rightarrow>
                           if elementtype = EpochVariableType_Integer then
                             Inr (ArithmeticOp kind EpochVariableType_Integer FoldOverArray,
                                  s\<lparr>TheStack := rest\<rparr>)
                           else if elementtype = EpochVariableType_Integer16 then
                             Inr (ArithmeticOp kind EpochVariableType_Integer16 FoldOverArray,
                                  s\<lparr>TheStack := rest\<rparr>)
                           else if elementtype = EpochVariableType_Real then
                             Inr (ArithmeticOp kind EpochVariableType_Real FoldOverArray,
                                  s\<lparr>TheStack := rest\<rparr>)
                           else
                             Inr (NoOp, ReportFatalError (msgElementType m) (s\<lparr>TheStack := rest\<rparr>))
                       | _ \<Rightarrow>
                           Inr (NoOp,
                             (ReportFatalError (msgExpectedConsArray m) s)\<lparr>TheStack := rest\<rparr>))))
        else if count \<noteq> 2 then
          (case pop_back_n count (TheStack (ReportFatalError (msgExpectsTwo m) s)) of
             Inl e \<Rightarrow> Inl e
           | Inr rest \<Rightarrow> Inr (NoOp, (ReportFatalError (msgExpectsTwo m) s)\<lparr>TheStack := rest\<rparr>))
        else
          (case TheStack s of
             second # first # rest \<Rightarrow>
               let s' = s\<lparr>TheStack := rest\<rparr>;
                   firsttype = DetermineEffectiveType x s' first;
                   secondtype = DetermineEffectiveType x s' second
               in
                 if firsttype \<noteq> secondtype then
                   Inr (NoOp, ReportFatalError (msgSameType m) s')
                 else if firsttype = EpochVariableType_Integer then
                   Inr (ArithmeticOp kind EpochVariableType_Integer
                          (Binary (IsArray x first) (IsArray x second)), s')
                 else if firsttype = EpochVariableType_Integer16 then
                   Inr (ArithmeticOp kind EpochVariableType_Integer16
                          (Binary (IsArray x first) (IsArray x second)), s')
                 else if firsttype = EpochVariableType_Real then
                   Inr (ArithmeticOp kind EpochVariableType_Real
                          (Binary (IsArray x first) (IsArray x second)), s')
                 else
                   Inr (NoOp, ReportFatalError (msgParameterType m) s')
           | _ \<Rightarrow> Inl InvalidAccess))"

definition CreateOperation_Add :: "Collaborators \<Rightarrow> ParserState \<Rightarrow> failure + Operation \<times> ParserState" where
  "CreateOperation_Add =
     CreateArithmeticOperation Sum
       \<lparr>msgExpectsOneArray = ''add() function expects 2 parameters or 1 array'',
        msgExpectedConsArray = ''Expected an array here'',
        msgElementType = ''Cannot add() an array of this type of element'',
        msgExpectsTwo = ''add() function expects 2 parameters or 1 array'',
        msgSameType = ''Parameters to add() must be of the same type'',
        msgParameterType = ''add() cannot use parameters of this type''\<rparr>"

definition CreateOperation_Subtract :: "Collaborators \<Rightarrow> ParserState \<Rightarrow> failure + Operation \<times> ParserState" where
  "CreateOperation_Subtract =
     CreateArithmeticOperation Subtract
       \<lparr>msgExpectsOneArray = ''subtract() function expects 2 parameters or 1 array'',
        msgExpectedConsArray = ''Expected an array constructor here'',
        msgElementType = ''Cannot subtract() an array of this type of element'',
        msgExpectsTwo = ''subtract() expects 2 parameters'',
        msgSameType = ''Parameters to subtract() must be of the same type'',
        msgParameterType = ''subtract() cannot use parameters of this type''\<rparr>"

definition CreateOperation_Multiply :: "Collaborators \<Rightarrow> ParserState \<Rightarrow> failure + Operation \<times> ParserState" where
  "CreateOperation_Multiply =
     CreateArithmeticOperation Multiply
       \<lparr>msgExpectsOneArray = ''multiply() function expects 2 parameters or 1 array'',
        msgExpectedConsArray = ''Expected an array here'',
        msgElementType = ''Cannot multiply() an array of this type of element'',
        msgExpectsTwo = ''multiply() function expects 2 parameters'',
        msgSameType = ''Parameters to multiply() must be of the same type'',
        msgParameterType = ''multiply() cannot use parameters of this type''\<rparr>"

definition CreateOperation_Divide :: "Collaborators \<Rightarrow> ParserState \<Rightarrow> failure + Operation \<times> ParserState" where
  "CreateOperation_Divide =
     CreateArithmeticOperation Divide
       \<lparr>msgExpectsOneArray = ''divide() function expects 2 parameters or 1 array'',
        msgExpectedConsArray = ''Expected an array here'',
        msgElementType = ''Cannot divide() an array of this type of element'',
        msgExpectsTwo = ''divide() function expects 2 parameters'',
        msgSameType = ''Parameters to divide() must be of the same type'',
        msgParameterType = ''divide() cannot use parameters of this type''\<rparr>"


text \<open>
  The operands the arithmetic builders accept: two operands of identical primitive
  numeric type, or one operand that is an array constructor, that is an operation entry
  whose operation is a \<open>ConsArray\<close> of type Array with a numeric element type. An array
  variable, or an operation of type Array other than the constructor itself, is not
  such an operand.
\<close>

definition numeric_type :: "EpochVariableTypeID \<Rightarrow> bool" where
  "numeric_type t \<longleftrightarrow>
     t = EpochVariableType_Integer \<or> t = EpochVariableType_Integer16 \<or> t = EpochVariableType_Real"

definition binary_operands ::
  "Collaborators \<Rightarrow> ParserState \<Rightarrow> StackEntry list \<Rightarrow> (EpochVariableTypeID \<times> bool \<times> bool) option" where
  "binary_operands x s operands =
     (case operands of
        [second, first] \<Rightarrow>
          if DetermineEffectiveType x s first = DetermineEffectiveType x s second
             \<and> numeric_type (DetermineEffectiveType x s first)
          then Some (DetermineEffectiveType x s first, IsArray x first, IsArray x second)
          else None
      | _ \<Rightarrow> None)"

definition array_constructor_operand ::
  "Collaborators \<Rightarrow> ParserState \<Rightarrow> StackEntry list \<Rightarrow> EpochVariableTypeID option" where
  "array_constructor_operand x s operands =
     (case operands of
        [back] \<Rightarrow>
          if Type back = STACKENTRYTYPE_OPERATION then
            (case OperationPointer back of
               Some (ConsArray t n) \<Rightarrow>
                 if GetType x s (ConsArray t n) = EpochVariableType_Array \<and> numeric_type t
                 then Some t else None
             | _ \<Rightarrow> None)
          else None
      | _ \<Rightarrow> None)"


subsection \<open>Construction of the builder; a plain instance of the collaborators\<close>

text \<open>\<open>ParserState::ParserState\<close>: a new Program with its global scope, which is the
  current scope; every stack is empty and no structure type is under construction.\<close>

definition new_ParserState :: ParserState where
  "new_ParserState =
     \<lparr>FatalError = False, Diagnostics = [], StringPool = {},
      ScopeHeap = (\<lambda>r. None)(0 := Some new_ScopeDescription),
      BlockHeap = (\<lambda>r. None), NextRef = 1, GlobalScope = 0, CurrentScope = Some 0,
      TheStack = [], Blocks = [], ExpectedBlockTypes = [], PassedParameterCount = [],
      InfixOperatorList = [], InfixOperandCount = [], ExtensionControlKeywords = [],
      DisplacedScopes = [], SavedTaskNames = [], MessageDispatchScope = None,
      ControlVarName = [], ControlVarType = EpochVariableType_Error,
      CreatedStructureType = None, VariableNameStack = [], UpcomingNestedMemberType = [],
      TypeRegistry = [], DebugInfo = []\<rparr>"

text \<open>
  A plain instance of the collaborators, for running the model on concrete states: an
  operation's type is read off its variant, a stack entry has the type of its operation,
  a variable is looked up in the current scope only, the tail view and the tail count
  treat every operation as a group of its own, and no type name is known.
\<close>

fun plain_GetType :: "Operation \<Rightarrow> EpochVariableTypeID" where
  "plain_GetType (PushOperation op) = plain_GetType op"
| "plain_GetType (ConsArray t n) = EpochVariableType_Array"
| "plain_GetType (ArithmeticOp k t f) = t"
| "plain_GetType (BitwiseOr t ops) = t"
| "plain_GetType (BitwiseAnd t ops) = t"
| "plain_GetType (LogicalOr ops) = EpochVariableType_Boolean"
| "plain_GetType (LogicalAnd ops) = EpochVariableType_Boolean"
| "plain_GetType (OtherOperation name) =
     (if name = ''PushIntegerLiteral'' then EpochVariableType_Integer
      else if name = ''PushStringLiteral'' then EpochVariableType_String
      else if name = ''PushBooleanLiteral'' then EpochVariableType_Boolean
      else EpochVariableType_Null)"
| "plain_GetType op = EpochVariableType_Null"

definition plain_GetVariableType :: "ParserState \<Rightarrow> string \<Rightarrow> EpochVariableTypeID" where
  "plain_GetVariableType s name =
     (case CurrentScope s of
        None \<Rightarrow> EpochVariableType_Error
      | Some r \<Rightarrow>
         (case ScopeHeap s r of
            None \<Rightarrow> EpochVariableType_Error
          | Some sc \<Rightarrow>
             (case map_of (Variables sc) name of
                None \<Rightarrow> EpochVariableType_Error
              | Some t \<Rightarrow> t)))"

definition plain_collaborators :: Collaborators where
  "plain_collaborators =
     \<lparr>GetType = (\<lambda>s op. plain_GetType op),
      DetermineEffectiveType = (\<lambda>s e.
         case OperationPointer e of
           Some (ConsArray t n) \<Rightarrow> t
         | Some op \<Rightarrow> plain_GetType op
         | None \<Rightarrow> plain_GetVariableType s (StringValue e)),
      IsArray = (\<lambda>e. case OperationPointer e of Some (ConsArray t n) \<Rightarrow> True | _ \<Rightarrow> False),
      GetVariableType = plain_GetVariableType,
      TailView = (\<lambda>s ops. rev [0..<length ops]),
      CountTailOps = (\<lambda>s ops n. length ops - n),
      CreateOperation = (\<lambda>name s. Inr (OtherOperation name, s)),
      HasTupleType = (\<lambda>s name. False),
      GetTupleTypeID = (\<lambda>s name. 0),
      HasStructureType = (\<lambda>s name. False),
      GetStructureTypeID = (\<lambda>s name. 0),
      IsFunctionSignature = (\<lambda>s name. False),
      ComputeOffsets = (\<lambda>s t. t),
      GetLibraryProvidingExtension = (\<lambda>name. Some (ParserFailureException name)),
      EnterFunctionBlock = (\<lambda>entry s. Inr s),
      ExitFunctionBlock = (\<lambda>s. Inr s),
      ExitExtensionControlBlock = (\<lambda>s. Inr s)\<rparr>"

text \<open>A builder about to create an operation for one operand, the variable \<open>values\<close> of
  type Array.\<close>

definition array_variable_state :: ParserState where
  "array_variable_state =
     new_ParserState
       \<lparr>ScopeHeap := (\<lambda>r. None)(0 := Some
          (new_ScopeDescription\<lparr>Variables := [(''values'', EpochVariableType_Array)]\<rparr>)),
        TheStack := [identifier_entry ''values''],
        PassedParameterCount := [1]\<rparr>"


subsection \<open>Blocks and flow control (Parser State Machine/FlowControl.cpp)\<close>

text \<open>\<open>new VM::Block\<close> and \<open>new VM::ScopeDescription\<close>: the object gets the next unused
  reference.\<close>

definition alloc_block :: "ParserState \<Rightarrow> block_ref \<times> ParserState" where
  "alloc_block s =
     (NextRef s,
      s\<lparr>BlockHeap := (BlockHeap s)(NextRef s := Some \<lparr>Operations = [], BoundScope = None\<rparr>),
        NextRef := Suc (NextRef s)\<rparr>)"

definition alloc_scope :: "ParserState \<Rightarrow> scope_ref \<times> ParserState" where
  "alloc_scope s =
     (NextRef s,
      s\<lparr>ScopeHeap := (ScopeHeap s)(NextRef s := Some new_ScopeDescription),
        NextRef := Suc (NextRef s)\<rparr>)"

text \<open>Writes through a scope or block pointer; the pointer is null or dangling when the
  store has nothing there.\<close>

definition update_scope ::
  "scope_ref \<Rightarrow> (ScopeDescription \<Rightarrow> ScopeDescription) \<Rightarrow> ParserState \<Rightarrow> failure + ParserState" where
  "update_scope r f s =
     (case ScopeHeap s r of
        None \<Rightarrow> Inl InvalidAccess
      | Some sc \<Rightarrow> Inr (s\<lparr>ScopeHeap := (ScopeHeap s)(r := Some (f sc))\<rparr>))"

definition update_block ::
  "block_ref \<Rightarrow> (Block \<Rightarrow> Block) \<Rightarrow> ParserState \<Rightarrow> failure + ParserState" where
  "update_block b f s =
     (case BlockHeap s b of
        None \<Rightarrow> Inl InvalidAccess
      | Some blk \<Rightarrow> Inr (s\<lparr>BlockHeap := (BlockHeap s)(b := Some (f blk))\<rparr>))"

text \<open>\<open>Block::AddOperation\<close> and \<open>Block::BindToScope\<close>.\<close>

definition AddOperation :: "block_ref \<Rightarrow> Operation \<Rightarrow> ParserState \<Rightarrow> failure + ParserState" where
  "AddOperation b op s = update_block b (\<lambda>blk. blk\<lparr>Operations := Operations blk @ [op]\<rparr>) s"

definition BindToScope :: "block_ref \<Rightarrow> scope_ref option \<Rightarrow> ParserState \<Rightarrow> failure + ParserState" where
  "BindToScope b r s = update_block b (\<lambda>blk. blk\<lparr>BoundScope := r\<rparr>) s"

text \<open>The block that \<open>Blocks.back().TheBlock\<close> points to. The back of an empty stack and a
  null block pointer (which only the preparse pushes) are invalid accesses.\<close>

definition back_block :: "ParserState \<Rightarrow> failure + block_ref" where
  "back_block s =
     (case Blocks s of
        [] \<Rightarrow> Inl InvalidAccess
      | entry # _ \<Rightarrow> (case TheBlock entry of None \<Rightarrow> Inl InvalidAccess | Some b \<Rightarrow> Inr b))"

text \<open>Modelled from the spec: \<open>AddOperationToCurrentBlock\<close> (its code is not among the
  sources at hand) emits the operation into the current block, the one on top of the
  \<open>Blocks\<close> stack.\<close>

definition AddOperationToCurrentBlock :: "Operation \<Rightarrow> ParserState \<Rightarrow> failure + ParserState" where
  "AddOperationToCurrentBlock op s =
     (case back_block s of Inl e \<Rightarrow> Inl e | Inr b \<Rightarrow> AddOperation b op s)"

text \<open>\<open>Blocks.back().TheBlock->GetTailOperation()->GetType(*CurrentScope)\<close>.\<close>

definition tail_operation_type :: "Collaborators \<Rightarrow> ParserState \<Rightarrow> failure + EpochVariableTypeID" where
  "tail_operation_type x s =
     (case back_block s of
        Inl e \<Rightarrow> Inl e
      | Inr b \<Rightarrow>
         (case BlockHeap s b of
            None \<Rightarrow> Inl InvalidAccess
          | Some blk \<Rightarrow>
             if Operations blk = [] then Inl InvalidAccess
             else Inr (GetType x s (last (Operations blk)))))"

text \<open>Modelled from the spec: \<open>PopParameterCount\<close> pops the arity of the call in
  progress.\<close>

definition PopParameterCount :: "ParserState \<Rightarrow> failure + ParserState" where
  "PopParameterCount s =
     (case PassedParameterCount s of
        [] \<Rightarrow> Inl InvalidAccess
      | _ # rest \<Rightarrow> Inr (s\<lparr>PassedParameterCount := rest\<rparr>))"

text \<open>\<open>TheStack.pop_back()\<close>.\<close>

definition pop_TheStack :: "ParserState \<Rightarrow> failure + ParserState" where
  "pop_TheStack s =
     (case TheStack s of
        [] \<Rightarrow> Inl InvalidAccess
      | _ # rest \<Rightarrow> Inr (s\<lparr>TheStack := rest\<rparr>))"

text \<open>\<open>CurrentScope = CurrentScope->ParentScope\<close>.\<close>

definition leave_scope :: "ParserState \<Rightarrow> failure + ParserState" where
  "leave_scope s =
     (case CurrentScope s of
        None \<Rightarrow> Inl InvalidAccess
      | Some r \<Rightarrow>
         (case ScopeHeap s r of
            None \<Rightarrow> Inl InvalidAccess
          | Some sc \<Rightarrow> Inr (s\<lparr>CurrentScope := ParentScope sc\<rparr>)))"

text \<open>Sequencing of steps that may fail.\<close>

definition and_then :: "failure + 'a \<Rightarrow> ('a \<Rightarrow> failure + 'b) \<Rightarrow> failure + 'b" where
  "and_then m f = (case m of Inl e \<Rightarrow> Inl e | Inr v \<Rightarrow> f v)"

text \<open>
  The backward walk of \<open>RegisterControl\<close> (elseif) and \<open>ExitBlock\<close> (else):
  \<open>GetOperationFromEnd(offset, scope)\<close> for the offsets 0, 1, 2, ... until the operation is
  an \<open>If\<close> (the walk yields its position) or is not an \<open>ElseIfWrapper\<close> (a null pointer
  included: the walk yields nothing).
\<close>

fun is_If :: "Operation \<Rightarrow> bool" where
  "is_If (If trueblock falseblock elseifs) = True"
| "is_If op = False"

fun is_ElseIfWrapper :: "Operation \<Rightarrow> bool" where
  "is_ElseIfWrapper (ElseIfWrapper b) = True"
| "is_ElseIfWrapper op = False"

fun walk_back :: "Operation list \<Rightarrow> nat list \<Rightarrow> nat option" where
  "walk_back ops [] = None"
| "walk_back ops (i # view) =
     (if i < length ops \<and> is_If (ops ! i) then Some i
      else if i < length ops \<and> is_ElseIfWrapper (ops ! i) then walk_back ops view
      else None)"

definition Keywords_Do :: string where "Keywords_Do = ''do''"
definition Keywords_If :: string where "Keywords_If = ''if''"
definition Keywords_ElseIf :: string where "Keywords_ElseIf = ''elseif''"
definition Keywords_Else :: string where "Keywords_Else = ''else''"
definition Keywords_While :: string where "Keywords_While = ''while''"
definition Keywords_ParallelFor :: string where "Keywords_ParallelFor = ''parallelfor''"

definition push_expected :: "BlockType \<Rightarrow> ParserState \<Rightarrow> ParserState" where
  "push_expected t s = s\<lparr>ExpectedBlockTypes := t # ExpectedBlockTypes s\<rparr>"

definition RegisterControl :: "Collaborators \<Rightarrow> string \<Rightarrow> bool \<Rightarrow> ParserState \<Rightarrow> failure + ParserState" where
  "RegisterControl x controlname preprocess s =
     (if controlname = Keywords_Do then Inr (push_expected BLOCKENTRYTYPE_DOLOOP s)
      else if controlname = Keywords_If then Inr (push_expected BLOCKENTRYTYPE_IF s)
      else if controlname = Keywords_ElseIf then
        (if \<not> preprocess then
           and_then (back_block s) (\<lambda>b.
             case BlockHeap s b of
               None \<Rightarrow> Inl InvalidAccess
             | Some blk \<Rightarrow>
                (case walk_back (Operations blk) (TailView x s (Operations blk)) of
                   None \<Rightarrow> Inl (ParserFailureException ''elseif() without matching if()'')
                 | Some i \<Rightarrow>
                    (case Operations blk ! i of
                       If trueblock falseblock None \<Rightarrow>
                         let (w, s1) = alloc_block s;
                             (r, s2) = alloc_scope s1
                         in
                           and_then (update_scope r (\<lambda>sc. sc\<lparr>ParentScope := CurrentScope s\<rparr>) s2) (\<lambda>s3.
                           and_then (BindToScope w (Some r) s3) (\<lambda>s4.
                           and_then (update_block b (\<lambda>blk. blk\<lparr>Operations := (Operations blk)
                                        [i := If trueblock falseblock (Some (ElseIfWrapper w))]\<rparr>) s4) (\<lambda>s5.
                             Inr (push_expected BLOCKENTRYTYPE_ELSEIF
                                    (s5\<lparr>Blocks := BlockEntry (Some w) BLOCKENTRYTYPE_ELSEIFWRAPPER
                                                      # Blocks s5\<rparr>)))))
                     | If trueblock falseblock (Some (ElseIfWrapper w)) \<Rightarrow>
                         Inr (push_expected BLOCKENTRYTYPE_ELSEIF
                                (s\<lparr>Blocks := BlockEntry (Some w) BLOCKENTRYTYPE_ELSEIFWRAPPER
                                                 # Blocks s\<rparr>))
                     | _ \<Rightarrow> Inl InvalidAccess)))
         else Inr (push_expected BLOCKENTRYTYPE_ELSEIF s))
      else if controlname = Keywords_Else then Inr (push_expected BLOCKENTRYTYPE_ELSE s)
      else if controlname = Keywords_While then
        (if \<not> preprocess then
           let (b, s1) = alloc_block s;
               s2 = s1\<lparr>Blocks := BlockEntry (Some b) BLOCKENTRYTYPE_WHILELOOP # Blocks s1\<rparr>;
               (r, s3) = alloc_scope s2
           in
             and_then (update_scope r (\<lambda>sc. sc\<lparr>ParentScope := CurrentScope s\<rparr>) s3) (\<lambda>s4.
             and_then (BindToScope b (Some r) (s4\<lparr>CurrentScope := Some r\<rparr>)) (\<lambda>s5.
               Inr (push_expected BLOCKENTRYTYPE_WHILELOOP s5)))
         else Inr (push_expected BLOCKENTRYTYPE_WHILELOOP s))
      else if controlname = Keywords_ParallelFor then
        Inr (push_expected BLOCKENTRYTYPE_PARALLELFOR s)
      else
        (case GetLibraryProvidingExtension x controlname of
           Some e \<Rightarrow> Inl e
         | None \<Rightarrow>
            Inr (push_expected BLOCKENTRYTYPE_EXTENSIONCONTROL
                   (s\<lparr>TheStack := identifier_entry controlname # TheStack s,
                      ExtensionControlKeywords := controlname # ExtensionControlKeywords s\<rparr>))))"

definition scope_entry :: "scope_ref \<Rightarrow> StackEntry" where
  "scope_entry r =
     \<lparr>Type = STACKENTRYTYPE_SCOPE, StringValue = [], OperationPointer = None,
      ScopePointer = Some r\<rparr>"

text \<open>The part of \<open>EnterBlock\<close> after the early returns: the new block and its scope.\<close>

definition open_block :: "Collaborators \<Rightarrow> ParserState \<Rightarrow> failure + ParserState" where
  "open_block x s =
     (let (b, s1) = alloc_block s;
          type = (case ExpectedBlockTypes s of [] \<Rightarrow> BLOCKENTRYTYPE_FREE | t # _ \<Rightarrow> t);
          entry = BlockEntry (Some b) type;
          (r, s2) = alloc_scope s1
      in
        and_then
          (if type = BLOCKENTRYTYPE_TASK \<or> type = BLOCKENTRYTYPE_THREAD then
             and_then (update_scope r (\<lambda>sc. sc\<lparr>ParentScope := Some (GlobalScope s)\<rparr>) s2) (\<lambda>s3.
               Inr (s3\<lparr>DisplacedScopes := CurrentScope s # DisplacedScopes s3\<rparr>))
           else if type = BLOCKENTRYTYPE_PARALLELFOR \<or> type = BLOCKENTRYTYPE_EXTENSIONCONTROL then
             update_scope r (\<lambda>sc. (AddVariable (ControlVarName s) (ControlVarType s) sc)
                                     \<lparr>ParentScope := CurrentScope s\<rparr>) s2
           else
             update_scope r (\<lambda>sc. sc\<lparr>ParentScope := CurrentScope s\<rparr>) s2) (\<lambda>s3.
        let s4 = s3\<lparr>CurrentScope := Some r\<rparr> in
        and_then
          (if type = BLOCKENTRYTYPE_FUNCTION_NOCREATE then EnterFunctionBlock x entry s4
           else if type = BLOCKENTRYTYPE_IF then
             and_then (tail_operation_type x s4) (\<lambda>t.
               if t \<noteq> EpochVariableType_Boolean
               then Inr (ReportFatalError ''Condition in if() statement must be a boolean expression'' s4)
               else Inr s4)
           else if type = BLOCKENTRYTYPE_ELSEIF then
             and_then (tail_operation_type x s4) (\<lambda>t.
               if t \<noteq> EpochVariableType_Boolean
               then Inr (ReportFatalError ''Condition in elseif() statement must be a boolean expression'' s4)
               else Inr s4)
           else Inr s4) (\<lambda>s5.
        and_then (BindToScope b (CurrentScope s5) (s5\<lparr>Blocks := entry # Blocks s5\<rparr>)) (\<lambda>s6.
          Inr (s6\<lparr>ExpectedBlockTypes := tl (ExpectedBlockTypes s6)\<rparr>)))))"

definition EnterBlock :: "Collaborators \<Rightarrow> ParserState \<Rightarrow> failure + ParserState" where
  "EnterBlock x s =
     (case ExpectedBlockTypes s of
        [] \<Rightarrow> open_block x s
      | t # rest \<Rightarrow>
         if t = BLOCKENTRYTYPE_WHILELOOP then Inr (s\<lparr>ExpectedBlockTypes := rest\<rparr>)
         else if t = BLOCKENTRYTYPE_MSGDISPATCH then
           (case MessageDispatchScope s of
              None \<Rightarrow> Inl InvalidAccess
            | Some m \<Rightarrow>
               and_then (update_scope m (\<lambda>sc. sc\<lparr>ParentScope := CurrentScope s\<rparr>) s) (\<lambda>s1.
                 open_block x (s1\<lparr>CurrentScope := Some m,
                                 TheStack := scope_entry m # TheStack s1,
                                 MessageDispatchScope := None\<rparr>)))
         else if t = BLOCKENTRYTYPE_RESPONSEMAP then Inr (s\<lparr>ExpectedBlockTypes := rest\<rparr>)
         else open_block x s)"


text \<open>\<open>std::auto_ptr<VM::Block> body(Blocks.back().TheBlock); Blocks.pop_back();\<close> and the
  plain \<open>Blocks.pop_back()\<close>.\<close>

definition pop_block :: "ParserState \<Rightarrow> failure + block_ref \<times> ParserState" where
  "pop_block s = and_then (back_block s) (\<lambda>b. Inr (b, s\<lparr>Blocks := tl (Blocks s)\<rparr>))"

definition pop_Blocks :: "ParserState \<Rightarrow> failure + ParserState" where
  "pop_Blocks s =
     (case Blocks s of
        [] \<Rightarrow> Inl InvalidAccess
      | _ # rest \<Rightarrow> Inr (s\<lparr>Blocks := rest\<rparr>))"

text \<open>The cases of the switch of \<open>ExitBlock\<close>, each ending as the source does: with
  \<open>break\<close> (the scope is left after the switch) or with \<open>return\<close>.\<close>

definition ExitBlock_IF :: "Collaborators \<Rightarrow> ParserState \<Rightarrow> failure + ParserState" where
  "ExitBlock_IF x s =
     (case TheStack s of
        [] \<Rightarrow> Inl InvalidAccess
      | entry # _ \<Rightarrow>
         and_then (pop_block s) (\<lambda>(ifblock, s1).
           let reject = (\<lambda>msg. and_then (pop_TheStack (ReportFatalError msg s1)) leave_scope);
               accept = and_then (AddOperationToCurrentBlock (If ifblock None None) s1) (\<lambda>s2.
                        and_then (pop_TheStack s2) leave_scope)
           in
             if Type entry = STACKENTRYTYPE_IDENTIFIER then
               (if GetVariableType x s1 (StringValue entry) \<noteq> EpochVariableType_Boolean
                then reject ''Conditional variables must be of the boolean type''
                else accept)
             else if Type entry = STACKENTRYTYPE_OPERATION then
               (case OperationPointer entry of
                  None \<Rightarrow> Inl InvalidAccess
                | Some op \<Rightarrow>
                   if GetType x s1 op \<noteq> EpochVariableType_Boolean
                   then reject ''Conditional expression must be of the boolean type''
                   else accept)
             else reject ''Expected a conditional expression here''))"

text \<open>In the case of an operation entry that is not Boolean the source has no \<open>return\<close>
  after its clean-up, so control goes on to the statements that follow the checks.\<close>

definition ExitBlock_ELSEIF :: "Collaborators \<Rightarrow> ParserState \<Rightarrow> failure + ParserState" where
  "ExitBlock_ELSEIF x s =
     (case TheStack s of
        [] \<Rightarrow> Inl InvalidAccess
      | entry # _ \<Rightarrow>
         and_then (pop_block s) (\<lambda>(savedblock, s1).
         and_then (AddOperation savedblock ExitIfChain s1) (\<lambda>s2.
           let cleanup = (\<lambda>msg. and_then (pop_Blocks (ReportFatalError msg s2)) (\<lambda>s3.
                                 and_then (pop_TheStack s3) leave_scope));
               attach = (\<lambda>s3. and_then (AddOperationToCurrentBlock (ElseIf savedblock) s3) (\<lambda>s4.
                               and_then (pop_Blocks s4) (\<lambda>s5.
                               and_then (pop_TheStack s5) leave_scope)))
           in
             if Type entry = STACKENTRYTYPE_IDENTIFIER then
               (if GetVariableType x s2 (StringValue entry) \<noteq> EpochVariableType_Boolean
                then cleanup ''Conditional variables must be of the boolean type''
                else attach s2)
             else if Type entry = STACKENTRYTYPE_OPERATION then
               (case OperationPointer entry of
                  None \<Rightarrow> Inl InvalidAccess
                | Some op \<Rightarrow>
                   if GetType x s2 op \<noteq> EpochVariableType_Boolean
                   then and_then (cleanup ''Expected a conditional expression here'') attach
                   else attach s2)
             else cleanup ''Conditional variables must be of the boolean type'')))"

definition ExitBlock_ELSE :: "Collaborators \<Rightarrow> ParserState \<Rightarrow> failure + ParserState" where
  "ExitBlock_ELSE x s =
     and_then (pop_block s) (\<lambda>(elseblock, s1).
     and_then (back_block s1) (\<lambda>b.
       case BlockHeap s1 b of
         None \<Rightarrow> Inl InvalidAccess
       | Some blk \<Rightarrow>
          and_then
            (case walk_back (Operations blk) (TailView x s1 (Operations blk)) of
               Some i \<Rightarrow>
                 (case Operations blk ! i of
                    If trueblock falseblock elseifs \<Rightarrow>
                      update_block b (\<lambda>blk. blk\<lparr>Operations := (Operations blk)
                          [i := If trueblock (Some elseblock) elseifs]\<rparr>) s1
                  | _ \<Rightarrow> Inl InvalidAccess)
             | None \<Rightarrow>
                 Inr (ReportFatalError ''Unexpected else block with no matching if block'' s1))
            leave_scope))"

definition ExitBlock_WHILELOOP :: "ParserState \<Rightarrow> failure + ParserState" where
  "ExitBlock_WHILELOOP s =
     and_then (pop_block s) (\<lambda>(body, s1).
     and_then (pop_TheStack s1) (\<lambda>s2.
     and_then (AddOperationToCurrentBlock (WhileLoop body) s2) leave_scope))"

definition ExitBlock_FREE :: "ParserState \<Rightarrow> failure + ParserState" where
  "ExitBlock_FREE s =
     and_then (pop_block s) (\<lambda>(body, s1).
     and_then (AddOperationToCurrentBlock (ExecuteBlock body) s1) leave_scope)"

text \<open>\<open>TheStack.empty() || TheStack.back().DetermineEffectiveType(*CurrentScope) != type\<close>.\<close>

definition back_is_not :: "Collaborators \<Rightarrow> EpochVariableTypeID \<Rightarrow> ParserState \<Rightarrow> bool" where
  "back_is_not x type s =
     (case TheStack s of
        [] \<Rightarrow> True
      | entry # _ \<Rightarrow> DetermineEffectiveType x s entry \<noteq> type)"

text \<open>The tail shared by the task and thread cases: track the task name, emit the
  operation, pop the three stacks, and return without leaving a scope.\<close>

definition attach_fork :: "Operation \<Rightarrow> ParserState \<Rightarrow> failure + ParserState" where
  "attach_fork op s =
     (case SavedTaskNames s of
        [] \<Rightarrow> Inl InvalidAccess
      | taskname # names \<Rightarrow>
         and_then (AddOperationToCurrentBlock op (s\<lparr>DebugInfo := DebugInfo s @ [(op, taskname)]\<rparr>)) (\<lambda>s1.
         and_then (pop_TheStack s1) (\<lambda>s2.
           case DisplacedScopes s2 of
             [] \<Rightarrow> Inl InvalidAccess
           | _ # displaced \<Rightarrow>
               Inr (s2\<lparr>DisplacedScopes := displaced, SavedTaskNames := names\<rparr>))))"

definition ExitBlock_TASK :: "Collaborators \<Rightarrow> ParserState \<Rightarrow> failure + ParserState" where
  "ExitBlock_TASK x s =
     and_then (pop_block s) (\<lambda>(body, s1).
       case DisplacedScopes s1 of
         [] \<Rightarrow> Inl InvalidAccess
       | scope # _ \<Rightarrow>
          let s2 = s1\<lparr>CurrentScope := scope\<rparr> in
            if back_is_not x EpochVariableType_String s2 then
              Inl (ParserFailureException ''Task identifiers must be string values'')
            else attach_fork (ForkTask body) s2)"

definition ExitBlock_THREAD :: "Collaborators \<Rightarrow> ParserState \<Rightarrow> failure + ParserState" where
  "ExitBlock_THREAD x s =
     and_then (pop_block s) (\<lambda>(body, s1).
       case DisplacedScopes s1 of
         [] \<Rightarrow> Inl InvalidAccess
       | scope # _ \<Rightarrow>
          let s2 = s1\<lparr>CurrentScope := scope\<rparr> in
            if back_is_not x EpochVariableType_String s2 then
              Inl (ParserFailureException ''Thread pool identifiers must be string values'')
            else
              and_then (pop_TheStack s2) (\<lambda>s3.
                if back_is_not x EpochVariableType_String s3 then
                  Inl (ParserFailureException ''Thread identifiers must be string values'')
                else attach_fork (ForkThread body) s3))"

definition ExitBlock_PARALLELFOR :: "Collaborators \<Rightarrow> ParserState \<Rightarrow> failure + ParserState" where
  "ExitBlock_PARALLELFOR x s =
     and_then (pop_block s) (\<lambda>(body, s1).
       if back_is_not x EpochVariableType_Integer s1 then
         Inl (ParserFailureException ''Last parameter to parallelfor() should be a thread count'')
       else
         and_then (pop_TheStack s1) (\<lambda>s2.
           if back_is_not x EpochVariableType_Integer s2 then
             Inl (ParserFailureException ''Third parameter to parallelfor() should be an upper boundary value'')
           else
             and_then (pop_TheStack s2) (\<lambda>s3.
               if back_is_not x EpochVariableType_Integer s3 then
                 Inl (ParserFailureException ''Second parameter to parallelfor() should be a lower boundary value'')
               else
                 and_then (pop_TheStack s3) (\<lambda>s4.
                 and_then
                   (case TheStack s4 of
                      [] \<Rightarrow>
                        Inr (ReportFatalError ''First parameter to parallelfor() should be a loop counter variable name'' s4)
                    | entry # _ \<Rightarrow>
                        if Type entry \<noteq> STACKENTRYTYPE_IDENTIFIER then
                          Inr (ReportFatalError ''First parameter to parallelfor() should be a loop counter variable name'' s4)
                        else
                          AddOperationToCurrentBlock (ParallelFor body (StringValue entry) True 0)
                            (PoolStaticString (StringValue entry) s4)) (\<lambda>s5.
                 and_then (pop_TheStack s5) leave_scope)))))"

definition ExitBlock :: "Collaborators \<Rightarrow> ParserState \<Rightarrow> failure + ParserState" where
  "ExitBlock x s =
     (case Blocks s of
        [] \<Rightarrow> Inl InvalidAccess
      | entry # _ \<Rightarrow>
         (case EntryType entry of
            BLOCKENTRYTYPE_FUNCTION \<Rightarrow>
              Inl (ParserFailureException ''The grammar tried to do something unspeakable.'')
          | BLOCKENTRYTYPE_FUNCTION_NOCREATE \<Rightarrow> and_then (ExitFunctionBlock x s) leave_scope
          | BLOCKENTRYTYPE_DOLOOP \<Rightarrow> leave_scope s
          | BLOCKENTRYTYPE_IF \<Rightarrow> ExitBlock_IF x s
          | BLOCKENTRYTYPE_ELSEIF \<Rightarrow> ExitBlock_ELSEIF x s
          | BLOCKENTRYTYPE_ELSE \<Rightarrow> ExitBlock_ELSE x s
          | BLOCKENTRYTYPE_WHILELOOP \<Rightarrow> ExitBlock_WHILELOOP s
          | BLOCKENTRYTYPE_FREE \<Rightarrow> ExitBlock_FREE s
          | BLOCKENTRYTYPE_TASK \<Rightarrow> ExitBlock_TASK x s
          | BLOCKENTRYTYPE_THREAD \<Rightarrow> ExitBlock_THREAD x s
          | BLOCKENTRYTYPE_MSGDISPATCH \<Rightarrow> Inr s
          | BLOCKENTRYTYPE_RESPONSEMAP \<Rightarrow> Inr s
          | BLOCKENTRYTYPE_PARALLELFOR \<Rightarrow> ExitBlock_PARALLELFOR x s
          | BLOCKENTRYTYPE_EXTENSIONCONTROL \<Rightarrow> and_then (ExitExtensionControlBlock x s) leave_scope
          | _ \<Rightarrow>
              Inl (ParserFailureException ''Invalid block type; this probably reflects corruption in the parser'')))"

text \<open>\<open>(TheStack.rbegin() + 3)->StringValue\<close> reads the fourth entry from the top.\<close>

definition RegisterEndOfParallelFor :: "ParserState \<Rightarrow> failure + ParserState" where
  "RegisterEndOfParallelFor s =
     (case PassedParameterCount s of
        [] \<Rightarrow> Inl InvalidAccess
      | count # _ \<Rightarrow>
         let s1 = (if count \<noteq> 4 then ReportFatalError ''parallelfor() expects 4 parameters'' s else s)
         in
           if length (TheStack s1) < 4 then Inl InvalidAccess
           else
             PopParameterCount
               (s1\<lparr>ControlVarName := StringValue (TheStack s1 ! 3),
                   ControlVarType := EpochVariableType_Integer\<rparr>))"


text \<open>A builder state inside a block of the given type (block 2, with scope 3) that was
  opened inside a free block (block 1) of the global scope, with the given entries on
  the builder stack (the last pushed first).\<close>

definition nested_block_state :: "BlockType \<Rightarrow> StackEntry list \<Rightarrow> ParserState" where
  "nested_block_state type entries =
     new_ParserState
       \<lparr>ScopeHeap := (ScopeHeap new_ParserState)(3 := Some (new_ScopeDescription\<lparr>ParentScope := Some 0\<rparr>)),
        BlockHeap := (\<lambda>r. None)(1 := Some \<lparr>Operations = [], BoundScope = Some 0\<rparr>,
                                   2 := Some \<lparr>Operations = [], BoundScope = Some 3\<rparr>),
        NextRef := 4,
        CurrentScope := Some 3,
        TheStack := entries,
        Blocks := [BlockEntry (Some 2) type, BlockEntry (Some 1) BLOCKENTRYTYPE_FREE]\<rparr>"

text \<open>The condition entry on the builder stack is accepted by the \<open>if\<close> and \<open>elseif\<close>
  cases of \<open>ExitBlock\<close>: a Boolean variable, or an operation of Boolean type.\<close>

definition boolean_condition :: "Collaborators \<Rightarrow> ParserState \<Rightarrow> StackEntry \<Rightarrow> bool" where
  "boolean_condition x s entry \<longleftrightarrow>
     (Type entry = STACKENTRYTYPE_IDENTIFIER
        \<and> GetVariableType x s (StringValue entry) = EpochVariableType_Boolean)
     \<or> (Type entry = STACKENTRYTYPE_OPERATION
        \<and> (\<exists>op. OperationPointer entry = Some op \<and> GetType x s op = EpochVariableType_Boolean))"

text \<open>A builder state after an \<open>if\<close> block: block 2 (scope 3, inside free block 1 of the
  global scope) holds a condition and the given \<open>If\<close> operation, whose true block is
  block 10; block 12 is an else-if wrapper's block holding a condition, block 14 a body
  being closed; \<open>inner\<close> are the entries of the blocks open inside block 2.\<close>

definition if_chain_state :: "Operation \<Rightarrow> BlockEntry list \<Rightarrow> StackEntry list \<Rightarrow> ParserState" where
  "if_chain_state ifop inner entries =
     new_ParserState
       \<lparr>ScopeHeap := (ScopeHeap new_ParserState)
           (3 := Some (new_ScopeDescription\<lparr>ParentScope := Some 0\<rparr>),
            5 := Some (new_ScopeDescription\<lparr>ParentScope := Some 3\<rparr>),
            13 := Some (new_ScopeDescription\<lparr>ParentScope := Some 3\<rparr>)),
        BlockHeap := (\<lambda>r. None)
           (1 := Some \<lparr>Operations = [], BoundScope = Some 0\<rparr>,
            2 := Some \<lparr>Operations = [OtherOperation ''PushBooleanLiteral'', ifop], BoundScope = Some 3\<rparr>,
            10 := Some \<lparr>Operations = [], BoundScope = Some 5\<rparr>,
            12 := Some \<lparr>Operations = [OtherOperation ''PushBooleanLiteral''], BoundScope = Some 13\<rparr>,
            14 := Some \<lparr>Operations = [], BoundScope = Some 5\<rparr>),
        NextRef := 20,
        CurrentScope := Some (if inner = [] then 3 else 5),
        TheStack := entries,
        Blocks := inner @ [BlockEntry (Some 2) BLOCKENTRYTYPE_FREE, BlockEntry (Some 1) BLOCKENTRYTYPE_FREE]\<rparr>"


subsection \<open>Structure definitions (Parser State Machine/Structures.cpp)\<close>

text \<open>
  Modelled from the spec: \<open>ScopeDescription::AddStructureType\<close> (its code is not among
  the sources at hand) registers the descriptor with the scope, under the structure's
  name, and with the Type Registry, under the next dense ID.
\<close>

definition AddStructureType :: "string \<Rightarrow> StructureType \<Rightarrow> ParserState \<Rightarrow> failure + ParserState" where
  "AddStructureType name t s =
     (case CurrentScope s of
        None \<Rightarrow> Inl InvalidAccess
      | Some r \<Rightarrow>
         (case ScopeHeap s r of
            None \<Rightarrow> Inl InvalidAccess
          | Some sc \<Rightarrow>
             let id = Suc (length (TypeRegistry s)) in
               Inr (s\<lparr>ScopeHeap := (ScopeHeap s)(r := Some (sc\<lparr>StructureTypes := StructureTypes sc @ [(name, id)]\<rparr>)),
                      TypeRegistry := TypeRegistry s @ [(id, r, t)]\<rparr>)))"

definition RegisterStructureType :: "string \<Rightarrow> ParserState \<Rightarrow> failure + ParserState" where
  "RegisterStructureType identifier s =
     (if CreatedStructureType s \<noteq> None then
        Inl (SyntaxException ''An incomplete structure type definition has already been started; nested definitions are not permitted'')
      else
        Inr (s\<lparr>CreatedStructureType := Some new_StructureType,
               VariableNameStack := identifier # VariableNameStack s\<rparr>))"

definition RegisterStructureMember :: "string \<Rightarrow> EpochVariableTypeID \<Rightarrow> ParserState \<Rightarrow> failure + ParserState" where
  "RegisterStructureMember identifier type s =
     (case CreatedStructureType s of
        None \<Rightarrow> Inl (ParserFailureException ''The grammar appears to have barfed; we're parsing structure members but no structure type declaration was found.'')
      | Some t \<Rightarrow>
         if type = EpochVariableType_Tuple \<or> type = EpochVariableType_Structure then
           Inl (ParserFailureException ''Grammar barf - we should be using RegisterStructureMemberUnknown instead!'')
         else
           Inr (s\<lparr>CreatedStructureType := Some (AddMember identifier type None t)\<rparr>))"

definition RegisterStructureUnknownTypeName :: "string \<Rightarrow> ParserState \<Rightarrow> ParserState" where
  "RegisterStructureUnknownTypeName type s = s\<lparr>UpcomingNestedMemberType := type\<rparr>"

definition RegisterStructureMemberUnknown :: "Collaborators \<Rightarrow> string \<Rightarrow> ParserState \<Rightarrow> failure + ParserState" where
  "RegisterStructureMemberUnknown x identifier s =
     (case CreatedStructureType s of
        None \<Rightarrow> Inl InvalidAccess
      | Some t \<Rightarrow>
         if HasTupleType x s (UpcomingNestedMemberType s) then
           let hint = GetTupleTypeID x s (UpcomingNestedMemberType s) in
             Inr (s\<lparr>CreatedStructureType :=
                     Some (AddMember identifier EpochVariableType_Tuple (Some hint) t)\<rparr>)
         else if HasStructureType x s (UpcomingNestedMemberType s) then
           let hint = GetStructureTypeID x s (UpcomingNestedMemberType s) in
             Inr (s\<lparr>CreatedStructureType :=
                     Some (AddMember identifier EpochVariableType_Structure (Some hint) t)\<rparr>)
         else if IsFunctionSignature x s (UpcomingNestedMemberType s) then
           Inr (s\<lparr>CreatedStructureType :=
                   Some (AddFunctionMember identifier (UpcomingNestedMemberType s) t)\<rparr>)
         else
           (case VariableNameStack s of
              [] \<Rightarrow> Inl InvalidAccess
            | name # _ \<Rightarrow>
               let s' = (if UpcomingNestedMemberType s = name
                         then ReportFatalError ''A structure cannot contain an instance of itself'' s
                         else ReportFatalError ''Unrecognized type; cannot add member to structure'' s)
               in Inr (s'\<lparr>CreatedStructureType :=
                          Some (AddMember identifier EpochVariableType_Error None t)\<rparr>)))"

definition FinishStructureType :: "Collaborators \<Rightarrow> ParserState \<Rightarrow> failure + ParserState" where
  "FinishStructureType x s =
     (case CreatedStructureType s of
        None \<Rightarrow> Inl InvalidAccess
      | Some t \<Rightarrow>
         (case VariableNameStack s of
            [] \<Rightarrow> Inl InvalidAccess
          | name # names \<Rightarrow>
             (case (if MemberOrder t = [] then
                      Inr (ReportFatalError ''Structures must contain at least one member'' s)
                    else
                      AddStructureType name (ComputeOffsets x s t) s) of
                Inl e \<Rightarrow> Inl e
              | Inr s' \<Rightarrow>
                 Inr (s'\<lparr>VariableNameStack := names, CreatedStructureType := None\<rparr>))))"


text \<open>
  The grammar's actions for one structure definition, in the order in which it issues
  them: open the definition, register the members one by one (a member of a primitive
  type directly, any other member by its type name first), close the definition.
  A member declared with a primitive type is \<open>plain\<close> when that type is not Tuple or
  Structure (for which the grammar uses the type name form).
\<close>

datatype MemberDeclaration =
    KnownMember string EpochVariableTypeID
  | UnknownMember string string

fun declared_name :: "MemberDeclaration \<Rightarrow> string" where
  "declared_name (KnownMember identifier type) = identifier"
| "declared_name (UnknownMember typename identifier) = identifier"

fun RegisterMembers :: "Collaborators \<Rightarrow> MemberDeclaration list \<Rightarrow> ParserState \<Rightarrow> failure + ParserState" where
  "RegisterMembers x [] s = Inr s"
| "RegisterMembers x (KnownMember identifier type # ms) s =
     (case RegisterStructureMember identifier type s of
        Inl e \<Rightarrow> Inl e
      | Inr s' \<Rightarrow> RegisterMembers x ms s')"
| "RegisterMembers x (UnknownMember typename identifier # ms) s =
     (case RegisterStructureMemberUnknown x identifier (RegisterStructureUnknownTypeName typename s) of
        Inl e \<Rightarrow> Inl e
      | Inr s' \<Rightarrow> RegisterMembers x ms s')"

definition DefineStructure ::
  "Collaborators \<Rightarrow> string \<Rightarrow> MemberDeclaration list \<Rightarrow> ParserState \<Rightarrow> failure + ParserState" where
  "DefineStructure x name members s =
     (case RegisterStructureType name s of
        Inl e \<Rightarrow> Inl e
      | Inr s1 \<Rightarrow>
         (case RegisterMembers x members s1 of
            Inl e \<Rightarrow> Inl e
          | Inr s2 \<Rightarrow> FinishStructureType x s2))"

definition plain_member :: "MemberDeclaration \<Rightarrow> bool" where
  "plain_member m \<longleftrightarrow>
     (case m of
        KnownMember identifier type \<Rightarrow>
          type \<noteq> EpochVariableType_Tuple \<and> type \<noteq> EpochVariableType_Structure
      | UnknownMember typename identifier \<Rightarrow> True)"


text \<open>
  Collaborators that know the structure types registered with the current scope, and a
  builder in whose global scope a structure \<open>S\<close> is registered (under the ID 1) while a
  structure named \<open>S\<close> is being defined, its next member being declared of type \<open>S\<close>.
\<close>

definition registered_structures :: "ParserState \<Rightarrow> (string \<times> nat) list" where
  "registered_structures s =
     (case CurrentScope s of
        None \<Rightarrow> []
      | Some r \<Rightarrow> (case ScopeHeap s r of None \<Rightarrow> [] | Some sc \<Rightarrow> StructureTypes sc))"

definition scope_collaborators :: Collaborators where
  "scope_collaborators =
     plain_collaborators
       \<lparr>HasStructureType := (\<lambda>s name. map_of (registered_structures s) name \<noteq> None),
        GetStructureTypeID := (\<lambda>s name.
           case map_of (registered_structures s) name of None \<Rightarrow> 0 | Some hint \<Rightarrow> hint)\<rparr>"

definition redefinition_state :: ParserState where
  "redefinition_state =
     new_ParserState
       \<lparr>ScopeHeap := (\<lambda>r. None)(0 := Some (new_ScopeDescription\<lparr>StructureTypes := [(''S'', 1)]\<rparr>)),
        TypeRegistry := [(1, 0, AddMember ''a'' EpochVariableType_Integer None new_StructureType)],
        CreatedStructureType := Some new_StructureType,
        VariableNameStack := [''S''],
        UpcomingNestedMemberType := ''S''\<rparr>"

subsection \<open>Infix expressions (Parser State Machine/Infix.cpp)\<close>

text \<open>
  The precedence levels, in the order of the enumeration; \<open>enum_value\<close> is the number
  the compiler gives each enumerator, which is what the loop over the levels counts
  with.
\<close>

datatype OperatorPrecedence =
    OPREC_MIN
  | OPREC_ASSIGNMENT
  | OPREC_BITWISE
  | OPREC_LOGICAL
  | OPREC_EQUALITY
  | OPREC_COMPARISON
  | OPREC_USER
  | OPREC_CALCASSIGN
  | OPREC_ADDITION
  | OPREC_MULTIPLICATION
  | OPREC_BOOLEAN
  | OPREC_CONCATENATION
  | OPREC_INCREMENT
  | OPREC_MEMBER
  | OPREC_MAX

fun enum_value :: "OperatorPrecedence \<Rightarrow> nat" where
  "enum_value OPREC_MIN = 0"
| "enum_value OPREC_ASSIGNMENT = 1"
| "enum_value OPREC_BITWISE = 2"
| "enum_value OPREC_LOGICAL = 3"
| "enum_value OPREC_EQUALITY = 4"
| "enum_value OPREC_COMPARISON = 5"
| "enum_value OPREC_USER = 6"
| "enum_value OPREC_CALCASSIGN = 7"
| "enum_value OPREC_ADDITION = 8"
| "enum_value OPREC_MULTIPLICATION = 9"
| "enum_value OPREC_BOOLEAN = 10"
| "enum_value OPREC_CONCATENATION = 11"
| "enum_value OPREC_INCREMENT = 12"
| "enum_value OPREC_MEMBER = 13"
| "enum_value OPREC_MAX = 14"

record InfixOperatorData =
  Precedence :: OperatorPrecedence
  FunctionName :: string

text \<open>
  \<open>InfixOperators\<close>, the table of all known infix operators, is a variable of the
  translation unit and not a member of the builder; the routines below take it as an
  argument. It is filled through \<open>DefineInfixOperator\<close> only (at start-up for the built-in
  operators, and by \<open>RegisterInfixFunction\<close> for a user-defined one, at the level
  \<open>OPREC_USER\<close> and with its own name as the function to call); \<open>std::map::insert\<close>
  leaves an existing entry as it is.
\<close>

type_synonym InfixOperatorTable = "string \<Rightarrow> InfixOperatorData option"

definition DefineInfixOperator ::
  "string \<Rightarrow> string \<Rightarrow> OperatorPrecedence \<Rightarrow> InfixOperatorTable \<Rightarrow> InfixOperatorTable" where
  "DefineInfixOperator operatorname functionname precedence InfixOperators =
     (case InfixOperators operatorname of
        Some entry \<Rightarrow> InfixOperators
      | None \<Rightarrow>
          InfixOperators(operatorname \<mapsto>
            \<lparr>Precedence = precedence, FunctionName = functionname\<rparr>))"

definition RegisterInfixFunction :: "string \<Rightarrow> InfixOperatorTable \<Rightarrow> InfixOperatorTable" where
  "RegisterInfixFunction functionname InfixOperators =
     DefineInfixOperator functionname functionname OPREC_USER InfixOperators"

definition LookupInfixAlias :: "InfixOperatorTable \<Rightarrow> string \<Rightarrow> failure + string" where
  "LookupInfixAlias InfixOperators opname =
     (case InfixOperators opname of
        Some entry \<Rightarrow> Inr (FunctionName entry)
      | None \<Rightarrow> Inl (ParserFailureException ''Unrecognized infix operator''))"

definition GetInfixPrecedence :: "InfixOperatorTable \<Rightarrow> string \<Rightarrow> failure + nat" where
  "GetInfixPrecedence InfixOperators opname =
     (case InfixOperators opname of
        Some entry \<Rightarrow> Inr (enum_value (Precedence entry))
      | None \<Rightarrow> Inl (ParserFailureException ''Unrecognized infix operator''))"

text \<open>
  The three tokens that \<open>FinalizeInfixExpression\<close> compares with: the assignment
  operator and the names of the two short-circuiting functions (the headers that spell
  out \<open>Operators::Assign\<close>, \<open>Keywords::Or\<close> and \<open>Keywords::And\<close> are not among the sources
  at hand; the spelling is that of the language).
\<close>

definition Operators_Assign :: string where "Operators_Assign = ''=''"
definition Keywords_Or :: string where "Keywords_Or = ''or''"
definition Keywords_And :: string where "Keywords_And = ''and''"

text \<open>
  An infix unit: the raw operations of one operand together with its stack entries, or
  a sequence of units treated as one. \<open>PushContents\<close> yields the operations that the
  unit adds to the tail of a block, \<open>PushOperandsToStack\<close> the entries it pushes, in the
  order of the pushes.
\<close>

datatype InfixUnit =
    InfixUnitRawOperations (PushOperations: "Operation list") (Operands: "StackEntry list")
  | InfixUnitCompound (Units: "InfixUnit list")

fun PushContents :: "InfixUnit \<Rightarrow> Operation list" where
  "PushContents (InfixUnitRawOperations pushoperations operands) = pushoperations"
| "PushContents (InfixUnitCompound units) = concat (map PushContents units)"

fun PushOperandsToStack :: "InfixUnit \<Rightarrow> StackEntry list" where
  "PushOperandsToStack (InfixUnitRawOperations pushoperations operands) = operands"
| "PushOperandsToStack (InfixUnitCompound units) = concat (map PushOperandsToStack units)"

fun ClearOperands :: "InfixUnit \<Rightarrow> InfixUnit" where
  "ClearOperands (InfixUnitRawOperations pushoperations operands) =
     InfixUnitRawOperations pushoperations []"
| "ClearOperands (InfixUnitCompound units) = InfixUnitCompound (map ClearOperands units)"

fun ClearOperations :: "InfixUnit \<Rightarrow> InfixUnit" where
  "ClearOperations (InfixUnitRawOperations pushoperations operands) =
     InfixUnitRawOperations [] operands"
| "ClearOperations (InfixUnitCompound units) = InfixUnitCompound (map ClearOperations units)"

text \<open>
  The collaborators of the infix routines whose code is not among the sources at hand:
  \<^item> \<open>IsCompoundOperator\<close>: whether \<open>dynamic_cast<CompoundOperator*>\<close> succeeds on the
    operation;
  \<^item> \<open>CompoundAddOperation\<close>: \<open>CompoundOperator::AddOperation\<close>, which hands an operation
    over to the compound operator;
  \<^item> \<open>ReturnInitialization\<close>: the block \<open>FunctionReturnInitializationBlocks[FunctionName]\<close>
    and the parameter scope of the function being defined, which the routine works on
    when no block is open.
\<close>

record InfixCollaborators =
  IsCompoundOperator :: "Operation \<Rightarrow> bool"
  CompoundAddOperation :: "Operation \<Rightarrow> Operation \<Rightarrow> Operation"
  ReturnInitialization :: "ParserState \<Rightarrow> failure + block_ref \<times> scope_ref option"

fun CopyInstructionsToOp :: "InfixCollaborators \<Rightarrow> InfixUnit \<Rightarrow> Operation \<Rightarrow> Operation" where
  "CopyInstructionsToOp y (InfixUnitRawOperations pushoperations operands) op =
     (if IsCompoundOperator y op then foldl (CompoundAddOperation y) op pushoperations else op)"
| "CopyInstructionsToOp y (InfixUnitCompound units) op =
     fold (CopyInstructionsToOp y) units op"

text \<open>
  The body of the loop of \<open>FinalizeInfixExpression\<close> for an operator other than the
  assignment: the two units \<open>first\<close> and \<open>second\<close> become one compound unit that ends
  with the push of the operator's operation. \<open>PassedParameterCount.top()\<close> is 2 while
  the operation is built and one less than it was (an \<open>unsigned\<close>) afterwards.
\<close>

definition decrement :: "nat \<Rightarrow> nat" where
  "decrement n = (n + (2 ^ 32 - 1)) mod 2 ^ 32"

definition compound_operation ::
  "Collaborators \<Rightarrow> EpochVariableTypeID \<Rightarrow> string \<Rightarrow> InfixUnit \<Rightarrow> InfixUnit \<Rightarrow> ParserState
     \<Rightarrow> failure + bool \<times> Operation \<times> ParserState" where
  "compound_operation x expressiontype opname first second s =
     (if opname = Keywords_Or then
        (if expressiontype = EpochVariableType_Integer \<or> expressiontype = EpochVariableType_Integer16
         then Inr (True, BitwiseOr expressiontype [], s)
         else if expressiontype = EpochVariableType_Boolean then Inr (True, LogicalOr [], s)
         else Inl (ParserFailureException ''Invalid type for boolean operator''))
      else if opname = Keywords_And then
        (if expressiontype = EpochVariableType_Integer \<or> expressiontype = EpochVariableType_Integer16
         then Inr (True, BitwiseAnd expressiontype [], s)
         else if expressiontype = EpochVariableType_Boolean then Inr (True, LogicalAnd [], s)
         else Inl (ParserFailureException ''Invalid type for boolean operator''))
      else
        and_then
          (CreateOperation x opname
             (s\<lparr>TheStack := rev (PushOperandsToStack second) @ rev (PushOperandsToStack first)
                   @ TheStack s\<rparr>))
          (\<lambda>(op, s'). Inr (False, op, s')))"

definition combine_units ::
  "Collaborators \<Rightarrow> InfixCollaborators \<Rightarrow> InfixOperatorTable \<Rightarrow> EpochVariableTypeID \<Rightarrow> string
     \<Rightarrow> InfixUnit \<Rightarrow> InfixUnit \<Rightarrow> ParserState \<Rightarrow> failure + InfixUnit \<times> ParserState" where
  "combine_units x y InfixOperators expressiontype operator first second s =
     (case PassedParameterCount s of
        [] \<Rightarrow> Inl InvalidAccess
      | actualparametercount # counts \<Rightarrow>
          and_then (LookupInfixAlias InfixOperators operator) (\<lambda>opname.
          and_then
            (compound_operation x expressiontype opname first second
               (s\<lparr>PassedParameterCount := 2 # counts\<rparr>))
            (\<lambda>(discardoperations, originalop, s').
               let newunit = InfixUnitCompound [ClearOperands first, second];
                   op = CopyInstructionsToOp y newunit originalop;
                   pushopunit = InfixUnitRawOperations [PushOperation op] [];
                   newunit = (if discardoperations then ClearOperations newunit else newunit)
               in
                 (case PassedParameterCount s' of
                    [] \<Rightarrow> Inl InvalidAccess
                  | count # counts' \<Rightarrow>
                      Inr (InfixUnitCompound (Units newunit @ [pushopunit]),
                           s'\<lparr>PassedParameterCount := decrement actualparametercount # counts'\<rparr>)))))"

text \<open>
  The local variables of \<open>FinalizeInfixExpression\<close> that live across the loop, and the
  two ways a scan of the operator list ends without an exception: the routine returns
  at once, or the loop goes on.
\<close>

record InfixLocals =
  units :: "InfixUnit list"
  ret :: bool
  injectlvalue :: string

datatype scan_step =
    Returned bool ParserState
  | Continued InfixLocals ParserState

text \<open>\<open>iter = InfixOperatorList.top().erase(iter)\<close>: the list on top of the stack is from
  now on the operators before the iterator and those after it.\<close>

definition erase_operator :: "string list \<Rightarrow> string list \<Rightarrow> ParserState \<Rightarrow> failure + ParserState" where
  "erase_operator kept rest s =
     (case InfixOperatorList s of
        [] \<Rightarrow> Inl InvalidAccess
      | ops # others \<Rightarrow> Inr (s\<lparr>InfixOperatorList := (kept @ rest) # others\<rparr>))"

text \<open>
  The inner loop for one precedence level: \<open>kept\<close> are the operators before \<open>iter\<close>, the
  list argument the ones from \<open>iter\<close> on, \<open>unititer\<close> the position of the unit iterator.
  Reading the unit at the end of the list, or stepping the iterator from there, is an
  invalid access.
\<close>

fun scan_operators ::
  "Collaborators \<Rightarrow> InfixCollaborators \<Rightarrow> InfixOperatorTable \<Rightarrow> EpochVariableTypeID \<Rightarrow> nat
     \<Rightarrow> string list \<Rightarrow> string list \<Rightarrow> nat \<Rightarrow> InfixLocals \<Rightarrow> ParserState \<Rightarrow> failure + scan_step" where
  "scan_operators x y InfixOperators expressiontype precedence kept [] unititer l s =
     Inr (Continued l s)"
| "scan_operators x y InfixOperators expressiontype precedence kept (operator # rest) unititer l s =
     and_then (GetInfixPrecedence InfixOperators operator) (\<lambda>level.
       if level = precedence then
         (if operator = Operators_Assign then
            (case TheStack s of
               [] \<Rightarrow> Inl InvalidAccess
             | entry # stack \<Rightarrow>
                 if GetVariableType x (s\<lparr>TheStack := stack\<rparr>) (StringValue entry) \<noteq> expressiontype
                 then
                   Inr (Returned False
                          (ReportFatalError ''Variable must have the same type as the expression''
                             (s\<lparr>TheStack := stack\<rparr>)))
                 else
                   and_then (erase_operator kept rest (s\<lparr>TheStack := stack\<rparr>)) (\<lambda>s'.
                     scan_operators x y InfixOperators expressiontype precedence kept rest unititer
                       (l\<lparr>injectlvalue := StringValue entry, ret := True\<rparr>) s'))
          else if Suc unititer < length (units l) then
            and_then
              (combine_units x y InfixOperators expressiontype operator
                 (units l ! unititer) (units l ! Suc unititer) s)
              (\<lambda>(newunit, s').
                 and_then (erase_operator kept rest s') (\<lambda>s''.
                   scan_operators x y InfixOperators expressiontype precedence kept rest unititer
                     (l\<lparr>units := take unititer (units l) @ newunit # drop (Suc (Suc unititer)) (units l)\<rparr>)
                     s''))
          else Inl InvalidAccess)
       else if operator \<noteq> Operators_Assign then
         (if unititer < length (units l) then
            scan_operators x y InfixOperators expressiontype precedence (kept @ [operator]) rest
              (Suc unititer) l s
          else Inl InvalidAccess)
       else
         scan_operators x y InfixOperators expressiontype precedence (kept @ [operator]) rest
           unititer l s)"

text \<open>The outer loop, over the levels \<open>precedence\<close>, \<open>precedence - 1\<close>, ... down to
  \<open>OPREC_MIN + 1\<close>; each level scans the operator list that is then on top of the
  stack, from its beginning and from the first unit.\<close>

fun combine_by_precedence ::
  "Collaborators \<Rightarrow> InfixCollaborators \<Rightarrow> InfixOperatorTable \<Rightarrow> EpochVariableTypeID \<Rightarrow> nat
     \<Rightarrow> InfixLocals \<Rightarrow> ParserState \<Rightarrow> failure + scan_step" where
  "combine_by_precedence x y InfixOperators expressiontype 0 l s = Inr (Continued l s)"
| "combine_by_precedence x y InfixOperators expressiontype (Suc p) l s =
     (case InfixOperatorList s of
        [] \<Rightarrow> Inl InvalidAccess
      | ops # others \<Rightarrow>
          and_then (scan_operators x y InfixOperators expressiontype (Suc p) [] ops 0 l s)
            (\<lambda>step.
               case step of
                 Returned result s' \<Rightarrow> Inr (Returned result s')
               | Continued l' s' \<Rightarrow>
                   combine_by_precedence x y InfixOperators expressiontype p l' s'))"

text \<open>
  The conversion of the operands into units. \<open>collect_unit\<close> pops \<open>numops\<close> operations
  off the tail of the working block into the unit, front first, and checks each: an
  operation of type Array that does not construct an array of the expression's type
  (directly or under a push) is a fatal error, reported once; an operation of any other
  type passes. \<open>collect_units\<close> does this for each operand, taking the operand's entry
  off the stack. \<open>numops\<close> is the number of operations in the block minus
  \<open>CountTailOps(1, scope)\<close>, a \<open>size_t\<close> difference, so a tail count above the number
  of operations makes the loop pop an empty block.
\<close>

fun constructs_array_of :: "EpochVariableTypeID \<Rightarrow> Operation \<Rightarrow> bool" where
  "constructs_array_of expressiontype (PushOperation (ConsArray elementtype n)) =
     (elementtype = expressiontype)"
| "constructs_array_of expressiontype (PushOperation op) = False"
| "constructs_array_of expressiontype (ConsArray elementtype n) = (elementtype = expressiontype)"
| "constructs_array_of expressiontype op = False"

fun collect_unit ::
  "Collaborators \<Rightarrow> block_ref \<Rightarrow> EpochVariableTypeID \<Rightarrow> nat \<Rightarrow> Operation list \<Rightarrow> bool \<Rightarrow> ParserState
     \<Rightarrow> failure + Operation list \<times> bool \<times> ParserState" where
  "collect_unit x workingblock expressiontype 0 pushoperations bailout s =
     Inr (pushoperations, bailout, s)"
| "collect_unit x workingblock expressiontype (Suc j) pushoperations bailout s =
     (case BlockHeap s workingblock of
        None \<Rightarrow> Inl InvalidAccess
      | Some blk \<Rightarrow>
          if Operations blk = [] then Inl InvalidAccess
          else
            let op = last (Operations blk);
                s' = s\<lparr>BlockHeap := (BlockHeap s)(workingblock :=
                         Some (blk\<lparr>Operations := butlast (Operations blk)\<rparr>))\<rparr>;
                optype = GetType x s' op
            in
              if \<not> bailout \<and> optype \<noteq> expressiontype \<and> optype = EpochVariableType_Array
                 \<and> \<not> constructs_array_of expressiontype op
              then
                collect_unit x workingblock expressiontype j (op # pushoperations) True
                  (ReportFatalError ''All values in the expression must be of the same type'' s')
              else
                collect_unit x workingblock expressiontype j (op # pushoperations) bailout s')"

fun collect_units ::
  "Collaborators \<Rightarrow> scope_ref option \<Rightarrow> block_ref \<Rightarrow> EpochVariableTypeID \<Rightarrow> nat \<Rightarrow> InfixUnit list
     \<Rightarrow> bool \<Rightarrow> ParserState \<Rightarrow> failure + InfixUnit list \<times> bool \<times> ParserState" where
  "collect_units x scope workingblock expressiontype 0 unitlist bailout s =
     Inr (unitlist, bailout, s)"
| "collect_units x scope workingblock expressiontype (Suc i) unitlist bailout s =
     (case BlockHeap s workingblock of
        None \<Rightarrow> Inl InvalidAccess
      | Some blk \<Rightarrow>
          let tailcount = CountTailOps x (s\<lparr>CurrentScope := scope\<rparr>) (Operations blk) 1 in
            if length (Operations blk) < tailcount then Inl InvalidAccess
            else
              and_then
                (collect_unit x workingblock expressiontype (length (Operations blk) - tailcount)
                   [] bailout s)
                (\<lambda>(pushoperations, bailout', s').
                   case TheStack s' of
                     [] \<Rightarrow> Inl InvalidAccess
                   | entry # stack \<Rightarrow>
                       collect_units x scope workingblock expressiontype i
                         (InfixUnitRawOperations pushoperations [entry] # unitlist) bailout'
                         (s'\<lparr>TheStack := stack\<rparr>)))"

text \<open>The clean-up after a failed check: every operator list is dropped, with one stack
  entry for each assignment operator in it, and the operand counts are cleared.\<close>

fun discard_operator_lists :: "string list list \<Rightarrow> StackEntry list \<Rightarrow> failure + StackEntry list" where
  "discard_operator_lists [] stack = Inr stack"
| "discard_operator_lists (ops # others) stack =
     and_then (pop_back_n (length (filter (\<lambda>operator. operator = Operators_Assign) ops)) stack)
       (discard_operator_lists others)"

text \<open>The block and the scope the routine works on.\<close>

definition working_block ::
  "InfixCollaborators \<Rightarrow> ParserState \<Rightarrow> failure + block_ref \<times> scope_ref option" where
  "working_block y s =
     (case Blocks s of
        [] \<Rightarrow> ReturnInitialization y s
      | entry # entries \<Rightarrow>
          (case TheBlock entry of
             None \<Rightarrow> Inl InvalidAccess
           | Some b \<Rightarrow> Inr (b, CurrentScope s)))"

fun add_operations :: "block_ref \<Rightarrow> Operation list \<Rightarrow> ParserState \<Rightarrow> failure + ParserState" where
  "add_operations b [] s = Inr s"
| "add_operations b (op # ops) s = and_then (AddOperation b op s) (add_operations b ops)"

text \<open>
  The end of the routine: the contents of the units go to the working block, unit by
  unit; then the deferred assignment is emitted, or the stack gets an entry for the new
  tail operation of the block (a null pointer is taken for the tail of an empty block);
  the operand count and the operator list of the phrase are popped.
\<close>

definition finish_expression ::
  "block_ref \<Rightarrow> InfixLocals \<Rightarrow> ParserState \<Rightarrow> failure + bool \<times> ParserState" where
  "finish_expression workingblock l s =
     and_then (add_operations workingblock (concat (map PushContents (units l))) s) (\<lambda>s1.
     and_then
       (if injectlvalue l \<noteq> [] then
          AddOperationToCurrentBlock (AssignValue (injectlvalue l))
            (PoolStaticString (injectlvalue l) s1)
        else
          (case BlockHeap s1 workingblock of
             None \<Rightarrow> Inl InvalidAccess
           | Some blk \<Rightarrow>
               Inr (s1\<lparr>TheStack :=
                      \<lparr>Type = STACKENTRYTYPE_OPERATION, StringValue = [],
                       OperationPointer =
                         (if Operations blk = [] then None else Some (last (Operations blk))),
                       ScopePointer = None\<rparr> # TheStack s1\<rparr>)))
       (\<lambda>s2.
          Inr (ret l,
               s2\<lparr>InfixOperandCount := tl (InfixOperandCount s2),
                  InfixOperatorList := tl (InfixOperatorList s2)\<rparr>)))"

text \<open>The destructor of \<open>restorescope\<close>, which runs on every way out.\<close>

definition restore_scope ::
  "scope_ref option \<Rightarrow> failure + bool \<times> ParserState \<Rightarrow> failure + bool \<times> ParserState" where
  "restore_scope OldCurrentScope result =
     (case result of
        Inl e \<Rightarrow> Inl e
      | Inr (returned, s) \<Rightarrow> Inr (returned, s\<lparr>CurrentScope := OldCurrentScope\<rparr>))"

text \<open>
  \<open>FinalizeInfixExpression(isfirstrun, scope)\<close>: one pass over the current infix
  expression. The result is the value the routine returns and the builder afterwards.
\<close>

definition chained_assignment :: "ParserState \<Rightarrow> failure + bool \<times> ParserState" where
  "chained_assignment s =
     (case TheStack s of
        [] \<Rightarrow> Inl InvalidAccess
      | entry # stack \<Rightarrow>
          if Type entry \<noteq> STACKENTRYTYPE_IDENTIFIER then
            Inr (False,
                 ReportFatalError
                   ''Expected a variable name on the left side of the assignment operator'' s)
          else
            and_then (back_block s) (\<lambda>b.
              case BlockHeap s b of
                None \<Rightarrow> Inl InvalidAccess
              | Some blk \<Rightarrow>
                  if Operations blk = [] then Inl InvalidAccess
                  else
                    (case last (Operations blk) of
                       AssignValue previouslvaluename \<Rightarrow>
                         and_then
                           (AddOperationToCurrentBlock
                              (PushOperation (GetVariableValue previouslvaluename))
                              (PoolStaticString previouslvaluename (s\<lparr>TheStack := stack\<rparr>)))
                           (\<lambda>s1.
                         and_then
                           (AddOperationToCurrentBlock (AssignValue (StringValue entry))
                              (PoolStaticString (StringValue entry) s1))
                           (\<lambda>s2.
                              Inr (True,
                                   s2\<lparr>InfixOperandCount := tl (InfixOperandCount s2),
                                      InfixOperatorList := tl (InfixOperatorList s2)\<rparr>)))
                     | _ \<Rightarrow> Inl InvalidAccess)))"

definition FinalizeInfixExpression ::
  "Collaborators \<Rightarrow> InfixCollaborators \<Rightarrow> InfixOperatorTable \<Rightarrow> bool \<Rightarrow> scope_ref option
     \<Rightarrow> ParserState \<Rightarrow> failure + bool \<times> ParserState" where
  "FinalizeInfixExpression x y InfixOperators isfirstrun scope s =
     (case (InfixOperatorList s, InfixOperandCount s) of
        (ops # others, operandcount # counts) \<Rightarrow>
          if ops = [] \<or> (operandcount = 1 \<and> last ops \<noteq> Operators_Assign) then
            Inr (False, s\<lparr>InfixOperatorList := others, InfixOperandCount := counts\<rparr>)
          else if operandcount = 1 \<and> last ops = Operators_Assign \<and> \<not> isfirstrun then
            chained_assignment s
          else
            and_then (working_block y s) (\<lambda>(workingblock, workingscope).
              restore_scope (CurrentScope s)
                (let s0 = s\<lparr>CurrentScope := workingscope\<rparr> in
                 case BlockHeap s0 workingblock of
                   None \<Rightarrow> Inl InvalidAccess
                 | Some blk \<Rightarrow>
                     if Operations blk = [] then Inl InvalidAccess
                     else
                       let expressiontype = GetType x s0 (last (Operations blk)) in
                       and_then
                         (collect_units x scope workingblock expressiontype operandcount [] False s0)
                         (\<lambda>(unitlist, bailout, s1).
                            if bailout then
                              and_then (discard_operator_lists (InfixOperatorList s1) (TheStack s1))
                                (\<lambda>stack.
                                   Inr (False,
                                        s1\<lparr>InfixOperatorList := [], TheStack := stack,
                                           InfixOperandCount := []\<rparr>))
                            else
                              and_then
                                (combine_by_precedence x y InfixOperators expressiontype
                                   (enum_value OPREC_MAX - 1)
                                   \<lparr>units = unitlist, ret = False, injectlvalue = []\<rparr> s1)
                                (\<lambda>step.
                                   case step of
                                     Returned result s2 \<Rightarrow> Inr (result, s2)
                                   | Continued l s2 \<Rightarrow> finish_expression workingblock l s2))))
      | _ \<Rightarrow> Inr (False, s))"

text \<open>
  The loop over the levels on a phrase of two operators, written as two runs of the loop
  body: an intermediate form, through which the routine is compared with the words of
  the specification below.
\<close>

definition lowered_by_precedence ::
  "Collaborators \<Rightarrow> InfixCollaborators \<Rightarrow> InfixOperatorTable \<Rightarrow> EpochVariableTypeID \<Rightarrow> block_ref
     \<Rightarrow> string \<Rightarrow> string \<Rightarrow> InfixUnit \<Rightarrow> InfixUnit \<Rightarrow> InfixUnit \<Rightarrow> ParserState
     \<Rightarrow> failure + bool \<times> ParserState" where
  "lowered_by_precedence x y InfixOperators expressiontype workingblock o1 o2 a b c s =
     and_then (combine_units x y InfixOperators expressiontype o2 b c s) (\<lambda>(bc, s1).
     and_then (erase_operator [o1] [] s1) (\<lambda>s2.
     and_then (combine_units x y InfixOperators expressiontype o1 a bc s2) (\<lambda>(abc, s3).
     and_then (erase_operator [] [] s3) (\<lambda>s4.
       finish_expression workingblock \<lparr>units = [abc], ret = False, injectlvalue = []\<rparr> s4))))"

definition assignment_lowered_by_precedence ::
  "Collaborators \<Rightarrow> InfixCollaborators \<Rightarrow> InfixOperatorTable \<Rightarrow> EpochVariableTypeID \<Rightarrow> block_ref
     \<Rightarrow> string \<Rightarrow> InfixUnit \<Rightarrow> InfixUnit \<Rightarrow> ParserState \<Rightarrow> failure + bool \<times> ParserState" where
  "assignment_lowered_by_precedence x y InfixOperators expressiontype workingblock o2 b c s =
     and_then (combine_units x y InfixOperators expressiontype o2 b c s) (\<lambda>(bc, s1).
     and_then (erase_operator [Operators_Assign] [] s1) (\<lambda>s2.
       case TheStack s2 of
         [] \<Rightarrow> Inl InvalidAccess
       | a # stack \<Rightarrow>
           if GetVariableType x (s2\<lparr>TheStack := stack\<rparr>) (StringValue a) \<noteq> expressiontype then
             Inr (False,
                  ReportFatalError ''Variable must have the same type as the expression''
                    (s2\<lparr>TheStack := stack\<rparr>))
           else
             and_then (erase_operator [] [] (s2\<lparr>TheStack := stack\<rparr>)) (\<lambda>s3.
               finish_expression workingblock
                 \<lparr>units = [bc], ret = True, injectlvalue = StringValue a\<rparr> s3)))"

text \<open>
  The words of the specification. A unit is taken as what it holds: its contents (the
  operations it adds to the block) and its operands (the stack entries it stands for).
  \<^item> \<open>taken_over\<close>: a compound operator takes the given operations over, in their order,
    through \<open>CompoundOperator::AddOperation\<close>; any other operation is left as it is.
  \<^item> \<open>operator_operation\<close>: the operation of an operator applied to two units, with
    whether it has taken their contents over. For \<open>or\<close> and \<open>and\<close> it is the bitwise
    (Integer, Integer16) or logical (Boolean) compound of the two units' contents; for
    any other function it is what \<open>CreateOperation\<close> builds with the operands of the
    two units pushed on the stack, the second unit's on top.
  \<^item> \<open>apply_operator\<close>: applying an operator to two units yields the unit whose
    contents are the contents of both (none, when they were taken over) followed by the
    push of the operator's operation, and whose operands are those of the second unit;
    \<open>PassedParameterCount.top()\<close> is 2 while the operation is built and one less than
    it was afterwards.
  \<^item> \<open>lowered_phrase\<close>: the phrase \<open>a o1 b o2 c\<close>. \<open>o2\<close> is applied to the units for \<open>b\<close>
    and \<open>c\<close>, then \<open>o1\<close> to the unit for \<open>a\<close> and the unit produced for \<open>o2\<close>; the
    contents of the result go to the end of the working block, the stack gets an entry
    for the new tail operation, and the phrase's operand count and operator list are
    popped. The routine returns \<open>false\<close>.
  \<^item> \<open>lowered_assignment\<close>: the phrase \<open>a = b o2 c\<close>, where \<open>a\<close> is the identifier left on
    the stack under the operands. \<open>o2\<close> is applied to the units for \<open>b\<close> and \<open>c\<close>; then
    the identifier is taken off the stack and must name a variable of the expression's
    type (a fatal error otherwise); the contents of the unit go to the end of the
    working block, followed by the assignment to the variable. The routine returns
    \<open>true\<close>.
\<close>

type_synonym unit_view = "Operation list \<times> StackEntry list"

definition unit_view :: "InfixUnit \<Rightarrow> unit_view" where
  "unit_view u = (PushContents u, PushOperandsToStack u)"

definition taken_over :: "InfixCollaborators \<Rightarrow> Operation \<Rightarrow> Operation list \<Rightarrow> Operation" where
  "taken_over y op contents =
     (if IsCompoundOperator y op then foldl (CompoundAddOperation y) op contents else op)"

definition operator_operation ::
  "Collaborators \<Rightarrow> InfixCollaborators \<Rightarrow> EpochVariableTypeID \<Rightarrow> string \<Rightarrow> Operation list
     \<Rightarrow> StackEntry list \<Rightarrow> ParserState \<Rightarrow> failure + Operation \<times> bool \<times> ParserState" where
  "operator_operation x y t name contents operands s =
     (if name = Keywords_Or \<or> name = Keywords_And then
        (if t = EpochVariableType_Integer \<or> t = EpochVariableType_Integer16 then
           Inr (taken_over y (if name = Keywords_Or then BitwiseOr t [] else BitwiseAnd t []) contents,
                True, s)
         else if t = EpochVariableType_Boolean then
           Inr (taken_over y (if name = Keywords_Or then LogicalOr [] else LogicalAnd []) contents,
                True, s)
         else Inl (ParserFailureException ''Invalid type for boolean operator''))
      else
        (case CreateOperation x name (s\<lparr>TheStack := rev operands @ TheStack s\<rparr>) of
           Inl e \<Rightarrow> Inl e
         | Inr (op, s') \<Rightarrow> Inr (taken_over y op contents, False, s')))"

definition apply_operator ::
  "Collaborators \<Rightarrow> InfixCollaborators \<Rightarrow> InfixOperatorTable \<Rightarrow> EpochVariableTypeID \<Rightarrow> string
     \<Rightarrow> unit_view \<Rightarrow> unit_view \<Rightarrow> ParserState \<Rightarrow> failure + unit_view \<times> ParserState" where
  "apply_operator x y InfixOperators t operator first second s =
     (case PassedParameterCount s of
        [] \<Rightarrow> Inl InvalidAccess
      | n # counts \<Rightarrow>
         (case InfixOperators operator of
            None \<Rightarrow> Inl (ParserFailureException ''Unrecognized infix operator'')
          | Some d \<Rightarrow>
             (case operator_operation x y t (FunctionName d) (fst first @ fst second)
                     (snd first @ snd second) (s\<lparr>PassedParameterCount := 2 # counts\<rparr>) of
                Inl e \<Rightarrow> Inl e
              | Inr (op, takenover, s') \<Rightarrow>
                 (case PassedParameterCount s' of
                    [] \<Rightarrow> Inl InvalidAccess
                  | k # counts' \<Rightarrow>
                     Inr (((if takenover then [] else fst first @ fst second) @ [PushOperation op],
                           snd second),
                          s'\<lparr>PassedParameterCount := decrement n # counts'\<rparr>)))))"

definition lowered_phrase ::
  "Collaborators \<Rightarrow> InfixCollaborators \<Rightarrow> InfixOperatorTable \<Rightarrow> EpochVariableTypeID \<Rightarrow> block_ref
     \<Rightarrow> scope_ref option \<Rightarrow> string \<Rightarrow> string \<Rightarrow> unit_view \<Rightarrow> unit_view \<Rightarrow> unit_view \<Rightarrow> ParserState
     \<Rightarrow> failure + bool \<times> ParserState" where
  "lowered_phrase x y InfixOperators t workingblock callerscope o1 o2 a b c s =
     (case apply_operator x y InfixOperators t o2 b c s of
        Inl e \<Rightarrow> Inl e
      | Inr (bc, s1) \<Rightarrow>
         (case InfixOperatorList s1 of
            [] \<Rightarrow> Inl InvalidAccess
          | ops # others \<Rightarrow>
             (case apply_operator x y InfixOperators t o1 a bc
                     (s1\<lparr>InfixOperatorList := [o1] # others\<rparr>) of
                Inl e \<Rightarrow> Inl e
              | Inr (abc, s2) \<Rightarrow>
                 (case (InfixOperatorList s2, BlockHeap s2 workingblock) of
                    (ops' # others', Some blk) \<Rightarrow>
                      Inr (False,
                           s2\<lparr>BlockHeap := (BlockHeap s2)(workingblock :=
                                  Some (blk\<lparr>Operations := Operations blk @ fst abc\<rparr>)),
                              TheStack :=
                                \<lparr>Type = STACKENTRYTYPE_OPERATION, StringValue = [],
                                 OperationPointer = Some (last (fst abc)),
                                 ScopePointer = None\<rparr> # TheStack s2,
                              InfixOperandCount := tl (InfixOperandCount s2),
                              InfixOperatorList := others',
                              CurrentScope := callerscope\<rparr>)
                  | _ \<Rightarrow> Inl InvalidAccess))))"

definition lowered_assignment ::
  "Collaborators \<Rightarrow> InfixCollaborators \<Rightarrow> InfixOperatorTable \<Rightarrow> EpochVariableTypeID \<Rightarrow> block_ref
     \<Rightarrow> scope_ref option \<Rightarrow> string \<Rightarrow> unit_view \<Rightarrow> unit_view \<Rightarrow> ParserState
     \<Rightarrow> failure + bool \<times> ParserState" where
  "lowered_assignment x y InfixOperators t workingblock callerscope o2 b c s =
     (case apply_operator x y InfixOperators t o2 b c s of
        Inl e \<Rightarrow> Inl e
      | Inr (bc, s1) \<Rightarrow>
         (case (InfixOperatorList s1, TheStack s1) of
            (ops # others, a # stack) \<Rightarrow>
              if GetVariableType x (s1\<lparr>InfixOperatorList := [Operators_Assign] # others,
                                       TheStack := stack\<rparr>) (StringValue a) \<noteq> t
              then
                Inr (False,
                     (ReportFatalError ''Variable must have the same type as the expression''
                        (s1\<lparr>InfixOperatorList := [Operators_Assign] # others, TheStack := stack\<rparr>))
                       \<lparr>CurrentScope := callerscope\<rparr>)
              else
                (case BlockHeap s1 workingblock of
                   None \<Rightarrow> Inl InvalidAccess
                 | Some blk \<Rightarrow>
                    let s2 = s1\<lparr>TheStack := stack, InfixOperatorList := [] # others,
                                BlockHeap := (BlockHeap s1)(workingblock :=
                                  Some (blk\<lparr>Operations := Operations blk @ fst bc\<rparr>))\<rparr>
                    in
                      (case (if StringValue a \<noteq> [] then
                               AddOperationToCurrentBlock (AssignValue (StringValue a))
                                 (PoolStaticString (StringValue a) s2)
                             else
                               Inr (s2\<lparr>TheStack :=
                                      \<lparr>Type = STACKENTRYTYPE_OPERATION, StringValue = [],
                                       OperationPointer = Some (last (fst bc)),
                                       ScopePointer = None\<rparr> # stack\<rparr>)) of
                         Inl e \<Rightarrow> Inl e
                       | Inr s3 \<Rightarrow>
                          Inr (True,
                               s3\<lparr>InfixOperandCount := tl (InfixOperandCount s3),
                                  InfixOperatorList := others,
                                  CurrentScope := callerscope\<rparr>)))
          | _ \<Rightarrow> Inl InvalidAccess))"

text \<open>
  For running the model on concrete phrases: a dispatch of \<open>add\<close>, \<open>subtract\<close>,
  \<open>multiply\<close> and \<open>divide\<close> to the four arithmetic builders; compound operators that
  keep the operations handed to them; collaborators that give the push of a variable
  read the type of the variable; four of the operators; and the builder inside a
  function body after the operands of a phrase over the Integer variables \<open>r\<close>,
  \<open>a\<close>, \<open>b\<close> and \<open>c\<close> have been registered (one push per operand in the block, one
  identifier entry per operand on the stack, above the entries of the l-values).
\<close>

definition arithmetic_CreateOperation :: "string \<Rightarrow> ParserState \<Rightarrow> failure + Operation \<times> ParserState" where
  "arithmetic_CreateOperation name s =
     (if name = ''add'' then CreateOperation_Add plain_collaborators s
      else if name = ''subtract'' then CreateOperation_Subtract plain_collaborators s
      else if name = ''multiply'' then CreateOperation_Multiply plain_collaborators s
      else if name = ''divide'' then CreateOperation_Divide plain_collaborators s
      else Inr (OtherOperation name, s))"

fun plain_IsCompoundOperator :: "Operation \<Rightarrow> bool" where
  "plain_IsCompoundOperator (BitwiseOr t ops) = True"
| "plain_IsCompoundOperator (BitwiseAnd t ops) = True"
| "plain_IsCompoundOperator (LogicalOr ops) = True"
| "plain_IsCompoundOperator (LogicalAnd ops) = True"
| "plain_IsCompoundOperator op = False"

fun plain_CompoundAddOperation :: "Operation \<Rightarrow> Operation \<Rightarrow> Operation" where
  "plain_CompoundAddOperation (BitwiseOr t ops) op = BitwiseOr t (ops @ [op])"
| "plain_CompoundAddOperation (BitwiseAnd t ops) op = BitwiseAnd t (ops @ [op])"
| "plain_CompoundAddOperation (LogicalOr ops) op = LogicalOr (ops @ [op])"
| "plain_CompoundAddOperation (LogicalAnd ops) op = LogicalAnd (ops @ [op])"
| "plain_CompoundAddOperation compound op = compound"

definition plain_infix_collaborators :: InfixCollaborators where
  "plain_infix_collaborators =
     \<lparr>IsCompoundOperator = plain_IsCompoundOperator,
      CompoundAddOperation = plain_CompoundAddOperation,
      ReturnInitialization = (\<lambda>s. Inl InvalidAccess)\<rparr>"

definition expression_GetType :: "ParserState \<Rightarrow> Operation \<Rightarrow> EpochVariableTypeID" where
  "expression_GetType s op =
     (case op of
        PushOperation (GetVariableValue name) \<Rightarrow> plain_GetVariableType s name
      | _ \<Rightarrow> plain_GetType op)"

definition expression_collaborators :: Collaborators where
  "expression_collaborators =
     plain_collaborators\<lparr>GetType := expression_GetType,
                         CreateOperation := arithmetic_CreateOperation\<rparr>"

definition example_operators :: InfixOperatorTable where
  "example_operators =
     DefineInfixOperator Operators_Assign ''assign'' OPREC_ASSIGNMENT
       (DefineInfixOperator ''&&'' Keywords_And OPREC_BOOLEAN
          (DefineInfixOperator ''*'' ''multiply'' OPREC_MULTIPLICATION
             (DefineInfixOperator ''+'' ''add'' OPREC_ADDITION (\<lambda>name. None))))"

definition expression_state :: "string list \<Rightarrow> string list \<Rightarrow> string list \<Rightarrow> ParserState" where
  "expression_state lvalues operators operands =
     new_ParserState
       \<lparr>ScopeHeap := (\<lambda>r. None)(0 := Some
          (new_ScopeDescription
             \<lparr>Variables := [(''r'', EpochVariableType_Integer), (''a'', EpochVariableType_Integer),
                            (''b'', EpochVariableType_Integer), (''c'', EpochVariableType_Integer)]\<rparr>)),
        BlockHeap := (\<lambda>r. None)(1 := Some
          \<lparr>Operations = map (\<lambda>name. PushOperation (GetVariableValue name)) operands,
           BoundScope = Some 0\<rparr>),
        NextRef := 2,
        TheStack := rev (map identifier_entry (lvalues @ operands)),
        Blocks := [BlockEntry (Some 1) BLOCKENTRYTYPE_FUNCTION],
        PassedParameterCount := [length operands],
        InfixOperatorList := [operators],
        InfixOperandCount := [length operands]\<rparr>"


section \<open>The bytecode loader (Shared/Bytecode/Loading.cpp)\<close>

text \<open>
  The members of \<open>FileLoader\<close> and of the Program it loads into that the modelled
  routines touch. \<open>Buffer\<close> is the byte buffer (a character is a byte) and \<open>Offset\<close> the
  read position; a read past the end of the buffer is undefined behaviour in the C++ and
  is the failure \<open>ReadPastEnd\<close> here. \<open>ProgramStringPool\<close> is the Program's pool of
  interned strings, \<open>ProgramGlobalScope\<close> its global scope; \<open>LoadedScopes\<close> and
  \<open>LoadedBlocks\<close> are the stores of the scopes and blocks the loader works on;
  \<open>DeleteScopes\<close> is the rollback set. \<open>ExtensionCalls\<close> records the calls made to the
  extension registry and to the marshalling layer, which are outside the loader.
\<close>

datatype load_failure =
    InvalidBytecodeException string
  | StdException string
  | ReadPastEnd
  | NullPointer

datatype extension_call =
    RegisterExtensionLibrary string
  | BindToLanguageExtension string

record FileLoader =
  Buffer :: string
  Offset :: nat
  IsPrepass :: bool
  UsesConsole :: bool
  ProgramStringPool :: "string set"
  ProgramGlobalScope :: scope_ref
  LoadedScopes :: "scope_ref \<Rightarrow> ScopeDescription option"
  LoadedBlocks :: "block_ref \<Rightarrow> Block option"
  DeleteScopes :: "scope_ref set"
  ExtensionCalls :: "extension_call list"

text \<open>\<open>ExpectInstruction\<close>, \<open>ReadNumber\<close> (32 bits, little-endian) and
  \<open>ReadNullTerminatedString\<close>.\<close>

definition ExpectInstruction :: "char \<Rightarrow> FileLoader \<Rightarrow> load_failure + FileLoader" where
  "ExpectInstruction instruction s =
     (if length (Buffer s) \<le> Offset s then Inl ReadPastEnd
      else if Buffer s ! Offset s \<noteq> instruction then
        Inl (InvalidBytecodeException ''Expected a specific instruction, but a different instruction was found; ensure the binary is not corrupted'')
      else Inr (s\<lparr>Offset := Offset s + 1\<rparr>))"

definition ReadNumber :: "FileLoader \<Rightarrow> load_failure + 32 word \<times> FileLoader" where
  "ReadNumber s =
     (if length (Buffer s) < Offset s + 4 then Inl ReadPastEnd
      else
        Inr (of_nat (of_char (Buffer s ! Offset s)
                     + 256 * of_char (Buffer s ! (Offset s + 1))
                     + 65536 * of_char (Buffer s ! (Offset s + 2))
                     + 16777216 * of_char (Buffer s ! (Offset s + 3))),
             s\<lparr>Offset := Offset s + 4\<rparr>))"

definition ReadNullTerminatedString :: "FileLoader \<Rightarrow> load_failure + string \<times> FileLoader" where
  "ReadNullTerminatedString s =
     (let ret = takeWhile (\<lambda>c. c \<noteq> CHR 0x00) (drop (Offset s) (Buffer s)) in
        if length (Buffer s) \<le> Offset s + length ret then Inl ReadPastEnd
        else Inr (ret, s\<lparr>Offset := Offset s + length ret + 1\<rparr>))"

text \<open>
  \<open>widen\<close> (Shared/Utility/Strings.cpp) converts with \<open>mbstowcs_s\<close>, whose result depends on
  the C locale: the conversion is the parameter \<open>mbstowcs\<close>, which yields nothing for
  a string with an invalid character. A successful conversion counts the terminator in
  its required size, so the test for a required size of zero never fires.
\<close>

definition widen :: "(string \<Rightarrow> string option) \<Rightarrow> string \<Rightarrow> load_failure + string" where
  "widen mbstowcs str =
     (case mbstowcs str of
        None \<Rightarrow> Inl (StdException ''Cannot widen string - invalid character detected'')
      | Some wide \<Rightarrow> Inr wide)"

text \<open>\<open>FileLoader::WidenAndCache\<close>: widen, then \<open>PoolStaticString\<close> (modelled from the
  spec: the string is interned in the Program's string pool).\<close>

definition WidenAndCache ::
  "(string \<Rightarrow> string option) \<Rightarrow> string \<Rightarrow> FileLoader \<Rightarrow> load_failure + string \<times> FileLoader" where
  "WidenAndCache mbstowcs str s =
     (case widen mbstowcs str of
        Inl e \<Rightarrow> Inl e
      | Inr wide \<Rightarrow> Inr (wide, s\<lparr>ProgramStringPool := insert wide (ProgramStringPool s)\<rparr>))"

text \<open>\<open>FileLoader::CheckExtensions\<close>; \<open>CheckExtensions_loop\<close> is its \<open>for\<close> loop with the
  number of iterations left.\<close>

fun CheckExtensions_loop ::
  "(string \<Rightarrow> string option) \<Rightarrow> nat \<Rightarrow> FileLoader \<Rightarrow> load_failure + FileLoader" where
  "CheckExtensions_loop mbstowcs 0 s = Inr s"
| "CheckExtensions_loop mbstowcs (Suc n) s =
     (case ReadNullTerminatedString s of
        Inl e \<Rightarrow> Inl e
      | Inr (str, s1) \<Rightarrow>
         (case WidenAndCache mbstowcs str s1 of
            Inl e \<Rightarrow> Inl e
          | Inr (extensionname, s2) \<Rightarrow>
             CheckExtensions_loop mbstowcs n
               (if IsPrepass s2
                then s2\<lparr>ExtensionCalls := ExtensionCalls s2
                          @ [RegisterExtensionLibrary extensionname,
                             BindToLanguageExtension extensionname]\<rparr>
                else s2)))"

definition CheckExtensions :: "(string \<Rightarrow> string option) \<Rightarrow> FileLoader \<Rightarrow> load_failure + FileLoader" where
  "CheckExtensions mbstowcs s =
     (case ReadNumber s of
        Inl e \<Rightarrow> Inl e
      | Inr (numextensions, s1) \<Rightarrow> CheckExtensions_loop mbstowcs (unat numextensions) s1)"

text \<open>
  The \<open>ForkTask\<close> and \<open>ForkThread\<close> cases of \<open>GenerateOpFromByteCode\<close>. The two differ in
  the operation they construct, which is the argument \<open>fork\<close>. \<open>newblock\<close> is the block
  being filled (null on the prepass). What \<open>LoadScope\<close> and \<open>LoadCodeBlock\<close> read from
  the stream does not matter to these cases: the two routines are parameters, each
  yielding its pointer and the loader state it leaves; so is the opcode \<open>BeginBlock\<close> of
  \<open>Bytecode.h\<close>.
\<close>

record LoaderRoutines =
  BeginBlock :: char
  LoadScope :: "bool \<Rightarrow> FileLoader \<Rightarrow> load_failure + scope_ref option \<times> FileLoader"
  LoadCodeBlock :: "FileLoader \<Rightarrow> load_failure + block_ref option \<times> FileLoader"

definition UnregisterScopeToDelete :: "scope_ref \<Rightarrow> FileLoader \<Rightarrow> FileLoader" where
  "UnregisterScopeToDelete scope s = s\<lparr>DeleteScopes := DeleteScopes s - {scope}\<rparr>"

definition GenerateOpFromByteCode_Fork ::
  "(block_ref \<Rightarrow> Operation) \<Rightarrow> LoaderRoutines \<Rightarrow> block_ref option \<Rightarrow> FileLoader
     \<Rightarrow> load_failure + FileLoader" where
  "GenerateOpFromByteCode_Fork fork routines newblock s =
     (case ExpectInstruction (BeginBlock routines) s of
        Inl e \<Rightarrow> Inl e
      | Inr s1 \<Rightarrow>
         (case LoadScope routines False s1 of
            Inl e \<Rightarrow> Inl e
          | Inr (scope, s2) \<Rightarrow>
             (case LoadCodeBlock routines s2 of
                Inl e \<Rightarrow> Inl e
              | Inr (taskblock, s3) \<Rightarrow>
                 if IsPrepass s3 then Inr s3
                 else
                   (case (scope, taskblock, newblock) of
                      (Some r, Some tb, Some nb) \<Rightarrow>
                        (case LoadedScopes s3 r of
                           None \<Rightarrow> Inl NullPointer
                         | Some sc \<Rightarrow>
                            let s4 = s3\<lparr>LoadedScopes := (LoadedScopes s3)
                                        (r := Some (sc\<lparr>ParentScope := Some (ProgramGlobalScope s3)\<rparr>))\<rparr>
                            in
                              (case LoadedBlocks s4 tb of
                                 None \<Rightarrow> Inl NullPointer
                               | Some tblk \<Rightarrow>
                                  let s5 = (UnregisterScopeToDelete r s4)
                                             \<lparr>LoadedBlocks := (LoadedBlocks s4)
                                                (tb := Some (tblk\<lparr>BoundScope := Some r\<rparr>))\<rparr>
                                  in
                                    (case LoadedBlocks s5 nb of
                                       None \<Rightarrow> Inl NullPointer
                                     | Some nblk \<Rightarrow>
                                        Inr (s5\<lparr>LoadedBlocks := (LoadedBlocks s5)
                                               (nb := Some (nblk\<lparr>Operations :=
                                                  Operations nblk @ [fork tb]\<rparr>))\<rparr>))))
                    | _ \<Rightarrow> Inl NullPointer))))"

definition GenerateOpFromByteCode_ForkTask ::
  "LoaderRoutines \<Rightarrow> block_ref option \<Rightarrow> FileLoader \<Rightarrow> load_failure + FileLoader" where
  "GenerateOpFromByteCode_ForkTask = GenerateOpFromByteCode_Fork ForkTask"

definition GenerateOpFromByteCode_ForkThread ::
  "LoaderRoutines \<Rightarrow> block_ref option \<Rightarrow> FileLoader \<Rightarrow> load_failure + FileLoader" where
  "GenerateOpFromByteCode_ForkThread = GenerateOpFromByteCode_Fork ForkThread"


text \<open>A loader state on the second pass, about to read a block whose scope (7) was
  allocated on the prepass with some other parent, and routines that yield that scope
  and a fresh block (8); block 6 is the block being filled.\<close>

definition fork_loader_state :: FileLoader where
  "fork_loader_state =
     \<lparr>Buffer = [CHR 0x01], Offset = 0, IsPrepass = False, UsesConsole = False,
      ProgramStringPool = {}, ProgramGlobalScope = 0,
      LoadedScopes = (\<lambda>r. None)(0 := Some new_ScopeDescription,
                                 7 := Some (new_ScopeDescription\<lparr>ParentScope := Some 9\<rparr>)),
      LoadedBlocks = (\<lambda>r. None)(6 := Some \<lparr>Operations = [], BoundScope = Some 0\<rparr>,
                                 8 := Some \<lparr>Operations = [], BoundScope = None\<rparr>),
      DeleteScopes = {7}, ExtensionCalls = []\<rparr>"

definition fork_loader_routines :: LoaderRoutines where
  "fork_loader_routines =
     \<lparr>BeginBlock = CHR 0x01,
      LoadScope = (\<lambda>linktoglobal l. Inr (Some 7, l)),
      LoadCodeBlock = (\<lambda>l. Inr (Some 8, l))\<rparr>"


text \<open>
  Modelled from the spec: the extension table of the bytecode file, as its writer lays
  it out (the writer is not among the sources at hand): the count as a 32-bit
  little-endian number, then each library name followed by a null byte.
  \<open>extension_calls\<close> are the registry calls the prepass makes for a list of names.
\<close>

definition number_bytes :: "nat \<Rightarrow> string" where
  "number_bytes n =
     [char_of (n mod 256), char_of (n div 256 mod 256), char_of (n div 65536 mod 256),
      char_of (n div 16777216 mod 256)]"

definition extension_table :: "string list \<Rightarrow> string" where
  "extension_table names = number_bytes (length names) @ concat (map (\<lambda>name. name @ [CHR 0x00]) names)"

definition extension_calls :: "string list \<Rightarrow> extension_call list" where
  "extension_calls names =
     concat (map (\<lambda>name. [RegisterExtensionLibrary name, BindToLanguageExtension name]) names)"

text \<open>A loader at the start of its prepass over the given buffer, with an empty string
  pool.\<close>

definition prepass_state :: "string \<Rightarrow> FileLoader" where
  "prepass_state buffer =
     \<lparr>Buffer = buffer, Offset = 0, IsPrepass = True, UsesConsole = False,
      ProgramStringPool = {}, ProgramGlobalScope = 0,
      LoadedScopes = (\<lambda>r. None)(0 := Some new_ScopeDescription),
      LoadedBlocks = (\<lambda>r. None), DeleteScopes = {}, ExtensionCalls = []\<rparr>"


section \<open>The virtual machine: stack operations (Operations/StackOps.cpp)\<close>

text \<open>
  Modelled from the spec: r-values, the execution stack and the composite type lookups
  of a scope (their classes are not among the sources at hand). An r-value of Tuple or
  Structure type carries its type ID and its member values by name. The execution stack
  is a list of typed items whose head is the top; \<open>PushValueOntoStack\<close> adds one item,
  and fails when the r-value is not of the class it is cast to. A string is pushed as
  its pooled literal, an array or a buffer as its handle. A lookup of a type ID or of a
  member that is not there fails.
\<close>

datatype RValue =
    NullRValue
  | IntegerRValue "32 word"
  | Integer16RValue "16 word"
  | RealRValue "32 word"
  | BooleanRValue bool
  | StringRValue string
  | TupleRValue nat "(string \<times> RValue) list"
  | StructureRValue nat "(string \<times> RValue) list"
  | FunctionRValue string
  | AddressRValue nat
  | ArrayRValue nat
  | TaskHandleRValue nat
  | BufferRValue nat

datatype StackItem =
    IntegerItem "32 word"
  | Integer16Item "16 word"
  | RealItem "32 word"
  | BooleanItem bool
  | StringItem string
  | TupleItem nat
  | StructureItem nat
  | FunctionItem string
  | AddressItem nat
  | HandleItem nat
  | TaskHandleItem nat

datatype execution_failure =
    ExecutionException string
  | NotImplementedException string
  | BadCast
  | MissingEntry

record ExecutionScope =
  GetTupleType :: "nat \<Rightarrow> StructureType option"
  GetStructureType :: "nat \<Rightarrow> StructureType option"

definition GetMemberType :: "StructureType \<Rightarrow> string \<Rightarrow> EpochVariableTypeID option" where
  "GetMemberType t name = map_option MemberType (map_of (MemberInfoMap t) name)"

text \<open>\<open>PushOperation::DoPush\<close>. \<open>PushMembers\<close> is its loop over the reversed
  \<open>MemberOrder\<close>; the recursion descends into the member values, which the lemma below
  bounds.\<close>

lemma map_of_size_less:
  "map_of xs k = Some (v :: RValue) \<Longrightarrow> size v < Suc (size_list (size_prod (\<lambda>_. 0) size) xs)"
  by (induction xs) (auto split: if_splits)

function DoPush ::
  "EpochVariableTypeID \<Rightarrow> RValue \<Rightarrow> ExecutionScope \<Rightarrow> StackItem list \<Rightarrow> bool \<Rightarrow> bool
     \<Rightarrow> execution_failure + StackItem list"
and PushMembers ::
  "StructureType \<Rightarrow> (string \<times> RValue) list \<Rightarrow> string list \<Rightarrow> ExecutionScope \<Rightarrow> StackItem list
     \<Rightarrow> execution_failure + StackItem list"
where
  "DoPush type val scope stack isconsarray isconsfromfunction =
     (case type of
        EpochVariableType_Null \<Rightarrow> Inl (ExecutionException ''Cannot pass a null value on the stack'')
      | EpochVariableType_Integer \<Rightarrow>
          (case val of IntegerRValue v \<Rightarrow> Inr (IntegerItem v # stack) | _ \<Rightarrow> Inl BadCast)
      | EpochVariableType_Integer16 \<Rightarrow>
          (case val of Integer16RValue v \<Rightarrow> Inr (Integer16Item v # stack) | _ \<Rightarrow> Inl BadCast)
      | EpochVariableType_Real \<Rightarrow>
          (case val of RealRValue v \<Rightarrow> Inr (RealItem v # stack) | _ \<Rightarrow> Inl BadCast)
      | EpochVariableType_Boolean \<Rightarrow>
          (case val of BooleanRValue v \<Rightarrow> Inr (BooleanItem v # stack) | _ \<Rightarrow> Inl BadCast)
      | EpochVariableType_String \<Rightarrow>
          (case val of StringRValue v \<Rightarrow> Inr (StringItem v # stack) | _ \<Rightarrow> Inl BadCast)
      | EpochVariableType_Tuple \<Rightarrow>
          (case val of
             TupleRValue tupletypeid vals \<Rightarrow>
               (case GetTupleType scope tupletypeid of
                  None \<Rightarrow> Inl MissingEntry
                | Some tupletype \<Rightarrow>
                   (case PushMembers tupletype vals (rev (MemberOrder tupletype)) scope stack of
                      Inl e \<Rightarrow> Inl e
                    | Inr stack' \<Rightarrow> Inr (TupleItem tupletypeid # stack')))
           | _ \<Rightarrow> Inl BadCast)
      | EpochVariableType_Structure \<Rightarrow>
          (case val of
             StructureRValue structuretypeid vals \<Rightarrow>
               (case GetStructureType scope structuretypeid of
                  None \<Rightarrow> Inl MissingEntry
                | Some structuretype \<Rightarrow>
                   (case PushMembers structuretype vals (rev (MemberOrder structuretype)) scope stack of
                      Inl e \<Rightarrow> Inl e
                    | Inr stack' \<Rightarrow> Inr (StructureItem structuretypeid # stack')))
           | _ \<Rightarrow> Inl BadCast)
      | EpochVariableType_Function \<Rightarrow>
          (case val of FunctionRValue v \<Rightarrow> Inr (FunctionItem v # stack) | _ \<Rightarrow> Inl BadCast)
      | EpochVariableType_Address \<Rightarrow>
          (case val of AddressRValue v \<Rightarrow> Inr (AddressItem v # stack) | _ \<Rightarrow> Inl BadCast)
      | EpochVariableType_Array \<Rightarrow>
          (case val of ArrayRValue h \<Rightarrow> Inr (HandleItem h # stack) | _ \<Rightarrow> Inl BadCast)
      | EpochVariableType_TaskHandle \<Rightarrow>
          (case val of TaskHandleRValue v \<Rightarrow> Inr (TaskHandleItem v # stack) | _ \<Rightarrow> Inl BadCast)
      | EpochVariableType_Buffer \<Rightarrow>
          (case val of BufferRValue h \<Rightarrow> Inr (HandleItem h # stack) | _ \<Rightarrow> Inl BadCast)
      | EpochVariableType_Error \<Rightarrow>
          Inl (NotImplementedException ''Cannot pass value of this type on the stack''))"
| "PushMembers ctype vals [] scope stack = Inr stack"
| "PushMembers ctype vals (name # names) scope stack =
     (case GetMemberType ctype name of
        None \<Rightarrow> Inl MissingEntry
      | Some membertype \<Rightarrow>
         (case map_of vals name of
            None \<Rightarrow> Inl MissingEntry
          | Some memberval \<Rightarrow>
             (case DoPush membertype memberval scope stack False False of
                Inl e \<Rightarrow> Inl e
              | Inr stack' \<Rightarrow> PushMembers ctype vals names scope stack')))"
  by pat_completeness auto
termination
  by (relation "inv_image (less_than <*lex*> less_than)
        (\<lambda>a. case a of
           Inl (type, val, scope, stack, f1, f2) \<Rightarrow> (size val, 0)
         | Inr (ctype, vals, names, scope, stack) \<Rightarrow>
             (size_list (size_prod (\<lambda>_. 0) size) vals, Suc (length names)))")
     (auto dest: map_of_size_less)


declare DoPush.simps [simp del]

text \<open>The stack segment that pushing one member onto an empty stack yields.\<close>

definition member_segment ::
  "StructureType \<Rightarrow> (string \<times> RValue) list \<Rightarrow> ExecutionScope \<Rightarrow> string \<Rightarrow> StackItem list \<Rightarrow> bool" where
  "member_segment ctype vals scope name seg \<longleftrightarrow>
     (\<exists>t v. GetMemberType ctype name = Some t \<and> map_of vals name = Some v
        \<and> DoPush t v scope [] False False = Inr seg)"


section \<open>Verification\<close>

subsection \<open>StripWhitespace\<close>

lemma first_index_takeWhile:
  "first_index P xs = (if \<exists>x\<in>set xs. P x then Some (length (takeWhile (\<lambda>x. \<not> P x) xs)) else None)"
  by (induction xs) auto

lemma takeWhile_append_hit:
  "\<exists>x\<in>set xs. \<not> P x \<Longrightarrow> takeWhile P (xs @ ys) = takeWhile P xs"
  by (induction xs) auto

lemma takeWhile_hit_less:
  "\<exists>x\<in>set xs. \<not> P x \<Longrightarrow> length (takeWhile P xs) < length xs"
  by (induction xs) auto

lemma rev_dropWhile_rev:
  "rev (dropWhile P (rev ys)) = take (length ys - length (takeWhile P (rev ys))) ys"
proof -
  have "rev ys = takeWhile P (rev ys) @ dropWhile P (rev ys)" by simp
  then have "ys = rev (dropWhile P (rev ys)) @ rev (takeWhile P (rev ys))"
    by (metis rev_append rev_rev_ident)
  then have "take (length ys - length (takeWhile P (rev ys))) ys = rev (dropWhile P (rev ys))"
    by (metis append_eq_conv_conj diff_add_inverse2 length_append length_rev)
  then show ?thesis by simp
qed



lemma unat_npos: "unat npos = 2 ^ 32 - 1"
  by (simp add: npos_def unsigned_minus_1_eq_mask mask_eq_exp_minus_1)

lemma find_first_not_of_eq:
  "find_first_not_of str chars =
     (if \<exists>c\<in>set str. c \<notin> set chars
      then of_nat (length (takeWhile (\<lambda>c. c \<in> set chars) str)) else npos)"
  by (simp add: find_first_not_of_def first_index_takeWhile)

lemma find_last_not_of_eq:
  "find_last_not_of str chars =
     (if \<exists>c\<in>set str. c \<notin> set chars
      then of_nat (length str - 1 - length (takeWhile (\<lambda>c. c \<in> set chars) (rev str))) else npos)"
  by (simp add: find_last_not_of_def first_index_takeWhile)

lemma substr_all:
  assumes hit: "\<exists>c\<in>set str. \<not> P c" and len: "length str < 2 ^ 32 - 1"
  shows "substr str (of_nat (length (takeWhile P str)))
           (of_nat (length str - 1 - length (takeWhile P (rev str)))
              - of_nat (length (takeWhile P str)) + 1)
         = Inr (rev (dropWhile P (rev (dropWhile P str))))"
proof -
  define i where "i = length (takeWhile P str)"
  define ys where "ys = dropWhile P str"
  define j where "j = length (takeWhile P (rev str))"
  have str: "str = takeWhile P str @ ys" by (simp add: ys_def)
  have ys_hit: "\<exists>c\<in>set ys. \<not> P c"
    using hit by (metis ys_def dropWhile_eq_Nil_conv hd_dropWhile list.set_sel(1))
  have len_ys: "length ys = length str - i"
    using arg_cong [OF str, of length] by (simp add: i_def)
  have "rev str = rev ys @ rev (takeWhile P str)"
    by (metis str rev_append)
  then have tw: "takeWhile P (rev str) = takeWhile P (rev ys)"
    using ys_hit takeWhile_append_hit [of "rev ys" P "rev (takeWhile P str)"] by simp
  have "length (takeWhile P (rev ys)) < length (rev ys)"
    using ys_hit by (intro takeWhile_hit_less) simp
  then have j_lt: "j < length ys" by (simp add: j_def tw)
  have i_le: "i \<le> length str" by (simp add: i_def length_takeWhile_le)
  have drop: "drop i str = ys"
    by (simp add: i_def ys_def dropWhile_eq_drop)
  have n_eq: "(of_nat (length str - 1 - j) :: 32 word) - of_nat i + 1 = of_nat (length ys - j)"
  proof -
    have "length str - 1 - j = i + (length ys - j - 1)"
      using j_lt len_ys i_le by linarith
    then have "(of_nat (length str - 1 - j) :: 32 word) - of_nat i + 1 = of_nat (length ys - j - 1) + 1"
      by simp
    also have "\<dots> = of_nat (Suc (length ys - j - 1))" by simp
    also have "Suc (length ys - j - 1) = length ys - j" using j_lt by linarith
    finally show ?thesis .
  qed
  have un: "unat (of_nat (length ys - j) :: 32 word) = length ys - j"
    using len len_ys by (simp add: unat_of_nat)
  have ui: "unat (of_nat i :: 32 word) = i"
    using len i_le by (simp add: unat_of_nat)
  have "substr str (of_nat i) (of_nat (length str - 1 - j) - of_nat i + 1)
          = Inr (take (length ys - j) ys)"
    unfolding n_eq using i_le by (simp add: substr_def un ui drop)
  also have "take (length ys - j) ys = rev (dropWhile P (rev ys))"
    by (simp add: rev_dropWhile_rev j_def tw)
  finally show ?thesis by (simp add: i_def j_def ys_def)
qed

text \<open>
  Claim C10. \<open>StripWhitespace\<close> returns the empty string for the empty string; for a
  string with at least one character that is not a space, tab, carriage return or line
  feed it returns the substring from the first to the last such character (the input
  with its leading and trailing whitespace runs dropped); and for a non-empty string
  made of whitespace only, \<open>find_first_not_of\<close> yields \<open>npos\<close> and \<open>substr\<close> throws
  \<open>out_of_range\<close>, so the function is not total there. The length bound is the one
  every \<open>std::wstring\<close> satisfies (its size is below \<open>npos\<close>).
\<close>

theorem StripWhitespace_spec:
  assumes "length str < 2 ^ 32 - 1"
  shows "StripWhitespace str =
    (if str = [] then Inr []
     else if list_all (\<lambda>c. c \<in> set whitespacechars) str then Inl OutOfRange
     else Inr (rev (dropWhile (\<lambda>c. c \<in> set whitespacechars)
                 (rev (dropWhile (\<lambda>c. c \<in> set whitespacechars) str)))))"
proof (cases "str = []")
  case True
  then show ?thesis by (simp add: StripWhitespace_def)
next
  case ne: False
  show ?thesis
  proof (cases "list_all (\<lambda>c. c \<in> set whitespacechars) str")
    case True
    then have "\<not> (\<exists>c\<in>set str. c \<notin> set whitespacechars)"
      by (simp add: list_all_iff)
    then have "StripWhitespace str = substr str npos (npos - npos + 1)"
      using ne by (simp add: StripWhitespace_def find_first_not_of_eq find_last_not_of_eq)
    also have "\<dots> = Inl OutOfRange"
      using assms by (simp add: substr_def unat_npos)
    finally show ?thesis using ne True by simp
  next
    case False
    then have hit: "\<exists>c\<in>set str. \<not> c \<in> set whitespacechars"
      by (simp add: list_all_iff)
    then show ?thesis
      using ne False substr_all [OF hit assms]
      by (simp add: StripWhitespace_def find_first_not_of_eq find_last_not_of_eq Let_def)
  qed
qed

theorem StripWhitespace_spec_witness:
  "StripWhitespace ''  a b  '' = Inr ''a b'' \<and> StripWhitespace ''   '' = Inl OutOfRange
   \<and> StripWhitespace [] = Inr []"
  using StripWhitespace_spec [of "''  a b  ''"] StripWhitespace_spec [of "''   ''"]
    StripWhitespace_spec [of "[]"]
  by (simp add: whitespacechars_def)


subsection \<open>Arithmetic operation creation\<close>

lemma pop_back_n_drop: "n \<le> length xs \<Longrightarrow> pop_back_n n xs = Inr (drop n xs)"
  by (induction n arbitrary: xs) (auto split: list.splits)

lemma CreateArithmeticOperation_binary:
  assumes "PassedParameterCount s = 2 # pcs" "TheStack s = second # first # rest"
    and "DetermineEffectiveType x (s\<lparr>TheStack := rest\<rparr>) first = t"
    and "DetermineEffectiveType x (s\<lparr>TheStack := rest\<rparr>) second = t'"
  shows "CreateArithmeticOperation kind m x s =
     (if t = t' \<and> numeric_type t
      then Inr (ArithmeticOp kind t (Binary (IsArray x first) (IsArray x second)), s\<lparr>TheStack := rest\<rparr>)
      else Inr (NoOp, ReportFatalError (if t \<noteq> t' then msgSameType m else msgParameterType m) (s\<lparr>TheStack := rest\<rparr>)))"
  using assms by (auto simp: CreateArithmeticOperation_def numeric_type_def Let_def)

lemma CreateArithmeticOperation_fold:
  assumes "PassedParameterCount s = 1 # pcs" "TheStack s = back # rest"
    and "Type back = STACKENTRYTYPE_OPERATION" "OperationPointer back = Some (ConsArray t n)"
    and "GetType x s (ConsArray t n) = EpochVariableType_Array"
  shows "CreateArithmeticOperation kind m x s =
     (if numeric_type t
      then Inr (ArithmeticOp kind t FoldOverArray, s\<lparr>TheStack := rest\<rparr>)
      else Inr (NoOp, ReportFatalError (msgElementType m) (s\<lparr>TheStack := rest\<rparr>)))"
  using assms by (auto simp: CreateArithmeticOperation_def numeric_type_def Let_def)

lemma CreateArithmeticOperation_not_array:
  assumes "PassedParameterCount s = 1 # pcs" "TheStack s = back # rest"
    and "Type back = STACKENTRYTYPE_OPERATION \<longrightarrow> OperationPointer back \<noteq> None"
    and "\<not> (Type back = STACKENTRYTYPE_OPERATION \<and> (\<exists>t n. OperationPointer back = Some (ConsArray t n)
            \<and> GetType x s (ConsArray t n) = EpochVariableType_Array))"
  shows "\<exists>msg. CreateArithmeticOperation kind m x s =
      Inr (NoOp, (ReportFatalError msg s)\<lparr>TheStack := rest\<rparr>)"
  using assms by (auto simp: CreateArithmeticOperation_def Let_def split: Operation.splits)

lemma CreateArithmeticOperation_arity:
  assumes "PassedParameterCount s = count # pcs" "count \<noteq> 1" "count \<noteq> 2" "count \<le> length (TheStack s)"
  shows "CreateArithmeticOperation kind m x s =
      Inr (NoOp, (ReportFatalError (msgExpectsTwo m) s)\<lparr>TheStack := drop count (TheStack s)\<rparr>)"
  using assms by (simp add: CreateArithmeticOperation_def pop_back_n_drop ReportFatalError_def)


lemma CreateArithmeticOperation_spec:
  assumes count: "PassedParameterCount s = length operands # pcs"
    and operands: "TheStack s = operands @ rest"
    and nonnull: "\<forall>e\<in>set operands. Type e = STACKENTRYTYPE_OPERATION \<longrightarrow> OperationPointer e \<noteq> None"
  shows "\<exists>op s'. CreateArithmeticOperation kind m x s = Inr (op, s')
      \<and> s'\<lparr>FatalError := FatalError s, Diagnostics := Diagnostics s\<rparr> = s\<lparr>TheStack := rest\<rparr>
      \<and> (case binary_operands x (s\<lparr>TheStack := rest\<rparr>) operands of
            Some (t, firstisarray, secondisarray) \<Rightarrow>
              op = ArithmeticOp kind t (Binary firstisarray secondisarray) \<and> s' = s\<lparr>TheStack := rest\<rparr>
          | None \<Rightarrow>
             (case array_constructor_operand x s operands of
                Some t \<Rightarrow> op = ArithmeticOp kind t FoldOverArray \<and> s' = s\<lparr>TheStack := rest\<rparr>
              | None \<Rightarrow> op = NoOp \<and> FatalError s' \<and> (\<exists>msg. Diagnostics s' = Diagnostics s @ [msg])))"
proof -
  consider (two) second first where "operands = [second, first]"
    | (one) entry where "operands = [entry]"
    | (other) "length operands \<noteq> 1" "length operands \<noteq> 2"
    by (cases operands rule: list.exhaust; simp; metis length_0_conv length_Suc_conv list.exhaust)
  then show ?thesis
  proof cases
    case two
    then have st: "TheStack s = second # first # rest" and pc: "PassedParameterCount s = 2 # pcs"
      using operands count by simp_all
    show ?thesis
      using CreateArithmeticOperation_binary [OF pc st refl refl, where x=x and kind=kind and m=m] two
      by (auto simp: binary_operands_def array_constructor_operand_def ReportFatalError_def)
  next
    case one
    then have st: "TheStack s = entry # rest" and pc: "PassedParameterCount s = 1 # pcs"
      using operands count by simp_all
    have nn: "Type entry = STACKENTRYTYPE_OPERATION \<longrightarrow> OperationPointer entry \<noteq> None"
      using nonnull one by simp
    show ?thesis
    proof (cases "Type entry = STACKENTRYTYPE_OPERATION \<and> (\<exists>t n. OperationPointer entry = Some (ConsArray t n)
            \<and> GetType x s (ConsArray t n) = EpochVariableType_Array)")
      case True
      then obtain t n where *: "Type entry = STACKENTRYTYPE_OPERATION" "OperationPointer entry = Some (ConsArray t n)"
          "GetType x s (ConsArray t n) = EpochVariableType_Array" by blast
      show ?thesis
        using CreateArithmeticOperation_fold [OF pc st *, where kind=kind and m=m] one *
        by (auto simp: binary_operands_def array_constructor_operand_def ReportFatalError_def)
    next
      case False
      from CreateArithmeticOperation_not_array [OF pc st nn False, where kind=kind and m=m]
      obtain msg where "CreateArithmeticOperation kind m x s =
          Inr (NoOp, (ReportFatalError msg s)\<lparr>TheStack := rest\<rparr>)" by blast
      then show ?thesis
        using one False
        by (auto simp: binary_operands_def array_constructor_operand_def ReportFatalError_def
            split: option.splits Operation.splits)
    qed
  next
    case other
    have le: "length operands \<le> length (TheStack s)" using operands by simp
    have "binary_operands x (s\<lparr>TheStack := rest\<rparr>) operands = None"
      using other by (auto simp: binary_operands_def split: list.splits)
    moreover have "array_constructor_operand x s operands = None"
      using other by (auto simp: array_constructor_operand_def split: list.splits)
    ultimately show ?thesis
      using CreateArithmeticOperation_arity [OF count other le, where kind=kind and m=m and x=x] operands
      by (simp add: ReportFatalError_def)
  qed
qed


text \<open>
  Claim C5, as stated, fails: a single operand that is an array of Integer elements does
  not always give the fold-over-array form. The push of an array constructor has type
  Array, and a variable can have type Array; \<open>add\<close> answers the first with the fatal
  error "Expected an array here" and the second with "add() function expects 2
  parameters or 1 array", and returns a NoOp both times.
\<close>

theorem fold_over_array_counterexample:
  "GetType plain_collaborators
     (new_ParserState\<lparr>PassedParameterCount := [1],
        TheStack := [operation_entry (PushOperation (ConsArray EpochVariableType_Integer 3))]\<rparr>)
     (PushOperation (ConsArray EpochVariableType_Integer 3)) = EpochVariableType_Array
   \<and> CreateOperation_Add plain_collaborators
     (new_ParserState\<lparr>PassedParameterCount := [1],
        TheStack := [operation_entry (PushOperation (ConsArray EpochVariableType_Integer 3))]\<rparr>)
     = Inr (NoOp,
            new_ParserState\<lparr>PassedParameterCount := [1], TheStack := [], FatalError := True,
              Diagnostics := [''Expected an array here'']\<rparr>)
   \<and> DetermineEffectiveType plain_collaborators array_variable_state (identifier_entry ''values'')
       = EpochVariableType_Array
   \<and> CreateOperation_Add plain_collaborators array_variable_state
     = Inr (NoOp,
            array_variable_state\<lparr>TheStack := [], FatalError := True,
              Diagnostics := [''add() function expects 2 parameters or 1 array'']\<rparr>)"
  by (simp add: CreateOperation_Add_def CreateArithmeticOperation_def plain_collaborators_def
      operation_entry_def identifier_entry_def ReportFatalError_def new_ParserState_def
      array_variable_state_def plain_GetVariableType_def new_ScopeDescription_def)

text \<open>
  Claim C5, amended. For each of the add, subtract, multiply and divide builders, called
  with the passed parameter count on top of \<open>PassedParameterCount\<close> and that many
  operands on the builder stack (an operation entry holding its operation): with two
  operands of the same effective type among Integer, Integer16 and Real the typed binary
  operation is returned, carrying the two is-array flags; with one operand that is an
  array constructor of type Array with Integer, Integer16 or Real elements the
  fold-over-array form is returned; in every other case, a single operand that is an
  array but not an array constructor included, a fatal error is reported and a NoOp is
  returned. In all cases the operands are popped, and nothing but the stack, the fatal
  flag and the diagnostics changes.
\<close>

theorem arithmetic_operation_creation:
  assumes builder: "(build, kind) \<in> {(CreateOperation_Add, Sum), (CreateOperation_Subtract, Subtract),
        (CreateOperation_Multiply, Multiply), (CreateOperation_Divide, Divide)}"
    and count: "PassedParameterCount s = length operands # pcs"
    and operands: "TheStack s = operands @ rest"
    and nonnull: "\<forall>e\<in>set operands. Type e = STACKENTRYTYPE_OPERATION \<longrightarrow> OperationPointer e \<noteq> None"
  shows "\<exists>op s'. build x s = Inr (op, s')
      \<and> s'\<lparr>FatalError := FatalError s, Diagnostics := Diagnostics s\<rparr> = s\<lparr>TheStack := rest\<rparr>
      \<and> (case binary_operands x (s\<lparr>TheStack := rest\<rparr>) operands of
            Some (t, firstisarray, secondisarray) \<Rightarrow>
              op = ArithmeticOp kind t (Binary firstisarray secondisarray) \<and> s' = s\<lparr>TheStack := rest\<rparr>
          | None \<Rightarrow>
             (case array_constructor_operand x s operands of
                Some t \<Rightarrow> op = ArithmeticOp kind t FoldOverArray \<and> s' = s\<lparr>TheStack := rest\<rparr>
              | None \<Rightarrow> op = NoOp \<and> FatalError s' \<and> (\<exists>msg. Diagnostics s' = Diagnostics s @ [msg])))"
  using builder CreateArithmeticOperation_spec [OF count operands nonnull]
  unfolding CreateOperation_Add_def CreateOperation_Subtract_def CreateOperation_Multiply_def
    CreateOperation_Divide_def
  by auto

theorem arithmetic_operation_creation_witness:
  "CreateOperation_Add plain_collaborators
     (new_ParserState\<lparr>PassedParameterCount := [2],
        TheStack := [operation_entry (ConsArray EpochVariableType_Integer 3),
                     operation_entry (OtherOperation ''PushIntegerLiteral'')]\<rparr>)
   = Inr (ArithmeticOp Sum EpochVariableType_Integer (Binary False True),
          new_ParserState\<lparr>PassedParameterCount := [2], TheStack := []\<rparr>)
   \<and> (\<exists>s'. CreateOperation_Divide plain_collaborators
          (new_ParserState\<lparr>PassedParameterCount := [1],
             TheStack := [operation_entry (OtherOperation ''PushIntegerLiteral'')]\<rparr>)
        = Inr (NoOp, s') \<and> FatalError s' \<and> TheStack s' = [])
   \<and> CreateOperation_Multiply plain_collaborators
        (new_ParserState\<lparr>PassedParameterCount := [1],
           TheStack := [operation_entry (ConsArray EpochVariableType_Real 4)]\<rparr>)
      = Inr (ArithmeticOp Multiply EpochVariableType_Real FoldOverArray,
             new_ParserState\<lparr>PassedParameterCount := [1], TheStack := []\<rparr>)"
proof -
  let ?e1 = "operation_entry (ConsArray EpochVariableType_Integer 3)"
  let ?e2 = "operation_entry (OtherOperation ''PushIntegerLiteral'')"
  let ?s2 = "new_ParserState\<lparr>PassedParameterCount := [2], TheStack := [?e1, ?e2]\<rparr>"
  let ?s1 = "new_ParserState\<lparr>PassedParameterCount := [1], TheStack := [?e2]\<rparr>"
  have in_add: "(CreateOperation_Add, Sum) \<in> {(CreateOperation_Add, Sum), (CreateOperation_Subtract, Subtract),
        (CreateOperation_Multiply, Multiply), (CreateOperation_Divide, Divide)}" by simp
  have in_div: "(CreateOperation_Divide, Divide) \<in> {(CreateOperation_Add, Sum), (CreateOperation_Subtract, Subtract),
        (CreateOperation_Multiply, Multiply), (CreateOperation_Divide, Divide)}" by simp
  have c2: "PassedParameterCount ?s2 = length [?e1, ?e2] # []" by simp
  have c1: "PassedParameterCount ?s1 = length [?e2] # []" by simp
  have st2: "TheStack ?s2 = [?e1, ?e2] @ []" by simp
  have st1: "TheStack ?s1 = [?e2] @ []" by simp
  have nn2: "\<forall>e\<in>set [?e1, ?e2]. Type e = STACKENTRYTYPE_OPERATION \<longrightarrow> OperationPointer e \<noteq> None"
    by (simp add: operation_entry_def)
  have nn1: "\<forall>e\<in>set [?e2]. Type e = STACKENTRYTYPE_OPERATION \<longrightarrow> OperationPointer e \<noteq> None"
    by (simp add: operation_entry_def)
  have b2: "binary_operands plain_collaborators (?s2\<lparr>TheStack := []\<rparr>) [?e1, ?e2]
      = Some (EpochVariableType_Integer, False, True)"
    by (simp add: binary_operands_def numeric_type_def plain_collaborators_def operation_entry_def)
  have b1: "binary_operands plain_collaborators (?s1\<lparr>TheStack := []\<rparr>) [?e2] = None"
    by (simp add: binary_operands_def)
  have a1: "array_constructor_operand plain_collaborators ?s1 [?e2] = None"
    by (simp add: array_constructor_operand_def operation_entry_def)
  from arithmetic_operation_creation [OF in_add c2 st2 nn2, of plain_collaborators]
  have a: "CreateOperation_Add plain_collaborators ?s2
      = Inr (ArithmeticOp Sum EpochVariableType_Integer (Binary False True), ?s2\<lparr>TheStack := []\<rparr>)"
    unfolding b2 by auto
  from arithmetic_operation_creation [OF in_div c1 st1 nn1, of plain_collaborators]
  obtain s' where run: "CreateOperation_Divide plain_collaborators ?s1 = Inr (NoOp, s')"
    and frame: "s'\<lparr>FatalError := FatalError ?s1, Diagnostics := Diagnostics ?s1\<rparr> = ?s1\<lparr>TheStack := []\<rparr>"
    and fatal: "FatalError s'"
    unfolding b1 a1 by auto
  from arg_cong [OF frame, of TheStack] have "TheStack s' = []" by simp
  with run fatal have b: "\<exists>s'. CreateOperation_Divide plain_collaborators ?s1 = Inr (NoOp, s')
      \<and> FatalError s' \<and> TheStack s' = []"
    by blast
  let ?e3 = "operation_entry (ConsArray EpochVariableType_Real 4)"
  let ?s3 = "new_ParserState\<lparr>PassedParameterCount := [1], TheStack := [?e3]\<rparr>"
  have in_mul: "(CreateOperation_Multiply, Multiply) \<in> {(CreateOperation_Add, Sum), (CreateOperation_Subtract, Subtract),
        (CreateOperation_Multiply, Multiply), (CreateOperation_Divide, Divide)}" by simp
  have c3: "PassedParameterCount ?s3 = length [?e3] # []" by simp
  have st3: "TheStack ?s3 = [?e3] @ []" by simp
  have nn3: "\<forall>e\<in>set [?e3]. Type e = STACKENTRYTYPE_OPERATION \<longrightarrow> OperationPointer e \<noteq> None"
    by (simp add: operation_entry_def)
  have b3: "binary_operands plain_collaborators (?s3\<lparr>TheStack := []\<rparr>) [?e3] = None"
    by (simp add: binary_operands_def)
  have a3: "array_constructor_operand plain_collaborators ?s3 [?e3] = Some EpochVariableType_Real"
    by (simp add: array_constructor_operand_def operation_entry_def plain_collaborators_def
          numeric_type_def)
  from arithmetic_operation_creation [OF in_mul c3 st3 nn3, of plain_collaborators]
  have c: "CreateOperation_Multiply plain_collaborators ?s3
      = Inr (ArithmeticOp Multiply EpochVariableType_Real FoldOverArray, ?s3\<lparr>TheStack := []\<rparr>)"
    unfolding b3 a3 by auto
  from a b c show ?thesis by simp
qed

subsection \<open>Pushing composite values\<close>

lemma DoPush_Tuple:
  "DoPush EpochVariableType_Tuple (TupleRValue tid vals) scope stack f1 f2 =
     (case GetTupleType scope tid of
        None \<Rightarrow> Inl MissingEntry
      | Some tt \<Rightarrow>
         (case PushMembers tt vals (rev (MemberOrder tt)) scope stack of
            Inl e \<Rightarrow> Inl e
          | Inr stack' \<Rightarrow> Inr (TupleItem tid # stack')))"
  by (simp add: DoPush.simps)

lemma DoPush_Structure:
  "DoPush EpochVariableType_Structure (StructureRValue tid vals) scope stack f1 f2 =
     (case GetStructureType scope tid of
        None \<Rightarrow> Inl MissingEntry
      | Some tt \<Rightarrow>
         (case PushMembers tt vals (rev (MemberOrder tt)) scope stack of
            Inl e \<Rightarrow> Inl e
          | Inr stack' \<Rightarrow> Inr (StructureItem tid # stack')))"
  by (simp add: DoPush.simps)

lemma DoPush_append:
  "DoPush type val scope (stack @ extra) f1 f2 =
     (case DoPush type val scope stack f1 f2 of Inl e \<Rightarrow> Inl e | Inr r \<Rightarrow> Inr (r @ extra))"
  "PushMembers ctype vals names scope (stack @ extra) =
     (case PushMembers ctype vals names scope stack of Inl e \<Rightarrow> Inl e | Inr r \<Rightarrow> Inr (r @ extra))"
proof (induction type val scope stack f1 f2 and ctype vals names scope stack
    rule: DoPush_PushMembers.induct)
  case (1 type val scope stack isconsarray isconsfromfunction)
  show ?case
  proof (cases type)
    case EpochVariableType_Tuple
    show ?thesis
    proof (cases val)
      case (TupleRValue tid vals)
      show ?thesis
      proof (cases "GetTupleType scope tid")
        case None
        then show ?thesis
          using EpochVariableType_Tuple TupleRValue by (simp add: DoPush.simps)
      next
        case (Some tt)
        from "1.IH"(1) [OF EpochVariableType_Tuple TupleRValue Some]
        show ?thesis
          using EpochVariableType_Tuple TupleRValue Some
          by (simp add: DoPush_Tuple split: sum.splits)
      qed
    qed (use EpochVariableType_Tuple in \<open>simp_all add: DoPush.simps\<close>)
  next
    case EpochVariableType_Structure
    show ?thesis
    proof (cases val)
      case (StructureRValue tid vals)
      show ?thesis
      proof (cases "GetStructureType scope tid")
        case None
        then show ?thesis
          using EpochVariableType_Structure StructureRValue by (simp add: DoPush.simps)
      next
        case (Some tt)
        from "1.IH"(2) [OF EpochVariableType_Structure StructureRValue Some]
        show ?thesis
          using EpochVariableType_Structure StructureRValue Some
          by (simp add: DoPush_Structure split: sum.splits)
      qed
    qed (use EpochVariableType_Structure in \<open>simp_all add: DoPush.simps\<close>)
  qed (simp_all add: DoPush.simps split: RValue.splits)
next
  case (2 ctype vals scope stack)
  then show ?case by simp
next
  case (3 ctype vals name names scope stack)
  show ?case
  proof (cases "GetMemberType ctype name")
    case None
    then show ?thesis by simp
  next
    case t: (Some membertype)
    show ?thesis
    proof (cases "map_of vals name")
      case None
      then show ?thesis using t by simp
    next
      case v: (Some memberval)
      note ih1 = "3.IH"(1) [OF t v]
      show ?thesis
      proof (cases "DoPush membertype memberval scope stack False False")
        case (Inl e)
        then show ?thesis using t v ih1 by simp
      next
        case (Inr r)
        from "3.IH"(2) [OF t v Inr] show ?thesis
          using t v Inr ih1 by simp
      qed
    qed
  qed
qed

lemma PushMembers_segments:
  "PushMembers ctype vals names scope stack = Inr stack' \<longleftrightarrow>
     (\<exists>segs. list_all2 (member_segment ctype vals scope) names segs
        \<and> stack' = concat (rev segs) @ stack)"
proof (induction names arbitrary: stack stack')
  case Nil
  then show ?case by auto
next
  case (Cons name names)
  show ?case
  proof (cases "\<exists>seg. member_segment ctype vals scope name seg")
    case False
    then have "PushMembers ctype vals (name # names) scope stack \<noteq> Inr stack'"
      using DoPush_append(1) [of _ _ scope "[]" stack False False]
      by (auto simp: member_segment_def split: option.splits sum.splits)
    moreover have "\<not> (\<exists>segs. list_all2 (member_segment ctype vals scope) (name # names) segs
        \<and> stack' = concat (rev segs) @ stack)"
      using False by (auto simp: list_all2_Cons1)
    ultimately show ?thesis by simp
  next
    case True
    then obtain seg t v where t: "GetMemberType ctype name = Some t"
      and v: "map_of vals name = Some v"
      and seg: "DoPush t v scope [] False False = Inr seg"
      by (auto simp: member_segment_def)
    have uniq: "\<And>seg'. member_segment ctype vals scope name seg' \<longleftrightarrow> seg' = seg"
      using t v seg by (auto simp: member_segment_def)
    have push: "DoPush t v scope stack False False = Inr (seg @ stack)"
      using DoPush_append(1) [of t v scope "[]" stack False False] seg by simp
    have "PushMembers ctype vals (name # names) scope stack = Inr stack' \<longleftrightarrow>
        PushMembers ctype vals names scope (seg @ stack) = Inr stack'"
      using t v push by simp
    also have "\<dots> \<longleftrightarrow> (\<exists>segs. list_all2 (member_segment ctype vals scope) names segs
        \<and> stack' = concat (rev segs) @ seg @ stack)"
      by (rule Cons.IH)
    also have "\<dots> \<longleftrightarrow> (\<exists>segs. list_all2 (member_segment ctype vals scope) (name # names) segs
        \<and> stack' = concat (rev segs) @ stack)"
      by (auto simp: list_all2_Cons1 uniq)
    finally show ?thesis .
  qed
qed


text \<open>
  Claim C9. Pushing a value of Tuple or Structure type pushes the members in the reverse
  of \<open>MemberOrder\<close> (the last member first, so that the first member ends up nearest the
  top) and then the composite type ID on top of all of them: the push succeeds exactly
  when the descriptor is found and every member pushes, and the stack is then the type
  ID, the members' segments in \<open>MemberOrder\<close>, and the old stack. Pushing a value of Null
  type raises an execution error and pushes nothing.
\<close>

theorem DoPush_composite_order:
  "DoPush EpochVariableType_Null val scope stack f1 f2
     = Inl (ExecutionException ''Cannot pass a null value on the stack'')
   \<and> (DoPush EpochVariableType_Tuple (TupleRValue tid vals) scope stack f1 f2 = Inr stack' \<longleftrightarrow>
     (\<exists>tupletype segs. GetTupleType scope tid = Some tupletype
        \<and> list_all2 (member_segment tupletype vals scope) (MemberOrder tupletype) segs
        \<and> stack' = TupleItem tid # concat segs @ stack))
   \<and> (DoPush EpochVariableType_Structure (StructureRValue tid vals) scope stack f1 f2 = Inr stack' \<longleftrightarrow>
     (\<exists>structuretype segs. GetStructureType scope tid = Some structuretype
        \<and> list_all2 (member_segment structuretype vals scope) (MemberOrder structuretype) segs
        \<and> stack' = StructureItem tid # concat segs @ stack))"
proof -
  have null: "DoPush EpochVariableType_Null val scope stack f1 f2
     = Inl (ExecutionException ''Cannot pass a null value on the stack'')"
    by (simp add: DoPush.simps)
  have rev_segs: "(\<exists>segs. list_all2 P (rev names) segs \<and> st = concat (rev segs) @ stack)
      \<longleftrightarrow> (\<exists>segs. list_all2 P names segs \<and> st = concat segs @ stack)"
    for P :: "string \<Rightarrow> StackItem list \<Rightarrow> bool" and names st
  proof
    assume "\<exists>segs. list_all2 P (rev names) segs \<and> st = concat (rev segs) @ stack"
    then obtain segs where "list_all2 P (rev names) segs" "st = concat (rev segs) @ stack" by blast
    then have "list_all2 P names (rev segs) \<and> st = concat (rev segs) @ stack"
      by (metis list_all2_rev rev_rev_ident)
    then show "\<exists>segs. list_all2 P names segs \<and> st = concat segs @ stack" by blast
  next
    assume "\<exists>segs. list_all2 P names segs \<and> st = concat segs @ stack"
    then obtain segs where "list_all2 P names segs" "st = concat segs @ stack" by blast
    then have "list_all2 P (rev names) (rev segs) \<and> st = concat (rev (rev segs)) @ stack"
      by (simp add: list_all2_rev)
    then show "\<exists>segs. list_all2 P (rev names) segs \<and> st = concat (rev segs) @ stack" by blast
  qed
  have tuple: "DoPush EpochVariableType_Tuple (TupleRValue tid vals) scope stack f1 f2 = Inr stack' \<longleftrightarrow>
     (\<exists>tupletype segs. GetTupleType scope tid = Some tupletype
        \<and> list_all2 (member_segment tupletype vals scope) (MemberOrder tupletype) segs
        \<and> stack' = TupleItem tid # concat segs @ stack)"
  proof (cases "GetTupleType scope tid")
    case None
    then show ?thesis by (simp add: DoPush_Tuple)
  next
    case (Some tt)
    have "DoPush EpochVariableType_Tuple (TupleRValue tid vals) scope stack f1 f2 = Inr stack' \<longleftrightarrow>
        (\<exists>st. PushMembers tt vals (rev (MemberOrder tt)) scope stack = Inr st
           \<and> stack' = TupleItem tid # st)"
      using Some by (auto simp: DoPush_Tuple split: sum.splits)
    also have "\<dots> \<longleftrightarrow> (\<exists>st. (\<exists>segs. list_all2 (member_segment tt vals scope) (MemberOrder tt) segs
           \<and> st = concat segs @ stack) \<and> stack' = TupleItem tid # st)"
      by (simp only: PushMembers_segments rev_segs)
    finally show ?thesis using Some by auto
  qed
  have struct: "DoPush EpochVariableType_Structure (StructureRValue tid vals) scope stack f1 f2 = Inr stack' \<longleftrightarrow>
     (\<exists>structuretype segs. GetStructureType scope tid = Some structuretype
        \<and> list_all2 (member_segment structuretype vals scope) (MemberOrder structuretype) segs
        \<and> stack' = StructureItem tid # concat segs @ stack)"
  proof (cases "GetStructureType scope tid")
    case None
    then show ?thesis by (simp add: DoPush_Structure)
  next
    case (Some tt)
    have "DoPush EpochVariableType_Structure (StructureRValue tid vals) scope stack f1 f2 = Inr stack' \<longleftrightarrow>
        (\<exists>st. PushMembers tt vals (rev (MemberOrder tt)) scope stack = Inr st
           \<and> stack' = StructureItem tid # st)"
      using Some by (auto simp: DoPush_Structure split: sum.splits)
    also have "\<dots> \<longleftrightarrow> (\<exists>st. (\<exists>segs. list_all2 (member_segment tt vals scope) (MemberOrder tt) segs
           \<and> st = concat segs @ stack) \<and> stack' = StructureItem tid # st)"
      by (simp only: PushMembers_segments rev_segs)
    finally show ?thesis using Some by auto
  qed
  from null tuple struct show ?thesis by blast
qed



theorem DoPush_composite_order_witness:
  "DoPush EpochVariableType_Structure
     (StructureRValue 7 [(''a'', IntegerRValue 2), (''b'', BooleanRValue True)])
     \<lparr>GetTupleType = (\<lambda>i. None),
      GetStructureType = (\<lambda>i. if i = 7 then Some
         \<lparr>MemberOrder = [''a'', ''b''],
          MemberInfoMap = [(''a'', MemberInfo EpochVariableType_Integer 0 None None),
                           (''b'', MemberInfo EpochVariableType_Boolean 4 None None)]\<rparr> else None)\<rparr>
     [] False False
   = Inr [StructureItem 7, IntegerItem 2, BooleanItem True]"
proof -
  let ?t = "\<lparr>MemberOrder = [''a'', ''b''],
          MemberInfoMap = [(''a'', MemberInfo EpochVariableType_Integer 0 None None),
                           (''b'', MemberInfo EpochVariableType_Boolean 4 None None)]\<rparr>"
  let ?vals = "[(''a'', IntegerRValue 2), (''b'', BooleanRValue True)]"
  let ?scope = "\<lparr>GetTupleType = (\<lambda>i. None),
      GetStructureType = (\<lambda>i. if i = (7::nat) then Some ?t else None)\<rparr>"
  have "list_all2 (member_segment ?t ?vals ?scope) (MemberOrder ?t)
      [[IntegerItem 2], [BooleanItem True]]"
    by (simp add: member_segment_def GetMemberType_def DoPush.simps)
  then have "\<exists>structuretype segs. GetStructureType ?scope 7 = Some structuretype
        \<and> list_all2 (member_segment structuretype ?vals ?scope) (MemberOrder structuretype) segs
        \<and> [StructureItem 7, IntegerItem 2, BooleanItem True] = StructureItem 7 # concat segs @ []"
    by (intro exI [of _ ?t] exI [of _ "[[IntegerItem 2], [BooleanItem True]]"]) simp
  then show ?thesis
    using DoPush_composite_order [where scope = ?scope and stack = "[]" and ?f1.0 = False
        and ?f2.0 = False and tid = 7 and vals = ?vals
        and stack' = "[StructureItem 7, IntegerItem 2, BooleanItem True]"]
    by blast
qed

subsection \<open>Structure definitions\<close>

lemma finish_empty:
  assumes "CreatedStructureType s = Some t" "MemberOrder t = []" "VariableNameStack s = name # names"
  shows "FinishStructureType x s =
     Inr ((ReportFatalError ''Structures must contain at least one member'' s)
            \<lparr>VariableNameStack := names, CreatedStructureType := None\<rparr>)"
  using assms by (simp add: FinishStructureType_def)

lemma finish_nonempty:
  assumes "CreatedStructureType s = Some t" "MemberOrder t \<noteq> []" "VariableNameStack s = name # names"
    "CurrentScope s = Some r" "ScopeHeap s r = Some sc"
  shows "FinishStructureType x s =
     Inr (s\<lparr>ScopeHeap := (ScopeHeap s)(r := Some (sc\<lparr>StructureTypes :=
                 StructureTypes sc @ [(name, Suc (length (TypeRegistry s)))]\<rparr>)),
            TypeRegistry := TypeRegistry s @ [(Suc (length (TypeRegistry s)), r, ComputeOffsets x s t)],
            VariableNameStack := names, CreatedStructureType := None\<rparr>)"
  using assms by (simp add: FinishStructureType_def AddStructureType_def Let_def)

lemma self_containment:
  assumes "CreatedStructureType s = Some t" "VariableNameStack s = name # names"
    "UpcomingNestedMemberType s = name"
    "\<not> HasTupleType x s name" "\<not> HasStructureType x s name" "\<not> IsFunctionSignature x s name"
  shows "RegisterStructureMemberUnknown x identifier s =
     Inr ((ReportFatalError ''A structure cannot contain an instance of itself'' s)
            \<lparr>CreatedStructureType := Some (AddMember identifier EpochVariableType_Error None t)\<rparr>)"
  using assms by (simp add: RegisterStructureMemberUnknown_def)


lemma member_unknown_step:
  assumes "CreatedStructureType s = Some t" "VariableNameStack s = name # names"
  shows "\<exists>s' t'. RegisterStructureMemberUnknown x identifier (RegisterStructureUnknownTypeName typename s) = Inr s'
      \<and> CreatedStructureType s' = Some t' \<and> MemberOrder t' = MemberOrder t @ [identifier]
      \<and> VariableNameStack s' = VariableNameStack s \<and> CurrentScope s' = CurrentScope s
      \<and> ScopeHeap s' = ScopeHeap s \<and> TypeRegistry s' = TypeRegistry s"
  using assms
  by (auto simp: RegisterStructureMemberUnknown_def RegisterStructureUnknownTypeName_def
      AddMember_def AddFunctionMember_def ReportFatalError_def Let_def)

lemma member_known_step:
  assumes "CreatedStructureType s = Some t" "type \<noteq> EpochVariableType_Tuple"
    "type \<noteq> EpochVariableType_Structure"
  shows "\<exists>s' t'. RegisterStructureMember identifier type s = Inr s'
      \<and> CreatedStructureType s' = Some t' \<and> MemberOrder t' = MemberOrder t @ [identifier]
      \<and> VariableNameStack s' = VariableNameStack s \<and> CurrentScope s' = CurrentScope s
      \<and> ScopeHeap s' = ScopeHeap s \<and> TypeRegistry s' = TypeRegistry s"
  using assms by (auto simp: RegisterStructureMember_def AddMember_def)

lemma RegisterMembers_steps:
  assumes "CreatedStructureType s = Some t" "VariableNameStack s = name # names"
    "list_all plain_member members"
  shows "\<exists>s' t'. RegisterMembers x members s = Inr s'
      \<and> CreatedStructureType s' = Some t'
      \<and> MemberOrder t' = MemberOrder t @ map declared_name members
      \<and> VariableNameStack s' = VariableNameStack s \<and> CurrentScope s' = CurrentScope s
      \<and> ScopeHeap s' = ScopeHeap s \<and> TypeRegistry s' = TypeRegistry s"
  using assms
proof (induction members arbitrary: s t)
  case Nil
  then show ?case by simp
next
  case (Cons m members)
  show ?case
  proof (cases m)
    case (KnownMember ident ty)
    then have ty: "ty \<noteq> EpochVariableType_Tuple" "ty \<noteq> EpochVariableType_Structure"
      using Cons.prems(3) by (simp_all add: plain_member_def)
    from member_known_step [OF Cons.prems(1) ty, of ident]
    obtain s1 t1 where step: "RegisterStructureMember ident ty s = Inr s1"
      and c: "CreatedStructureType s1 = Some t1" "MemberOrder t1 = MemberOrder t @ [ident]"
      and f: "VariableNameStack s1 = VariableNameStack s" "CurrentScope s1 = CurrentScope s"
         "ScopeHeap s1 = ScopeHeap s" "TypeRegistry s1 = TypeRegistry s"
      by blast
    have v: "VariableNameStack s1 = name # names" using f Cons.prems(2) by simp
    have pm: "list_all plain_member members" using Cons.prems(3) by simp
    from Cons.IH [OF c(1) v pm] show ?thesis
      using KnownMember step c f by auto
  next
    case (UnknownMember typename ident)
    from member_unknown_step [OF Cons.prems(1,2), of x ident typename]
    obtain s1 t1 where step: "RegisterStructureMemberUnknown x ident
          (RegisterStructureUnknownTypeName typename s) = Inr s1"
      and c: "CreatedStructureType s1 = Some t1" "MemberOrder t1 = MemberOrder t @ [ident]"
      and f: "VariableNameStack s1 = VariableNameStack s" "CurrentScope s1 = CurrentScope s"
         "ScopeHeap s1 = ScopeHeap s" "TypeRegistry s1 = TypeRegistry s"
      by blast
    have v: "VariableNameStack s1 = name # names" using f Cons.prems(2) by simp
    have pm: "list_all plain_member members" using Cons.prems(3) by simp
    from Cons.IH [OF c(1) v pm] show ?thesis
      using UnknownMember step c f by auto
  qed
qed

lemma DefineStructure_registers:
  assumes "CreatedStructureType s = None" "members \<noteq> []" "list_all plain_member members"
    "CurrentScope s = Some r" "ScopeHeap s r = Some sc"
  shows "\<exists>s2 t. RegisterMembers x members
            (s\<lparr>CreatedStructureType := Some new_StructureType,
               VariableNameStack := name # VariableNameStack s\<rparr>) = Inr s2
      \<and> CreatedStructureType s2 = Some t
      \<and> MemberOrder t = map declared_name members
      \<and> DefineStructure x name members s =
          Inr (s2\<lparr>ScopeHeap := (ScopeHeap s)(r := Some (sc\<lparr>StructureTypes :=
                 StructureTypes sc @ [(name, Suc (length (TypeRegistry s)))]\<rparr>)),
            TypeRegistry := TypeRegistry s @ [(Suc (length (TypeRegistry s)), r, ComputeOffsets x s2 t)],
            VariableNameStack := VariableNameStack s, CreatedStructureType := None\<rparr>)"
proof -
  let ?s1 = "s\<lparr>CreatedStructureType := Some new_StructureType,
               VariableNameStack := name # VariableNameStack s\<rparr>"
  have r1: "RegisterStructureType name s = Inr ?s1"
    using assms(1) by (simp add: RegisterStructureType_def)
  have c1: "CreatedStructureType ?s1 = Some new_StructureType" by simp
  have v1: "VariableNameStack ?s1 = name # VariableNameStack s" by simp
  from RegisterMembers_steps [OF c1 v1 assms(3), of x]
  obtain s2 t where run: "RegisterMembers x members ?s1 = Inr s2"
    and c: "CreatedStructureType s2 = Some t"
    and mo: "MemberOrder t = MemberOrder new_StructureType @ map declared_name members"
    and f: "VariableNameStack s2 = VariableNameStack ?s1" "CurrentScope s2 = CurrentScope ?s1"
       "ScopeHeap s2 = ScopeHeap ?s1" "TypeRegistry s2 = TypeRegistry ?s1"
    by blast
  have ne: "MemberOrder t \<noteq> []" using mo assms(2) by simp
  have v2: "VariableNameStack s2 = name # VariableNameStack s" using f by simp
  have cs: "CurrentScope s2 = Some r" using f assms(4) by simp
  have sh: "ScopeHeap s2 r = Some sc" using f assms(5) by simp
  from finish_nonempty [OF c ne v2 cs sh, of x]
  have "FinishStructureType x s2 =
     Inr (s2\<lparr>ScopeHeap := (ScopeHeap s)(r := Some (sc\<lparr>StructureTypes :=
                 StructureTypes sc @ [(name, Suc (length (TypeRegistry s)))]\<rparr>)),
            TypeRegistry := TypeRegistry s @ [(Suc (length (TypeRegistry s)), r, ComputeOffsets x s2 t)],
            VariableNameStack := VariableNameStack s, CreatedStructureType := None\<rparr>)"
    using f by simp
  then show ?thesis
    using r1 run c mo by (simp add: DefineStructure_def new_StructureType_def)
qed


lemma member_of_known_type:
  assumes "CreatedStructureType s = Some t"
    and "HasTupleType x s (UpcomingNestedMemberType s)
       \<or> HasStructureType x s (UpcomingNestedMemberType s)
       \<or> IsFunctionSignature x s (UpcomingNestedMemberType s)"
  shows "\<exists>t'. RegisterStructureMemberUnknown x ident s = Inr (s\<lparr>CreatedStructureType := Some t'\<rparr>)
           \<and> MemberOrder t' = MemberOrder t @ [ident]"
proof -
  consider (known_tuple) "HasTupleType x s (UpcomingNestedMemberType s)"
    | (known_structure) "\<not> HasTupleType x s (UpcomingNestedMemberType s)"
        "HasStructureType x s (UpcomingNestedMemberType s)"
    | (known_signature) "\<not> HasTupleType x s (UpcomingNestedMemberType s)"
        "\<not> HasStructureType x s (UpcomingNestedMemberType s)"
        "IsFunctionSignature x s (UpcomingNestedMemberType s)"
    using assms(2) by blast
  then show ?thesis
  proof cases
    case known_tuple
    let ?t = "AddMember ident EpochVariableType_Tuple
                (Some (GetTupleTypeID x s (UpcomingNestedMemberType s))) t"
    have "RegisterStructureMemberUnknown x ident s = Inr (s\<lparr>CreatedStructureType := Some ?t\<rparr>)"
      using assms(1) known_tuple by (simp add: RegisterStructureMemberUnknown_def)
    moreover have "MemberOrder ?t = MemberOrder t @ [ident]" by (simp add: AddMember_def)
    ultimately show ?thesis by (rule_tac x = ?t in exI) simp
  next
    case known_structure
    let ?t = "AddMember ident EpochVariableType_Structure
                (Some (GetStructureTypeID x s (UpcomingNestedMemberType s))) t"
    have "RegisterStructureMemberUnknown x ident s = Inr (s\<lparr>CreatedStructureType := Some ?t\<rparr>)"
      using assms(1) known_structure by (simp add: RegisterStructureMemberUnknown_def)
    moreover have "MemberOrder ?t = MemberOrder t @ [ident]" by (simp add: AddMember_def)
    ultimately show ?thesis by (rule_tac x = ?t in exI) simp
  next
    case known_signature
    let ?t = "AddFunctionMember ident (UpcomingNestedMemberType s) t"
    have "RegisterStructureMemberUnknown x ident s = Inr (s\<lparr>CreatedStructureType := Some ?t\<rparr>)"
      using assms(1) known_signature by (simp add: RegisterStructureMemberUnknown_def)
    moreover have "MemberOrder ?t = MemberOrder t @ [ident]" by (simp add: AddFunctionMember_def)
    ultimately show ?thesis by (rule_tac x = ?t in exI) simp
  qed
qed

text \<open>
  Claim C7, as stated, fails: a member whose declared type name is the structure's own
  name is not always reported. The name is looked up among the tuple types, the
  structure types and the function signatures of the current scope first; with a
  structure \<open>S\<close> registered there already, the member \<open>inner\<close> of type \<open>S\<close> of a structure
  named \<open>S\<close> is added as a member of the registered type, with no diagnostic.
\<close>

theorem self_containment_counterexample:
  "RegisterStructureMemberUnknown scope_collaborators ''inner'' redefinition_state
     = Inr (redefinition_state
              \<lparr>CreatedStructureType :=
                 Some (AddMember ''inner'' EpochVariableType_Structure (Some 1) new_StructureType)\<rparr>)
   \<and> \<not> FatalError redefinition_state \<and> Diagnostics redefinition_state = []
   \<and> UpcomingNestedMemberType redefinition_state = hd (VariableNameStack redefinition_state)"
  by (simp add: RegisterStructureMemberUnknown_def scope_collaborators_def
      plain_collaborators_def registered_structures_def redefinition_state_def
      new_ParserState_def new_ScopeDescription_def)

text \<open>
  Claim C7, amended. Closing a structure definition whose member list is empty reports a
  fatal error and registers nothing (neither the scope nor the Type Registry changes). A
  member whose declared type name is the structure's own name is reported as a fatal
  error when that name names no tuple type, structure type or function signature of the
  current scope; a type name that names one of these is resolved to it first, and the
  member is added with no diagnostic. For a structure with at least one member, closing
  applies \<open>ComputeOffsets\<close> once to the descriptor holding all the members and registers
  the result with the current scope and with the Type Registry; over the whole sequence
  of actions of one definition, the registered descriptor is \<open>ComputeOffsets\<close> of the
  descriptor whose \<open>MemberOrder\<close> is the declared members, in order.
\<close>

theorem structure_definition_invariants:
  "(CreatedStructureType s = Some t \<and> MemberOrder t = [] \<and> VariableNameStack s = name # names
      \<longrightarrow> FinishStructureType x s =
            Inr ((ReportFatalError ''Structures must contain at least one member'' s)
                   \<lparr>VariableNameStack := names, CreatedStructureType := None\<rparr>))
   \<and> (CreatedStructureType s = Some t \<and> VariableNameStack s = name # names
        \<and> UpcomingNestedMemberType s = name
        \<and> \<not> HasTupleType x s name \<and> \<not> HasStructureType x s name \<and> \<not> IsFunctionSignature x s name
      \<longrightarrow> RegisterStructureMemberUnknown x ident s =
            Inr ((ReportFatalError ''A structure cannot contain an instance of itself'' s)
                   \<lparr>CreatedStructureType := Some (AddMember ident EpochVariableType_Error None t)\<rparr>))
   \<and> (CreatedStructureType s = Some t \<and> MemberOrder t \<noteq> [] \<and> VariableNameStack s = name # names
        \<and> CurrentScope s = Some r \<and> ScopeHeap s r = Some sc
      \<longrightarrow> FinishStructureType x s =
            Inr (s\<lparr>ScopeHeap := (ScopeHeap s)(r := Some (sc\<lparr>StructureTypes :=
                        StructureTypes sc @ [(name, Suc (length (TypeRegistry s)))]\<rparr>)),
                   TypeRegistry := TypeRegistry s
                      @ [(Suc (length (TypeRegistry s)), r, ComputeOffsets x s t)],
                   VariableNameStack := names, CreatedStructureType := None\<rparr>))
   \<and> (CreatedStructureType s = None \<and> members \<noteq> [] \<and> list_all plain_member members
        \<and> CurrentScope s = Some r \<and> ScopeHeap s r = Some sc
      \<longrightarrow> (\<exists>s2 t2. RegisterMembers x members
                 (s\<lparr>CreatedStructureType := Some new_StructureType,
                    VariableNameStack := name # VariableNameStack s\<rparr>) = Inr s2
             \<and> CreatedStructureType s2 = Some t2
             \<and> MemberOrder t2 = map declared_name members
             \<and> DefineStructure x name members s =
                 Inr (s2\<lparr>ScopeHeap := (ScopeHeap s)(r := Some (sc\<lparr>StructureTypes :=
                        StructureTypes sc @ [(name, Suc (length (TypeRegistry s)))]\<rparr>)),
                   TypeRegistry := TypeRegistry s
                      @ [(Suc (length (TypeRegistry s)), r, ComputeOffsets x s2 t2)],
                   VariableNameStack := VariableNameStack s, CreatedStructureType := None\<rparr>)))
   \<and> (CreatedStructureType s = Some t
        \<and> (HasTupleType x s (UpcomingNestedMemberType s)
             \<or> HasStructureType x s (UpcomingNestedMemberType s)
             \<or> IsFunctionSignature x s (UpcomingNestedMemberType s))
      \<longrightarrow> (\<exists>t'. RegisterStructureMemberUnknown x ident s
                   = Inr (s\<lparr>CreatedStructureType := Some t'\<rparr>)
             \<and> MemberOrder t' = MemberOrder t @ [ident]))"
proof (intro conjI impI, goal_cases)
  case 1
  then show ?case by (elim conjE) (rule finish_empty)
next
  case 2
  then show ?case by (elim conjE) (rule self_containment)
next
  case 3
  then show ?case by (elim conjE) (rule finish_nonempty)
next
  case 4
  then show ?case by (elim conjE) (rule DefineStructure_registers)
next
  case 5
  then show ?case by (elim conjE) (rule member_of_known_type)
qed

theorem structure_definition_invariants_witness:
  "(\<exists>s'. FinishStructureType plain_collaborators
        (new_ParserState\<lparr>CreatedStructureType := Some new_StructureType,
           VariableNameStack := [''S'']\<rparr>) = Inr s'
      \<and> FatalError s' \<and> TypeRegistry s' = [] \<and> CreatedStructureType s' = None)
   \<and> (\<exists>s'. RegisterStructureMemberUnknown plain_collaborators ''inner''
        (new_ParserState\<lparr>CreatedStructureType := Some new_StructureType,
           VariableNameStack := [''S''], UpcomingNestedMemberType := ''S''\<rparr>) = Inr s'
      \<and> Diagnostics s' = [''A structure cannot contain an instance of itself''] \<and> FatalError s')
   \<and> (\<exists>s' t. DefineStructure plain_collaborators ''S''
        [KnownMember ''a'' EpochVariableType_Integer, KnownMember ''b'' EpochVariableType_Real]
        new_ParserState = Inr s'
      \<and> TypeRegistry s' = [(1, 0, t)] \<and> MemberOrder t = [''a'', ''b''])"
proof -
  let ?x = plain_collaborators
  let ?s1 = "new_ParserState\<lparr>CreatedStructureType := Some new_StructureType,
           VariableNameStack := [''S'']\<rparr>"
  let ?s2 = "new_ParserState\<lparr>CreatedStructureType := Some new_StructureType,
           VariableNameStack := [''S''], UpcomingNestedMemberType := ''S''\<rparr>"
  let ?ms = "[KnownMember ''a'' EpochVariableType_Integer, KnownMember ''b'' EpochVariableType_Real]"
  have a: "\<exists>s'. FinishStructureType ?x ?s1 = Inr s'
      \<and> FatalError s' \<and> TypeRegistry s' = [] \<and> CreatedStructureType s' = None"
    using structure_definition_invariants [of ?s1 new_StructureType "''S''" "[]" ?x,
        THEN conjunct1]
    by (simp add: new_StructureType_def new_ParserState_def ReportFatalError_def)
  have b: "\<exists>s'. RegisterStructureMemberUnknown ?x ''inner'' ?s2 = Inr s'
      \<and> Diagnostics s' = [''A structure cannot contain an instance of itself''] \<and> FatalError s'"
    using structure_definition_invariants [of ?s2 new_StructureType "''S''" "[]" ?x "''inner''",
        THEN conjunct2, THEN conjunct1]
    by (simp add: new_ParserState_def ReportFatalError_def plain_collaborators_def)
  have "\<exists>s2 t2. RegisterMembers ?x ?ms
                 (new_ParserState\<lparr>CreatedStructureType := Some new_StructureType,
                    VariableNameStack := ''S'' # VariableNameStack new_ParserState\<rparr>) = Inr s2
             \<and> CreatedStructureType s2 = Some t2
             \<and> MemberOrder t2 = map declared_name ?ms
             \<and> DefineStructure ?x ''S'' ?ms new_ParserState =
                 Inr (s2\<lparr>ScopeHeap := (ScopeHeap new_ParserState)(0 := Some (new_ScopeDescription\<lparr>StructureTypes :=
                        StructureTypes new_ScopeDescription @ [(''S'', Suc (length (TypeRegistry new_ParserState)))]\<rparr>)),
                   TypeRegistry := TypeRegistry new_ParserState
                      @ [(Suc (length (TypeRegistry new_ParserState)), 0, ComputeOffsets ?x s2 t2)],
                   VariableNameStack := VariableNameStack new_ParserState, CreatedStructureType := None\<rparr>)"
    using structure_definition_invariants [where s = new_ParserState and members = ?ms and x = ?x
        and r = 0 and sc = new_ScopeDescription and name = "''S''",
        THEN conjunct2, THEN conjunct2, THEN conjunct2, THEN conjunct1]
    by (simp add: new_ParserState_def plain_member_def)
  then obtain s2 t2 where mo: "MemberOrder t2 = map declared_name ?ms"
    and run: "DefineStructure ?x ''S'' ?ms new_ParserState =
                 Inr (s2\<lparr>ScopeHeap := (ScopeHeap new_ParserState)(0 := Some (new_ScopeDescription\<lparr>StructureTypes :=
                        StructureTypes new_ScopeDescription @ [(''S'', Suc (length (TypeRegistry new_ParserState)))]\<rparr>)),
                   TypeRegistry := TypeRegistry new_ParserState
                      @ [(Suc (length (TypeRegistry new_ParserState)), 0, ComputeOffsets ?x s2 t2)],
                   VariableNameStack := VariableNameStack new_ParserState, CreatedStructureType := None\<rparr>)"
    by blast
  have c: "\<exists>s' t. DefineStructure ?x ''S'' ?ms new_ParserState = Inr s'
      \<and> TypeRegistry s' = [(1, 0, t)] \<and> MemberOrder t = [''a'', ''b'']"
    unfolding run using mo
    by (simp add: new_ParserState_def plain_collaborators_def)
  from a b c show ?thesis by blast
qed


subsection \<open>ParallelFor error handling\<close>

lemma and_then_simps [simp]:
  "and_then (Inl e) f = Inl e" "and_then (Inr v) f = f v"
  by (simp_all add: and_then_def)

text \<open>
  Claim C4, as stated, fails: \<open>parallelfor(i, 0, 10, "four")\<close>, whose thread count is a
  string, does not end in a fatal error, a NoOp and further parsing; \<open>ExitBlock\<close> throws
  \<open>ParserFailureException\<close>, which ends the build.
\<close>

theorem parallelfor_bound_type_counterexample:
  "ExitBlock plain_collaborators
     (nested_block_state BLOCKENTRYTYPE_PARALLELFOR
        [operation_entry (OtherOperation ''PushStringLiteral''),
         operation_entry (OtherOperation ''PushIntegerLiteral''),
         operation_entry (OtherOperation ''PushIntegerLiteral''),
         identifier_entry ''i''])
   = Inl (ParserFailureException ''Last parameter to parallelfor() should be a thread count'')"
  by (simp add: ExitBlock_def ExitBlock_PARALLELFOR_def nested_block_state_def new_ParserState_def
      pop_block_def back_block_def back_is_not_def plain_collaborators_def operation_entry_def)

lemma RegisterEndOfParallelFor_arity:
  assumes "PassedParameterCount s = count # pcs" "count \<noteq> 4" "4 \<le> length (TheStack s)"
  shows "RegisterEndOfParallelFor s =
     Inr ((ReportFatalError ''parallelfor() expects 4 parameters'' s)
            \<lparr>ControlVarName := StringValue (TheStack s ! 3),
             ControlVarType := EpochVariableType_Integer,
             PassedParameterCount := pcs\<rparr>)"
  using assms
  by (simp add: RegisterEndOfParallelFor_def PopParameterCount_def ReportFatalError_def)

lemma ExitBlock_PARALLELFOR_bounds:
  assumes "Blocks s = BlockEntry (Some body) BLOCKENTRYTYPE_PARALLELFOR # blocks"
    and "TheStack s = threads # upper # lower # rest"
    and "DetermineEffectiveType x (s\<lparr>Blocks := blocks\<rparr>) threads \<noteq> EpochVariableType_Integer
       \<or> DetermineEffectiveType x (s\<lparr>Blocks := blocks, TheStack := upper # lower # rest\<rparr>) upper
            \<noteq> EpochVariableType_Integer
       \<or> DetermineEffectiveType x (s\<lparr>Blocks := blocks, TheStack := lower # rest\<rparr>) lower
            \<noteq> EpochVariableType_Integer"
  shows "\<exists>msg. ExitBlock x s = Inl (ParserFailureException msg)"
  using assms
  by (auto simp: ExitBlock_def ExitBlock_PARALLELFOR_def pop_block_def back_block_def
      back_is_not_def pop_TheStack_def)

lemma ExitBlock_PARALLELFOR_counter:
  assumes "Blocks s = BlockEntry (Some body) BLOCKENTRYTYPE_PARALLELFOR # blocks"
    and "TheStack s = threads # upper # lower # counter # rest"
    and "DetermineEffectiveType x (s\<lparr>Blocks := blocks\<rparr>) threads = EpochVariableType_Integer"
    and "DetermineEffectiveType x (s\<lparr>Blocks := blocks, TheStack := upper # lower # counter # rest\<rparr>) upper
            = EpochVariableType_Integer"
    and "DetermineEffectiveType x (s\<lparr>Blocks := blocks, TheStack := lower # counter # rest\<rparr>) lower
            = EpochVariableType_Integer"
    and "Type counter \<noteq> STACKENTRYTYPE_IDENTIFIER"
    and "CurrentScope s = Some r" "ScopeHeap s r = Some sc"
  shows "ExitBlock x s =
     Inr ((ReportFatalError ''First parameter to parallelfor() should be a loop counter variable name'' s)
            \<lparr>Blocks := blocks, TheStack := rest, CurrentScope := ParentScope sc\<rparr>)"
  using assms
  by (simp add: ExitBlock_def ExitBlock_PARALLELFOR_def pop_block_def back_block_def
      back_is_not_def pop_TheStack_def leave_scope_def ReportFatalError_def)


text \<open>
  Claim C4, amended. An argument count other than 4 makes \<open>RegisterEndOfParallelFor\<close>
  report a fatal error (the fatal flag is set) and go on, when the builder stack holds
  at least four entries (the routine reads the fourth entry from the top whatever the
  count; a shorter stack is left out of the statement). At the exit of the block, a
  thread count, upper bound or lower bound whose effective type is not Integer makes
  \<open>ExitBlock\<close> throw \<open>ParserFailureException\<close>. With three Integer bounds, a first
  argument that is not an identifier makes \<open>ExitBlock\<close> report a fatal error, emit no
  operation (the blocks are left as they are), pop the four arguments, return to the
  enclosing scope and go on.
\<close>

theorem parallelfor_error_handling:
  "(PassedParameterCount s = count # pcs \<and> count \<noteq> 4 \<and> 4 \<le> length (TheStack s)
      \<longrightarrow> RegisterEndOfParallelFor s =
            Inr ((ReportFatalError ''parallelfor() expects 4 parameters'' s)
                   \<lparr>ControlVarName := StringValue (TheStack s ! 3),
                    ControlVarType := EpochVariableType_Integer,
                    PassedParameterCount := pcs\<rparr>))
   \<and> (Blocks s = BlockEntry (Some body) BLOCKENTRYTYPE_PARALLELFOR # blocks
        \<and> TheStack s = threads # upper # lower # rest
        \<and> (DetermineEffectiveType x (s\<lparr>Blocks := blocks\<rparr>) threads \<noteq> EpochVariableType_Integer
             \<or> DetermineEffectiveType x (s\<lparr>Blocks := blocks, TheStack := upper # lower # rest\<rparr>) upper
                  \<noteq> EpochVariableType_Integer
             \<or> DetermineEffectiveType x (s\<lparr>Blocks := blocks, TheStack := lower # rest\<rparr>) lower
                  \<noteq> EpochVariableType_Integer)
      \<longrightarrow> (\<exists>msg. ExitBlock x s = Inl (ParserFailureException msg)))
   \<and> (Blocks s = BlockEntry (Some body) BLOCKENTRYTYPE_PARALLELFOR # blocks
        \<and> TheStack s = threads # upper # lower # counter # others
        \<and> DetermineEffectiveType x (s\<lparr>Blocks := blocks\<rparr>) threads = EpochVariableType_Integer
        \<and> DetermineEffectiveType x (s\<lparr>Blocks := blocks, TheStack := upper # lower # counter # others\<rparr>) upper
             = EpochVariableType_Integer
        \<and> DetermineEffectiveType x (s\<lparr>Blocks := blocks, TheStack := lower # counter # others\<rparr>) lower
             = EpochVariableType_Integer
        \<and> Type counter \<noteq> STACKENTRYTYPE_IDENTIFIER
        \<and> CurrentScope s = Some r \<and> ScopeHeap s r = Some sc
      \<longrightarrow> ExitBlock x s =
            Inr ((ReportFatalError ''First parameter to parallelfor() should be a loop counter variable name'' s)
                   \<lparr>Blocks := blocks, TheStack := others, CurrentScope := ParentScope sc\<rparr>))"
  using RegisterEndOfParallelFor_arity [of s count pcs]
    ExitBlock_PARALLELFOR_bounds [of s body blocks threads upper lower rest x]
    ExitBlock_PARALLELFOR_counter [of s body blocks threads upper lower counter others x r sc]
  by blast

theorem parallelfor_error_handling_witness:
  "(\<exists>s'. RegisterEndOfParallelFor
        (new_ParserState\<lparr>PassedParameterCount := [3],
           TheStack := [operation_entry (OtherOperation ''PushIntegerLiteral''),
                        operation_entry (OtherOperation ''PushIntegerLiteral''),
                        operation_entry (OtherOperation ''PushIntegerLiteral''),
                        identifier_entry ''i'']\<rparr>) = Inr s'
      \<and> FatalError s' \<and> ControlVarName s' = ''i'' \<and> PassedParameterCount s' = [])
   \<and> (\<exists>msg. ExitBlock plain_collaborators
        (nested_block_state BLOCKENTRYTYPE_PARALLELFOR
           [operation_entry (OtherOperation ''PushIntegerLiteral''),
            operation_entry (OtherOperation ''PushBooleanLiteral''),
            operation_entry (OtherOperation ''PushIntegerLiteral''),
            identifier_entry ''i'']) = Inl (ParserFailureException msg))
   \<and> (\<exists>s'. ExitBlock plain_collaborators
        (nested_block_state BLOCKENTRYTYPE_PARALLELFOR
           [operation_entry (OtherOperation ''PushIntegerLiteral''),
            operation_entry (OtherOperation ''PushIntegerLiteral''),
            operation_entry (OtherOperation ''PushIntegerLiteral''),
            operation_entry (OtherOperation ''PushIntegerLiteral'')]) = Inr s'
      \<and> FatalError s' \<and> TheStack s' = [] \<and> CurrentScope s' = Some 0
      \<and> BlockHeap s' 1 = Some \<lparr>Operations = [], BoundScope = Some 0\<rparr>)"
proof -
  let ?i = "operation_entry (OtherOperation ''PushIntegerLiteral'')"
  let ?b = "operation_entry (OtherOperation ''PushBooleanLiteral'')"
  let ?s1 = "new_ParserState\<lparr>PassedParameterCount := [3],
           TheStack := [?i, ?i, ?i, identifier_entry ''i'']\<rparr>"
  let ?s2 = "nested_block_state BLOCKENTRYTYPE_PARALLELFOR [?i, ?b, ?i, identifier_entry ''i'']"
  let ?s3 = "nested_block_state BLOCKENTRYTYPE_PARALLELFOR [?i, ?i, ?i, ?i]"
  have a: "\<exists>s'. RegisterEndOfParallelFor ?s1 = Inr s'
      \<and> FatalError s' \<and> ControlVarName s' = ''i'' \<and> PassedParameterCount s' = []"
    using parallelfor_error_handling [of ?s1 3 "[]"]
    by (simp add: ReportFatalError_def identifier_entry_def)
  have b: "\<exists>msg. ExitBlock plain_collaborators ?s2 = Inl (ParserFailureException msg)"
    using parallelfor_error_handling [where s = ?s2 and body = 2
        and blocks = "[BlockEntry (Some 1) BLOCKENTRYTYPE_FREE]" and threads = ?i and upper = ?b
        and lower = ?i and rest = "[identifier_entry ''i'']" and x = plain_collaborators]
    by (simp add: nested_block_state_def plain_collaborators_def operation_entry_def)
  have c: "\<exists>s'. ExitBlock plain_collaborators ?s3 = Inr s'
      \<and> FatalError s' \<and> TheStack s' = [] \<and> CurrentScope s' = Some 0
      \<and> BlockHeap s' 1 = Some \<lparr>Operations = [], BoundScope = Some 0\<rparr>"
    using parallelfor_error_handling [where s = ?s3 and body = 2
        and blocks = "[BlockEntry (Some 1) BLOCKENTRYTYPE_FREE]" and threads = ?i and upper = ?i
        and lower = ?i and counter = ?i and others = "[]" and x = plain_collaborators
        and r = 3 and sc = "new_ScopeDescription\<lparr>ParentScope := Some 0\<rparr>"]
    by (simp add: nested_block_state_def plain_collaborators_def operation_entry_def
        new_ParserState_def ReportFatalError_def)
  from a b c show ?thesis by blast
qed


subsection \<open>Task and thread scopes\<close>

lemma EnterBlock_concurrent:
  assumes "ExpectedBlockTypes s = t # rest" "t = BLOCKENTRYTYPE_TASK \<or> t = BLOCKENTRYTYPE_THREAD"
  shows "EnterBlock x s =
     Inr (s\<lparr>BlockHeap := (BlockHeap s)(NextRef s := Some \<lparr>Operations = [], BoundScope = Some (Suc (NextRef s))\<rparr>),
            ScopeHeap := (ScopeHeap s)(Suc (NextRef s) :=
               Some (new_ScopeDescription\<lparr>ParentScope := Some (GlobalScope s)\<rparr>)),
            NextRef := Suc (Suc (NextRef s)),
            DisplacedScopes := CurrentScope s # DisplacedScopes s,
            CurrentScope := Some (Suc (NextRef s)),
            Blocks := BlockEntry (Some (NextRef s)) t # Blocks s,
            ExpectedBlockTypes := rest\<rparr>)"
  using assms
  by (auto simp: EnterBlock_def open_block_def alloc_block_def alloc_scope_def update_scope_def
      BindToScope_def update_block_def Let_def)

lemma ExitBlock_TASK_restores:
  assumes "Blocks s = BlockEntry (Some body) BLOCKENTRYTYPE_TASK # BlockEntry (Some enclosing) et # blocks"
    and "BlockHeap s enclosing = Some blk"
    and "DisplacedScopes s = saved # displaced"
    and "TheStack s = taskid # stack"
    and "DetermineEffectiveType x
           (s\<lparr>Blocks := BlockEntry (Some enclosing) et # blocks, CurrentScope := saved\<rparr>) taskid
         = EpochVariableType_String"
    and "SavedTaskNames s = taskname # names"
  shows "ExitBlock x s =
     Inr (s\<lparr>Blocks := BlockEntry (Some enclosing) et # blocks,
            CurrentScope := saved,
            DebugInfo := DebugInfo s @ [(ForkTask body, taskname)],
            BlockHeap := (BlockHeap s)(enclosing := Some (blk\<lparr>Operations := Operations blk @ [ForkTask body]\<rparr>)),
            TheStack := stack,
            DisplacedScopes := displaced,
            SavedTaskNames := names\<rparr>)"
  using assms
  by (simp add: ExitBlock_def ExitBlock_TASK_def pop_block_def back_block_def back_is_not_def
      attach_fork_def AddOperationToCurrentBlock_def AddOperation_def update_block_def
      pop_TheStack_def)

lemma ExitBlock_THREAD_restores:
  assumes "Blocks s = BlockEntry (Some body) BLOCKENTRYTYPE_THREAD # BlockEntry (Some enclosing) et # blocks"
    and "BlockHeap s enclosing = Some blk"
    and "DisplacedScopes s = saved # displaced"
    and "TheStack s = poolid # threadid # stack"
    and "DetermineEffectiveType x
           (s\<lparr>Blocks := BlockEntry (Some enclosing) et # blocks, CurrentScope := saved\<rparr>) poolid
         = EpochVariableType_String"
    and "DetermineEffectiveType x
           (s\<lparr>Blocks := BlockEntry (Some enclosing) et # blocks, CurrentScope := saved,
               TheStack := threadid # stack\<rparr>) threadid
         = EpochVariableType_String"
    and "SavedTaskNames s = taskname # names"
  shows "ExitBlock x s =
     Inr (s\<lparr>Blocks := BlockEntry (Some enclosing) et # blocks,
            CurrentScope := saved,
            DebugInfo := DebugInfo s @ [(ForkThread body, taskname)],
            BlockHeap := (BlockHeap s)(enclosing := Some (blk\<lparr>Operations := Operations blk @ [ForkThread body]\<rparr>)),
            TheStack := stack,
            DisplacedScopes := displaced,
            SavedTaskNames := names\<rparr>)"
  using assms
  by (simp add: ExitBlock_def ExitBlock_THREAD_def pop_block_def back_block_def back_is_not_def
      attach_fork_def AddOperationToCurrentBlock_def AddOperation_def update_block_def
      pop_TheStack_def)

lemma loaded_fork_parent:
  assumes "fork = ForkTask \<or> fork = ForkThread"
    and "ExpectInstruction (BeginBlock routines) s = Inr s1"
    and "LoadScope routines False s1 = Inr (Some r, s2)"
    and "LoadCodeBlock routines s2 = Inr (Some tb, s3)"
    and "\<not> IsPrepass s3"
    and "LoadedScopes s3 r = Some sc" "LoadedBlocks s3 tb = Some tblk" "LoadedBlocks s3 nb = Some nblk"
    and "tb \<noteq> nb"
  shows "\<exists>s'. GenerateOpFromByteCode_Fork fork routines (Some nb) s = Inr s'
      \<and> LoadedBlocks s' nb = Some (nblk\<lparr>Operations := Operations nblk @ [fork tb]\<rparr>)
      \<and> LoadedBlocks s' tb = Some (tblk\<lparr>BoundScope := Some r\<rparr>)
      \<and> LoadedScopes s' r = Some (sc\<lparr>ParentScope := Some (ProgramGlobalScope s3)\<rparr>)"
  using assms
  by (auto simp: GenerateOpFromByteCode_Fork_def UnregisterScopeToDelete_def Let_def)


text \<open>
  Claim C8. Entering a task or thread block gives the new block a fresh scope whose
  parent is the Program's global scope, and saves the enclosing scope on
  \<open>DisplacedScopes\<close>; leaving the block makes the saved scope current again and pops it
  from \<open>DisplacedScopes\<close>, without touching any scope (so the body's scope keeps the
  global scope as its parent). On the second pass of the loader, the \<open>ForkTask\<close> and
  \<open>ForkThread\<close> cases set the parent of the scope they bind the loaded block to, to the
  global scope.
\<close>

theorem concurrency_scope_reparenting:
  "(ExpectedBlockTypes s = t # rest \<and> (t = BLOCKENTRYTYPE_TASK \<or> t = BLOCKENTRYTYPE_THREAD)
      \<longrightarrow> EnterBlock x s =
            Inr (s\<lparr>BlockHeap := (BlockHeap s)(NextRef s :=
                      Some \<lparr>Operations = [], BoundScope = Some (Suc (NextRef s))\<rparr>),
                   ScopeHeap := (ScopeHeap s)(Suc (NextRef s) :=
                      Some (new_ScopeDescription\<lparr>ParentScope := Some (GlobalScope s)\<rparr>)),
                   NextRef := Suc (Suc (NextRef s)),
                   DisplacedScopes := CurrentScope s # DisplacedScopes s,
                   CurrentScope := Some (Suc (NextRef s)),
                   Blocks := BlockEntry (Some (NextRef s)) t # Blocks s,
                   ExpectedBlockTypes := rest\<rparr>))
   \<and> (Blocks s = BlockEntry (Some body) BLOCKENTRYTYPE_TASK # BlockEntry (Some enclosing) et # blocks
        \<and> BlockHeap s enclosing = Some blk
        \<and> DisplacedScopes s = saved # displaced
        \<and> TheStack s = taskid # stack
        \<and> DetermineEffectiveType x
             (s\<lparr>Blocks := BlockEntry (Some enclosing) et # blocks, CurrentScope := saved\<rparr>) taskid
           = EpochVariableType_String
        \<and> SavedTaskNames s = taskname # names
      \<longrightarrow> ExitBlock x s =
            Inr (s\<lparr>Blocks := BlockEntry (Some enclosing) et # blocks,
                   CurrentScope := saved,
                   DebugInfo := DebugInfo s @ [(ForkTask body, taskname)],
                   BlockHeap := (BlockHeap s)(enclosing :=
                      Some (blk\<lparr>Operations := Operations blk @ [ForkTask body]\<rparr>)),
                   TheStack := stack,
                   DisplacedScopes := displaced,
                   SavedTaskNames := names\<rparr>))
   \<and> (Blocks s = BlockEntry (Some body) BLOCKENTRYTYPE_THREAD # BlockEntry (Some enclosing) et # blocks
        \<and> BlockHeap s enclosing = Some blk
        \<and> DisplacedScopes s = saved # displaced
        \<and> TheStack s = poolid # threadid # stack
        \<and> DetermineEffectiveType x
             (s\<lparr>Blocks := BlockEntry (Some enclosing) et # blocks, CurrentScope := saved\<rparr>) poolid
           = EpochVariableType_String
        \<and> DetermineEffectiveType x
             (s\<lparr>Blocks := BlockEntry (Some enclosing) et # blocks, CurrentScope := saved,
                 TheStack := threadid # stack\<rparr>) threadid
           = EpochVariableType_String
        \<and> SavedTaskNames s = taskname # names
      \<longrightarrow> ExitBlock x s =
            Inr (s\<lparr>Blocks := BlockEntry (Some enclosing) et # blocks,
                   CurrentScope := saved,
                   DebugInfo := DebugInfo s @ [(ForkThread body, taskname)],
                   BlockHeap := (BlockHeap s)(enclosing :=
                      Some (blk\<lparr>Operations := Operations blk @ [ForkThread body]\<rparr>)),
                   TheStack := stack,
                   DisplacedScopes := displaced,
                   SavedTaskNames := names\<rparr>))
   \<and> ((generate, fork) \<in> {(GenerateOpFromByteCode_ForkTask, ForkTask),
                            (GenerateOpFromByteCode_ForkThread, ForkThread)}
        \<and> ExpectInstruction (BeginBlock routines) l = Inr l1
        \<and> LoadScope routines False l1 = Inr (Some r, l2)
        \<and> LoadCodeBlock routines l2 = Inr (Some tb, l3)
        \<and> \<not> IsPrepass l3
        \<and> LoadedScopes l3 r = Some sc \<and> LoadedBlocks l3 tb = Some tblk
        \<and> LoadedBlocks l3 nb = Some nblk \<and> tb \<noteq> nb
      \<longrightarrow> (\<exists>l'. generate routines (Some nb) l = Inr l'
             \<and> LoadedBlocks l' nb = Some (nblk\<lparr>Operations := Operations nblk @ [fork tb]\<rparr>)
             \<and> LoadedBlocks l' tb = Some (tblk\<lparr>BoundScope := Some r\<rparr>)
             \<and> LoadedScopes l' r = Some (sc\<lparr>ParentScope := Some (ProgramGlobalScope l3)\<rparr>)))"
proof (intro conjI impI, goal_cases)
  case 1
  then show ?case using EnterBlock_concurrent [of s t rest x] by (elim conjE) simp
next
  case 2
  then show ?case
    by (elim conjE) (rule ExitBlock_TASK_restores)
next
  case 3
  then show ?case
    by (elim conjE) (rule ExitBlock_THREAD_restores)
next
  case 4
  then have d: "generate = GenerateOpFromByteCode_Fork fork" "fork = ForkTask \<or> fork = ForkThread"
    by (auto simp: GenerateOpFromByteCode_ForkTask_def GenerateOpFromByteCode_ForkThread_def)
  from 4 show ?case
    unfolding d(1) by (elim conjE) (rule loaded_fork_parent [OF d(2)])
qed


theorem concurrency_scope_reparenting_witness:
  "(\<exists>s1 s2. EnterBlock plain_collaborators
        ((nested_block_state BLOCKENTRYTYPE_FREE [operation_entry (OtherOperation ''PushStringLiteral'')])
           \<lparr>ExpectedBlockTypes := [BLOCKENTRYTYPE_TASK], SavedTaskNames := [''worker'']\<rparr>) = Inr s1
      \<and> CurrentScope s1 = Some 5 \<and> DisplacedScopes s1 = [Some 3]
      \<and> map_option ParentScope (ScopeHeap s1 5) = Some (Some 0)
      \<and> map_option BoundScope (BlockHeap s1 4) = Some (Some 5)
      \<and> ExitBlock plain_collaborators s1 = Inr s2
      \<and> CurrentScope s2 = Some 3 \<and> DisplacedScopes s2 = []
      \<and> map_option ParentScope (ScopeHeap s2 5) = Some (Some 0)
      \<and> map_option Operations (BlockHeap s2 2) = Some [ForkTask 4])
   \<and> (\<exists>s1 s2. EnterBlock plain_collaborators
        ((nested_block_state BLOCKENTRYTYPE_FREE
            [operation_entry (OtherOperation ''PushStringLiteral''),
             operation_entry (OtherOperation ''PushStringLiteral'')])
           \<lparr>ExpectedBlockTypes := [BLOCKENTRYTYPE_THREAD], SavedTaskNames := [''worker'']\<rparr>) = Inr s1
      \<and> ExitBlock plain_collaborators s1 = Inr s2
      \<and> CurrentScope s2 = Some 3 \<and> DisplacedScopes s2 = []
      \<and> map_option ParentScope (ScopeHeap s2 5) = Some (Some 0)
      \<and> map_option Operations (BlockHeap s2 2) = Some [ForkThread 4])
   \<and> (\<exists>l'. GenerateOpFromByteCode_ForkTask fork_loader_routines (Some 6) fork_loader_state = Inr l'
      \<and> map_option ParentScope (LoadedScopes l' 7) = Some (Some 0)
      \<and> map_option BoundScope (LoadedBlocks l' 8) = Some (Some 7)
      \<and> map_option Operations (LoadedBlocks l' 6) = Some [ForkTask 8])"
proof -
  let ?x = plain_collaborators
  let ?str = "operation_entry (OtherOperation ''PushStringLiteral'')"
  let ?a0 = "(nested_block_state BLOCKENTRYTYPE_FREE [?str])
           \<lparr>ExpectedBlockTypes := [BLOCKENTRYTYPE_TASK], SavedTaskNames := [''worker'']\<rparr>"
  let ?b0 = "(nested_block_state BLOCKENTRYTYPE_FREE [?str, ?str])
           \<lparr>ExpectedBlockTypes := [BLOCKENTRYTYPE_THREAD], SavedTaskNames := [''worker'']\<rparr>"
  define a1 where "a1 = ?a0\<lparr>BlockHeap := (BlockHeap ?a0)(NextRef ?a0 :=
                      Some \<lparr>Operations = [], BoundScope = Some (Suc (NextRef ?a0))\<rparr>),
                   ScopeHeap := (ScopeHeap ?a0)(Suc (NextRef ?a0) :=
                      Some (new_ScopeDescription\<lparr>ParentScope := Some (GlobalScope ?a0)\<rparr>)),
                   NextRef := Suc (Suc (NextRef ?a0)),
                   DisplacedScopes := CurrentScope ?a0 # DisplacedScopes ?a0,
                   CurrentScope := Some (Suc (NextRef ?a0)),
                   Blocks := BlockEntry (Some (NextRef ?a0)) BLOCKENTRYTYPE_TASK # Blocks ?a0,
                   ExpectedBlockTypes := []\<rparr>"
  define b1 where "b1 = ?b0\<lparr>BlockHeap := (BlockHeap ?b0)(NextRef ?b0 :=
                      Some \<lparr>Operations = [], BoundScope = Some (Suc (NextRef ?b0))\<rparr>),
                   ScopeHeap := (ScopeHeap ?b0)(Suc (NextRef ?b0) :=
                      Some (new_ScopeDescription\<lparr>ParentScope := Some (GlobalScope ?b0)\<rparr>)),
                   NextRef := Suc (Suc (NextRef ?b0)),
                   DisplacedScopes := CurrentScope ?b0 # DisplacedScopes ?b0,
                   CurrentScope := Some (Suc (NextRef ?b0)),
                   Blocks := BlockEntry (Some (NextRef ?b0)) BLOCKENTRYTYPE_THREAD # Blocks ?b0,
                   ExpectedBlockTypes := []\<rparr>"
  have ea: "EnterBlock ?x ?a0 = Inr a1"
    unfolding a1_def
    using concurrency_scope_reparenting [where s = ?a0 and t = BLOCKENTRYTYPE_TASK and rest = "[]" and x = ?x]
    by simp
  have eb: "EnterBlock ?x ?b0 = Inr b1"
    unfolding b1_def
    using concurrency_scope_reparenting [where s = ?b0 and t = BLOCKENTRYTYPE_THREAD and rest = "[]" and x = ?x]
    by simp
  have a1_facts: "CurrentScope a1 = Some 5" "DisplacedScopes a1 = [Some 3]"
    "map_option ParentScope (ScopeHeap a1 5) = Some (Some 0)"
    "map_option BoundScope (BlockHeap a1 4) = Some (Some 5)"
    by (simp_all add: a1_def nested_block_state_def new_ParserState_def)
  have xa: "\<exists>s2. ExitBlock ?x a1 = Inr s2
      \<and> CurrentScope s2 = Some 3 \<and> DisplacedScopes s2 = []
      \<and> map_option ParentScope (ScopeHeap s2 5) = Some (Some 0)
      \<and> map_option Operations (BlockHeap s2 2) = Some [ForkTask 4]"
    using concurrency_scope_reparenting [where s = a1 and body = 4 and enclosing = 2
        and et = BLOCKENTRYTYPE_FREE and blocks = "[BlockEntry (Some 1) BLOCKENTRYTYPE_FREE]"
        and blk = "\<lparr>Operations = [], BoundScope = Some 3\<rparr>" and saved = "Some 3" and displaced = "[]"
        and taskid = ?str and stack = "[]" and x = ?x and taskname = "''worker''" and names = "[]"]
    by (simp add: a1_def nested_block_state_def new_ParserState_def plain_collaborators_def
        operation_entry_def)
  have xb: "\<exists>s2. ExitBlock ?x b1 = Inr s2
      \<and> CurrentScope s2 = Some 3 \<and> DisplacedScopes s2 = []
      \<and> map_option ParentScope (ScopeHeap s2 5) = Some (Some 0)
      \<and> map_option Operations (BlockHeap s2 2) = Some [ForkThread 4]"
    using concurrency_scope_reparenting [where s = b1 and body = 4 and enclosing = 2
        and et = BLOCKENTRYTYPE_FREE and blocks = "[BlockEntry (Some 1) BLOCKENTRYTYPE_FREE]"
        and blk = "\<lparr>Operations = [], BoundScope = Some 3\<rparr>" and saved = "Some 3" and displaced = "[]"
        and poolid = ?str and threadid = ?str and stack = "[]" and x = ?x
        and taskname = "''worker''" and names = "[]"]
    by (simp add: b1_def nested_block_state_def new_ParserState_def plain_collaborators_def
        operation_entry_def)
  have l: "\<exists>l'. GenerateOpFromByteCode_ForkTask fork_loader_routines (Some 6) fork_loader_state = Inr l'
      \<and> map_option ParentScope (LoadedScopes l' 7) = Some (Some 0)
      \<and> map_option BoundScope (LoadedBlocks l' 8) = Some (Some 7)
      \<and> map_option Operations (LoadedBlocks l' 6) = Some [ForkTask 8]"
    using concurrency_scope_reparenting [where generate = GenerateOpFromByteCode_ForkTask
        and fork = ForkTask and routines = fork_loader_routines and l = fork_loader_state
        and ?l1.0 = "fork_loader_state\<lparr>Offset := 1\<rparr>" and ?l2.0 = "fork_loader_state\<lparr>Offset := 1\<rparr>"
        and ?l3.0 = "fork_loader_state\<lparr>Offset := 1\<rparr>" and r = 7 and tb = 8 and nb = 6
        and sc = "new_ScopeDescription\<lparr>ParentScope := Some 9\<rparr>"
        and tblk = "\<lparr>Operations = [], BoundScope = None\<rparr>"
        and nblk = "\<lparr>Operations = [], BoundScope = Some 0\<rparr>",
        THEN conjunct2, THEN conjunct2, THEN conjunct2]
    by (auto simp: fork_loader_state_def fork_loader_routines_def ExpectInstruction_def)
  from ea eb a1_facts xa xb l show ?thesis by blast
qed


subsection \<open>Strings during a load\<close>

text \<open>
  Claim C6, as stated, fails: on the prepass over a stream with one extension, named
  \<open>x\<close>, \<open>CheckExtensions\<close> widens the name and interns it in the Program's string pool.
\<close>

theorem prepass_interning_counterexample:
  "CheckExtensions Some (prepass_state [CHR 0x01, CHR 0x00, CHR 0x00, CHR 0x00, CHR ''x'', CHR 0x00])
   = Inr ((prepass_state [CHR 0x01, CHR 0x00, CHR 0x00, CHR 0x00, CHR ''x'', CHR 0x00])
            \<lparr>Offset := 6, ProgramStringPool := {''x''},
             ExtensionCalls := [RegisterExtensionLibrary ''x'', BindToLanguageExtension ''x'']\<rparr>)"
  by (simp add: CheckExtensions_def ReadNumber_def prepass_state_def ReadNullTerminatedString_def
      WidenAndCache_def widen_def Let_def)

lemma ReadNumber_number_bytes:
  assumes "Buffer s = pre @ number_bytes n @ post" "Offset s = length pre" "n < 2 ^ 32"
  shows "ReadNumber s = Inr (of_nat n, s\<lparr>Offset := length pre + 4\<rparr>)"
proof -
  have len: "\<not> length (Buffer s) < Offset s + 4"
    using assms by (simp add: number_bytes_def)
  have nth: "Buffer s ! Offset s = char_of (n mod 256)"
    "Buffer s ! (Offset s + 1) = char_of (n div 256 mod 256)"
    "Buffer s ! (Offset s + 2) = char_of (n div 65536 mod 256)"
    "Buffer s ! (Offset s + 3) = char_of (n div 16777216 mod 256)"
    using assms by (simp_all add: number_bytes_def nth_append)
  define q1 where "q1 = n div 256"
  define q2 where "q2 = q1 div 256"
  define q3 where "q3 = q2 div 256"
  have d2: "n div 65536 = q2"
    using div_mult2_eq [of n 256 256] by (simp add: q1_def q2_def)
  have d3: "n div 16777216 = q3"
    using div_mult2_eq [of n 65536 256] d2 by (simp add: q3_def)
  have e0: "n = n mod 256 + 256 * q1" by (simp add: q1_def)
  have e1: "q1 = q1 mod 256 + 256 * q2" by (simp add: q2_def)
  have e2: "q2 = q2 mod 256 + 256 * q3" by (simp add: q3_def)
  have "q3 < 256" using assms(3) d3 [symmetric] by simp
  then have e3: "q3 mod 256 = q3" by simp
  have sum: "n mod 256 + 256 * (n div 256 mod 256) + 65536 * (n div 65536 mod 256)
      + 16777216 * (n div 16777216 mod 256) = n"
    unfolding d2 d3 e3 q1_def [symmetric] using e0 e1 e2 by linarith
  have oc: "\<And>k. (of_char (char_of (k mod 256 :: nat)) :: nat) = k mod 256"
    by (simp add: of_char_of)
  have val: "(of_char (Buffer s ! Offset s)
                     + 256 * of_char (Buffer s ! (Offset s + 1))
                     + 65536 * of_char (Buffer s ! (Offset s + 2))
                     + 16777216 * of_char (Buffer s ! (Offset s + 3)) :: nat) = n"
    unfolding nth oc by (rule sum)
  have "ReadNumber s = Inr (of_nat (of_char (Buffer s ! Offset s)
                     + 256 * of_char (Buffer s ! (Offset s + 1))
                     + 65536 * of_char (Buffer s ! (Offset s + 2))
                     + 16777216 * of_char (Buffer s ! (Offset s + 3))),
             s\<lparr>Offset := Offset s + 4\<rparr>)"
    unfolding ReadNumber_def using len by (simp only: if_False)
  then have "ReadNumber s = Inr (of_nat n, s\<lparr>Offset := Offset s + 4\<rparr>)"
    by (simp only: val)
  then show ?thesis
    by (simp only: assms(2))
qed

lemma ReadNullTerminatedString_name:
  assumes "Buffer s = pre @ name @ CHR 0x00 # post" "Offset s = length pre" "CHR 0x00 \<notin> set name"
  shows "ReadNullTerminatedString s = Inr (name, s\<lparr>Offset := length pre + length name + 1\<rparr>)"
proof -
  have "takeWhile (\<lambda>c. c \<noteq> CHR 0x00) (name @ CHR 0x00 # post) = name"
    using assms(3) by (induction name) auto
  then show ?thesis
    using assms by (simp add: ReadNullTerminatedString_def Let_def)
qed

lemma CheckExtensions_loop_interns:
  assumes "Buffer s = pre @ concat (map (\<lambda>name. name @ [CHR 0x00]) names) @ post"
    and "Offset s = length pre"
    and "\<forall>name\<in>set names. CHR 0x00 \<notin> set name \<and> mbstowcs name \<noteq> None"
  shows "CheckExtensions_loop mbstowcs (length names) s =
     Inr (s\<lparr>Offset := length pre + length (concat (map (\<lambda>name. name @ [CHR 0x00]) names)),
            ProgramStringPool := ProgramStringPool s \<union> set (map (the \<circ> mbstowcs) names),
            ExtensionCalls := ExtensionCalls s
               @ (if IsPrepass s then extension_calls (map (the \<circ> mbstowcs) names) else [])\<rparr>)"
  using assms
proof (induction names arbitrary: s pre)
  case Nil
  then show ?case by (simp add: extension_calls_def)
next
  case (Cons name names)
  from Cons.prems(3) obtain wide where wide: "mbstowcs name = Some wide" and nz: "CHR 0x00 \<notin> set name"
    by auto
  have buf: "Buffer s = pre @ name @ CHR 0x00 # (concat (map (\<lambda>name. name @ [CHR 0x00]) names) @ post)"
    using Cons.prems(1) by simp
  note rd = ReadNullTerminatedString_name [OF buf Cons.prems(2) nz]
  let ?s1 = "s\<lparr>Offset := length pre + length name + 1\<rparr>"
  let ?s2 = "?s1\<lparr>ProgramStringPool := insert wide (ProgramStringPool s)\<rparr>"
  let ?s3 = "if IsPrepass s
     then ?s2\<lparr>ExtensionCalls := ExtensionCalls s
                          @ [RegisterExtensionLibrary wide, BindToLanguageExtension wide]\<rparr>
     else ?s2"
  have step: "CheckExtensions_loop mbstowcs (length (name # names)) s =
      CheckExtensions_loop mbstowcs (length names) ?s3"
    using rd wide by (simp add: WidenAndCache_def widen_def)
  have b3: "Buffer ?s3 = (pre @ name @ [CHR 0x00]) @ concat (map (\<lambda>name. name @ [CHR 0x00]) names) @ post"
    using buf by simp
  have o3: "Offset ?s3 = length (pre @ name @ [CHR 0x00])" by simp
  have h3: "\<forall>name\<in>set names. CHR 0x00 \<notin> set name \<and> mbstowcs name \<noteq> None"
    using Cons.prems(3) by simp
  show ?case
    unfolding step Cons.IH [OF b3 o3 h3]
    using wide by (simp add: extension_calls_def)
qed


text \<open>
  Claim C6, amended. \<open>WidenAndCache\<close> widens a string and interns it in the Program's
  string pool whichever pass is running. \<open>CheckExtensions\<close> interns every extension name
  of the stream on the prepass and on the second pass alike; the passes differ in that
  only the prepass registers the libraries.
\<close>

theorem extension_names_interned_on_every_pass:
  "(mbstowcs str = Some wide
      \<longrightarrow> WidenAndCache mbstowcs str s
            = Inr (wide, s\<lparr>ProgramStringPool := insert wide (ProgramStringPool s)\<rparr>))
   \<and> (Buffer s = pre @ extension_table names @ post \<and> Offset s = length pre
        \<and> length names < 2 ^ 32
        \<and> (\<forall>name\<in>set names. CHR 0x00 \<notin> set name \<and> mbstowcs name \<noteq> None)
      \<longrightarrow> CheckExtensions mbstowcs s =
            Inr (s\<lparr>Offset := length pre + length (extension_table names),
                   ProgramStringPool := ProgramStringPool s \<union> set (map (the \<circ> mbstowcs) names),
                   ExtensionCalls := ExtensionCalls s
                      @ (if IsPrepass s then extension_calls (map (the \<circ> mbstowcs) names) else [])\<rparr>))"
proof (intro conjI impI, goal_cases)
  case 1
  then show ?case by (simp add: WidenAndCache_def widen_def)
next
  case 2
  then have buf: "Buffer s = pre @ number_bytes (length names)
        @ (concat (map (\<lambda>name. name @ [CHR 0x00]) names) @ post)"
    and off: "Offset s = length pre" and len: "length names < 2 ^ 32"
    and ok: "\<forall>name\<in>set names. CHR 0x00 \<notin> set name \<and> mbstowcs name \<noteq> None"
    by (simp_all add: extension_table_def)
  let ?s1 = "s\<lparr>Offset := length pre + 4\<rparr>"
  have rn: "ReadNumber s = Inr (of_nat (length names), ?s1)"
    by (rule ReadNumber_number_bytes [OF buf off len])
  have un: "unat (of_nat (length names) :: 32 word) = length names"
    using len by (simp add: unat_of_nat)
  have b1: "Buffer ?s1 = (pre @ number_bytes (length names))
        @ concat (map (\<lambda>name. name @ [CHR 0x00]) names) @ post"
    using buf by simp
  have o1: "Offset ?s1 = length (pre @ number_bytes (length names))"
    by (simp add: number_bytes_def)
  show ?case
    unfolding CheckExtensions_def rn
    by (simp add: un CheckExtensions_loop_interns [OF b1 o1 ok] extension_table_def
        number_bytes_def)
qed

theorem extension_names_interned_on_every_pass_witness:
  "(\<exists>s1 s2. CheckExtensions Some (prepass_state (extension_table [''ab''])) = Inr s1
      \<and> ProgramStringPool s1 = {''ab''}
      \<and> ExtensionCalls s1 = [RegisterExtensionLibrary ''ab'', BindToLanguageExtension ''ab'']
      \<and> CheckExtensions Some (s1\<lparr>Offset := 0, IsPrepass := False\<rparr>) = Inr s2
      \<and> ProgramStringPool s2 = {''ab''} \<and> ExtensionCalls s2 = ExtensionCalls s1)
   \<and> WidenAndCache Some ''ab'' (prepass_state []) = Inr (''ab'', (prepass_state [])\<lparr>ProgramStringPool := {''ab''}\<rparr>)"
proof -
  let ?s0 = "prepass_state (extension_table [''ab''])"
  let ?s1 = "?s0\<lparr>Offset := 0 + length (extension_table [''ab'']),
                   ProgramStringPool := ProgramStringPool ?s0 \<union> set (map (the \<circ> Some) [''ab'']),
                   ExtensionCalls := ExtensionCalls ?s0
                      @ (if IsPrepass ?s0 then extension_calls (map (the \<circ> Some) [''ab'']) else [])\<rparr>"
  let ?t = "?s1\<lparr>Offset := 0, IsPrepass := False\<rparr>"
  have r1: "CheckExtensions Some ?s0 = Inr ?s1"
    using extension_names_interned_on_every_pass [where s = ?s0 and pre = "[]" and names = "[''ab'']"
        and post = "[]" and mbstowcs = Some, THEN conjunct2]
    by (simp add: prepass_state_def)
  have r2: "CheckExtensions Some ?t =
      Inr (?t\<lparr>Offset := 0 + length (extension_table [''ab'']),
                   ProgramStringPool := ProgramStringPool ?t \<union> set (map (the \<circ> Some) [''ab'']),
                   ExtensionCalls := ExtensionCalls ?t
                      @ (if IsPrepass ?t then extension_calls (map (the \<circ> Some) [''ab'']) else [])\<rparr>)"
    using extension_names_interned_on_every_pass [where s = ?t and pre = "[]" and names = "[''ab'']"
        and post = "[]" and mbstowcs = Some, THEN conjunct2]
    by (simp add: prepass_state_def)
  have w: "WidenAndCache Some ''ab'' (prepass_state [])
      = Inr (''ab'', (prepass_state [])\<lparr>ProgramStringPool := {''ab''}\<rparr>)"
    using extension_names_interned_on_every_pass [where s = "prepass_state []" and mbstowcs = Some
        and str = "''ab''" and wide = "''ab''", THEN conjunct1]
    by (simp add: prepass_state_def)
  have p1: "ProgramStringPool ?s1 = {''ab''}"
    "ExtensionCalls ?s1 = [RegisterExtensionLibrary ''ab'', BindToLanguageExtension ''ab'']"
    by (simp_all add: prepass_state_def extension_calls_def)
  show ?thesis
    unfolding r1 using r2 p1 w
    by (simp add: prepass_state_def extension_calls_def)
qed


subsection \<open>If/elseif/else chains\<close>

lemma walk_back_nearest:
  "walk_back ops view = Some i \<longleftrightarrow>
     (\<exists>k<length view. view ! k = i \<and> i < length ops \<and> is_If (ops ! i)
        \<and> (\<forall>j<k. view ! j < length ops \<and> is_ElseIfWrapper (ops ! (view ! j))))"
proof (induction view)
  case Nil
  then show ?case by simp
next
  case (Cons a view)
  have notboth: "\<not> (is_If (ops ! a) \<and> is_ElseIfWrapper (ops ! a))"
    by (cases "ops ! a") simp_all
  show ?case
  proof (cases "a < length ops \<and> is_If (ops ! a)")
    case True
    then have "walk_back ops (a # view) = Some i \<longleftrightarrow> i = a" by auto
    moreover have "(\<exists>k<length (a # view). (a # view) ! k = i \<and> i < length ops \<and> is_If (ops ! i)
        \<and> (\<forall>j<k. (a # view) ! j < length ops \<and> is_ElseIfWrapper (ops ! ((a # view) ! j)))) \<longleftrightarrow> i = a"
    proof
      assume "\<exists>k<length (a # view). (a # view) ! k = i \<and> i < length ops \<and> is_If (ops ! i)
        \<and> (\<forall>j<k. (a # view) ! j < length ops \<and> is_ElseIfWrapper (ops ! ((a # view) ! j)))"
      then obtain k where k: "(a # view) ! k = i"
        "\<forall>j<k. (a # view) ! j < length ops \<and> is_ElseIfWrapper (ops ! ((a # view) ! j))" by blast
      show "i = a"
      proof (cases k)
        case 0
        then show ?thesis using k by simp
      next
        case (Suc k')
        then have "is_ElseIfWrapper (ops ! a)" using k(2) by auto
        then show ?thesis using True notboth by simp
      qed
    next
      assume "i = a"
      then show "\<exists>k<length (a # view). (a # view) ! k = i \<and> i < length ops \<and> is_If (ops ! i)
        \<and> (\<forall>j<k. (a # view) ! j < length ops \<and> is_ElseIfWrapper (ops ! ((a # view) ! j)))"
        using True by (intro exI [of _ 0]) simp
    qed
    ultimately show ?thesis by simp
  next
    case notif: False
    show ?thesis
    proof (cases "a < length ops \<and> is_ElseIfWrapper (ops ! a)")
      case True
      then have "walk_back ops (a # view) = Some i \<longleftrightarrow> walk_back ops view = Some i"
        using notif by auto
      also have "\<dots> \<longleftrightarrow> (\<exists>k<length view. view ! k = i \<and> i < length ops \<and> is_If (ops ! i)
        \<and> (\<forall>j<k. view ! j < length ops \<and> is_ElseIfWrapper (ops ! (view ! j))))"
        by (rule Cons.IH)
      also have "\<dots> \<longleftrightarrow> (\<exists>k<length (a # view). (a # view) ! k = i \<and> i < length ops \<and> is_If (ops ! i)
        \<and> (\<forall>j<k. (a # view) ! j < length ops \<and> is_ElseIfWrapper (ops ! ((a # view) ! j))))"
      proof
        assume "\<exists>k<length view. view ! k = i \<and> i < length ops \<and> is_If (ops ! i)
          \<and> (\<forall>j<k. view ! j < length ops \<and> is_ElseIfWrapper (ops ! (view ! j)))"
        then obtain k where k: "k < length view" "view ! k = i" "i < length ops" "is_If (ops ! i)"
          "\<forall>j<k. view ! j < length ops \<and> is_ElseIfWrapper (ops ! (view ! j))" by blast
        have "\<forall>j<Suc k. (a # view) ! j < length ops \<and> is_ElseIfWrapper (ops ! ((a # view) ! j))"
          using k(5) True by (auto simp: nth_Cons split: nat.splits)
        then show "\<exists>k<length (a # view). (a # view) ! k = i \<and> i < length ops \<and> is_If (ops ! i)
          \<and> (\<forall>j<k. (a # view) ! j < length ops \<and> is_ElseIfWrapper (ops ! ((a # view) ! j)))"
          using k by (intro exI [of _ "Suc k"]) simp
      next
        assume "\<exists>k<length (a # view). (a # view) ! k = i \<and> i < length ops \<and> is_If (ops ! i)
          \<and> (\<forall>j<k. (a # view) ! j < length ops \<and> is_ElseIfWrapper (ops ! ((a # view) ! j)))"
        then obtain k where k: "k < length (a # view)" "(a # view) ! k = i" "i < length ops"
          "is_If (ops ! i)"
          "\<forall>j<k. (a # view) ! j < length ops \<and> is_ElseIfWrapper (ops ! ((a # view) ! j))" by blast
        have "k \<noteq> 0" using k notif by (cases k) auto
        then obtain k' where k': "k = Suc k'" by (cases k) auto
        have "\<forall>j<k'. view ! j < length ops \<and> is_ElseIfWrapper (ops ! (view ! j))"
          using k(5) k' by auto
        then show "\<exists>k<length view. view ! k = i \<and> i < length ops \<and> is_If (ops ! i)
          \<and> (\<forall>j<k. view ! j < length ops \<and> is_ElseIfWrapper (ops ! (view ! j)))"
          using k k' by (intro exI [of _ k']) simp
      qed
      finally show ?thesis .
    next
      case False
      then have "walk_back ops (a # view) = None" using notif by auto
      moreover have "\<not> (\<exists>k<length (a # view). (a # view) ! k = i \<and> i < length ops \<and> is_If (ops ! i)
        \<and> (\<forall>j<k. (a # view) ! j < length ops \<and> is_ElseIfWrapper (ops ! ((a # view) ! j))))"
      proof
        assume "\<exists>k<length (a # view). (a # view) ! k = i \<and> i < length ops \<and> is_If (ops ! i)
          \<and> (\<forall>j<k. (a # view) ! j < length ops \<and> is_ElseIfWrapper (ops ! ((a # view) ! j)))"
        then obtain k where k: "(a # view) ! k = i" "i < length ops" "is_If (ops ! i)"
          "\<forall>j<k. (a # view) ! j < length ops \<and> is_ElseIfWrapper (ops ! ((a # view) ! j))" by blast
        show False
        proof (cases k)
          case 0
          then show ?thesis using k notif by simp
        next
          case (Suc k')
          then have "a < length ops \<and> is_ElseIfWrapper (ops ! a)" using k(4) by auto
          then show ?thesis using False by simp
        qed
      qed
      ultimately show ?thesis by simp
    qed
  qed
qed

lemma first_elseif:
  assumes "Blocks s = BlockEntry (Some b) et # blocks" "BlockHeap s b = Some blk"
    and "walk_back (Operations blk) (TailView x s (Operations blk)) = Some i"
    and "Operations blk ! i = If trueblock falseblock None"
    and "b \<noteq> NextRef s"
  shows "RegisterControl x Keywords_ElseIf False s =
     Inr (s\<lparr>BlockHeap := (BlockHeap s)
              (NextRef s := Some \<lparr>Operations = [], BoundScope = Some (Suc (NextRef s))\<rparr>,
               b := Some (blk\<lparr>Operations := (Operations blk)
                          [i := If trueblock falseblock (Some (ElseIfWrapper (NextRef s)))]\<rparr>)),
            ScopeHeap := (ScopeHeap s)(Suc (NextRef s) :=
               Some (new_ScopeDescription\<lparr>ParentScope := CurrentScope s\<rparr>)),
            NextRef := Suc (Suc (NextRef s)),
            Blocks := BlockEntry (Some (NextRef s)) BLOCKENTRYTYPE_ELSEIFWRAPPER # Blocks s,
            ExpectedBlockTypes := BLOCKENTRYTYPE_ELSEIF # ExpectedBlockTypes s\<rparr>)"
  using assms
  by (simp add: RegisterControl_def Keywords_ElseIf_def Keywords_Do_def Keywords_If_def
      back_block_def alloc_block_def alloc_scope_def update_scope_def BindToScope_def
      update_block_def push_expected_def)

lemma later_elseif:
  assumes "Blocks s = BlockEntry (Some b) et # blocks" "BlockHeap s b = Some blk"
    and "walk_back (Operations blk) (TailView x s (Operations blk)) = Some i"
    and "Operations blk ! i = If trueblock falseblock (Some (ElseIfWrapper w))"
  shows "RegisterControl x Keywords_ElseIf False s =
     Inr (s\<lparr>Blocks := BlockEntry (Some w) BLOCKENTRYTYPE_ELSEIFWRAPPER # Blocks s,
            ExpectedBlockTypes := BLOCKENTRYTYPE_ELSEIF # ExpectedBlockTypes s\<rparr>)"
  using assms
  by (simp add: RegisterControl_def Keywords_ElseIf_def Keywords_Do_def Keywords_If_def
      back_block_def push_expected_def)

lemma elseif_exit:
  assumes "Blocks s = BlockEntry (Some body) BLOCKENTRYTYPE_ELSEIF # BlockEntry (Some w) et # blocks"
    and "TheStack s = entry # stack"
    and "BlockHeap s body = Some bblk" "BlockHeap s w = Some wblk" "body \<noteq> w"
    and "boolean_condition x
           (s\<lparr>Blocks := BlockEntry (Some w) et # blocks,
               BlockHeap := (BlockHeap s)(body := Some (bblk\<lparr>Operations := Operations bblk @ [ExitIfChain]\<rparr>))\<rparr>)
           entry"
    and "CurrentScope s = Some r" "ScopeHeap s r = Some sc"
  shows "ExitBlock x s =
     Inr (s\<lparr>Blocks := blocks,
            BlockHeap := (BlockHeap s)
               (body := Some (bblk\<lparr>Operations := Operations bblk @ [ExitIfChain]\<rparr>),
                w := Some (wblk\<lparr>Operations := Operations wblk @ [ElseIf body]\<rparr>)),
            TheStack := stack,
            CurrentScope := ParentScope sc\<rparr>)"
  using assms
  by (auto simp: ExitBlock_def ExitBlock_ELSEIF_def pop_block_def back_block_def AddOperation_def
      update_block_def AddOperationToCurrentBlock_def pop_Blocks_def pop_TheStack_def
      leave_scope_def boolean_condition_def Let_def)

lemma else_exit:
  assumes "Blocks s = BlockEntry (Some elseblock) BLOCKENTRYTYPE_ELSE # BlockEntry (Some b) et # blocks"
    and "BlockHeap s b = Some blk"
    and "walk_back (Operations blk)
           (TailView x (s\<lparr>Blocks := BlockEntry (Some b) et # blocks\<rparr>) (Operations blk)) = Some i"
    and "Operations blk ! i = If trueblock falseblock elseifs"
    and "CurrentScope s = Some r" "ScopeHeap s r = Some sc"
  shows "ExitBlock x s =
     Inr (s\<lparr>Blocks := BlockEntry (Some b) et # blocks,
            BlockHeap := (BlockHeap s)(b := Some (blk\<lparr>Operations := (Operations blk)
                            [i := If trueblock (Some elseblock) elseifs]\<rparr>)),
            CurrentScope := ParentScope sc\<rparr>)"
  using assms
  by (simp add: ExitBlock_def ExitBlock_ELSE_def pop_block_def back_block_def update_block_def
      leave_scope_def)


lemma AddOperationToCurrentBlock_other:
  assumes "AddOperationToCurrentBlock op s = Inr s'" "Some body \<notin> TheBlock ` set (Blocks s)"
  shows "BlockHeap s' body = BlockHeap s body \<and> Blocks s' = Blocks s"
  using assms
  by (auto simp: AddOperationToCurrentBlock_def back_block_def AddOperation_def update_block_def
      and_then_def split: list.splits option.splits sum.splits)

lemma pop_Blocks_heap:
  assumes "pop_Blocks s = Inr s'"
  shows "BlockHeap s' = BlockHeap s \<and> Blocks s' = tl (Blocks s)"
  using assms by (auto simp: pop_Blocks_def split: list.splits)

lemma pop_TheStack_heap:
  assumes "pop_TheStack s = Inr s'"
  shows "BlockHeap s' = BlockHeap s \<and> Blocks s' = Blocks s"
  using assms by (auto simp: pop_TheStack_def split: list.splits)

lemma leave_scope_heap:
  assumes "leave_scope s = Inr s'"
  shows "BlockHeap s' = BlockHeap s \<and> Blocks s' = Blocks s"
  using assms by (auto simp: leave_scope_def split: option.splits)

lemma and_then_Inr: "and_then m f = Inr v \<longleftrightarrow> (\<exists>u. m = Inr u \<and> f u = Inr v)"
  by (cases m) simp_all

lemma elseif_cleanup_heap:
  assumes "and_then (pop_Blocks (ReportFatalError msg s)) (\<lambda>s3. and_then (pop_TheStack s3) leave_scope) = Inr s'"
  shows "BlockHeap s' = BlockHeap s \<and> Blocks s' = tl (Blocks s)"
proof -
  from assms obtain s3 s4 where "pop_Blocks (ReportFatalError msg s) = Inr s3"
    "pop_TheStack s3 = Inr s4" "leave_scope s4 = Inr s'"
    by (auto simp: and_then_Inr)
  then show ?thesis
    using pop_Blocks_heap [of "ReportFatalError msg s" s3] pop_TheStack_heap [of s3 s4]
      leave_scope_heap [of s4 s']
    by (simp add: ReportFatalError_def)
qed

lemma elseif_attach_heap:
  assumes "and_then (AddOperationToCurrentBlock op s) (\<lambda>s4.
             and_then (pop_Blocks s4) (\<lambda>s5. and_then (pop_TheStack s5) leave_scope)) = Inr s'"
    and "Some body \<notin> TheBlock ` set (Blocks s)"
  shows "BlockHeap s' body = BlockHeap s body"
proof -
  from assms(1) obtain s4 s5 s6 where "AddOperationToCurrentBlock op s = Inr s4"
    "pop_Blocks s4 = Inr s5" "pop_TheStack s5 = Inr s6" "leave_scope s6 = Inr s'"
    by (auto simp: and_then_Inr)
  then show ?thesis
    using AddOperationToCurrentBlock_other [of op s s4 body] assms(2) pop_Blocks_heap [of s4 s5]
      pop_TheStack_heap [of s5 s6] leave_scope_heap [of s6 s']
    by simp
qed

lemma elseif_body_ends_with_ExitIfChain:
  assumes blocks: "Blocks s = BlockEntry (Some body) BLOCKENTRYTYPE_ELSEIF # rest"
    and body: "BlockHeap s body = Some bblk"
    and other: "Some body \<notin> TheBlock ` set rest"
    and run: "ExitBlock x s = Inr s'"
  shows "BlockHeap s' body = Some (bblk\<lparr>Operations := Operations bblk @ [ExitIfChain]\<rparr>)"
proof -
  obtain entry stack where stack: "TheStack s = entry # stack"
    using run blocks by (cases "TheStack s") (auto simp: ExitBlock_def ExitBlock_ELSEIF_def)
  define s2 where "s2 = s\<lparr>Blocks := rest,
      BlockHeap := (BlockHeap s)(body := Some (bblk\<lparr>Operations := Operations bblk @ [ExitIfChain]\<rparr>))\<rparr>"
  have b2: "Blocks s2 = rest" and h2: "BlockHeap s2 body = Some (bblk\<lparr>Operations := Operations bblk @ [ExitIfChain]\<rparr>)"
    by (simp_all add: s2_def)
  let ?cleanup = "\<lambda>msg. and_then (pop_Blocks (ReportFatalError msg s2)) (\<lambda>s3.
                                 and_then (pop_TheStack s3) leave_scope)"
  let ?attach = "\<lambda>s3. and_then (AddOperationToCurrentBlock (ElseIf body) s3) (\<lambda>s4.
                               and_then (pop_Blocks s4) (\<lambda>s5.
                               and_then (pop_TheStack s5) leave_scope))"
  have unfolded: "ExitBlock x s =
     (if Type entry = STACKENTRYTYPE_IDENTIFIER then
               (if GetVariableType x s2 (StringValue entry) \<noteq> EpochVariableType_Boolean
                then ?cleanup ''Conditional variables must be of the boolean type''
                else ?attach s2)
             else if Type entry = STACKENTRYTYPE_OPERATION then
               (case OperationPointer entry of
                  None \<Rightarrow> Inl InvalidAccess
                | Some op \<Rightarrow>
                   if GetType x s2 op \<noteq> EpochVariableType_Boolean
                   then and_then (?cleanup ''Expected a conditional expression here'') ?attach
                   else ?attach s2)
             else ?cleanup ''Conditional variables must be of the boolean type'')"
    unfolding s2_def using blocks body stack
    by (simp add: ExitBlock_def ExitBlock_ELSEIF_def pop_block_def back_block_def AddOperation_def
        update_block_def Let_def)
  have c: "\<And>msg t. ?cleanup msg = Inr t \<Longrightarrow> BlockHeap t body = BlockHeap s2 body \<and> Blocks t = tl rest"
    using elseif_cleanup_heap [of _ s2] b2 by auto
  have a: "\<And>t. ?attach s2 = Inr t \<Longrightarrow> BlockHeap t body = BlockHeap s2 body"
    using elseif_attach_heap [of "ElseIf body" s2 _ body] b2 other by auto
  have ca: "\<And>msg t. and_then (?cleanup msg) ?attach = Inr t \<Longrightarrow> BlockHeap t body = BlockHeap s2 body"
  proof -
    fix msg t assume "and_then (?cleanup msg) ?attach = Inr t"
    then obtain u where u: "?cleanup msg = Inr u" "?attach u = Inr t"
      by (auto simp: and_then_Inr)
    from c [OF u(1)] have hu: "BlockHeap u body = BlockHeap s2 body" and bu: "Blocks u = tl rest"
      by simp_all
    have "Some body \<notin> TheBlock ` set (Blocks u)"
      using other bu by (cases rest) auto
    from elseif_attach_heap [OF u(2) this] hu
    show "BlockHeap t body = BlockHeap s2 body" by simp
  qed
  from run show ?thesis
    unfolding unfolded using c a ca h2
    by (auto split: if_splits option.splits)
qed


text \<open>
  The chain on the paths that end as the specification says. The backward walk yields
  the nearest \<open>If\<close>: the operation at the first offset from the block tail that is an
  \<open>If\<close>, all operations at smaller offsets being \<open>ElseIfWrapper\<close>s. For the first
  \<open>elseif\<close> (the \<open>If\<close> found has no wrapper), \<open>RegisterControl\<close> allocates a fresh
  wrapper block with a fresh scope, installs the wrapper on that \<open>If\<close> and opens the
  wrapper's block; for a later \<open>elseif\<close> it opens the block of the wrapper already
  installed, allocating nothing. At the exit of an \<open>elseif\<close> body whose condition is
  Boolean, \<open>ExitIfChain\<close> is appended to the body and the \<open>ElseIf\<close> operation is
  appended to the wrapper's block; whenever the exit of an \<open>elseif\<close> body returns, the
  body ends with \<open>ExitIfChain\<close>. At the exit of an \<open>else\<close> body, the body becomes the
  false block of the \<open>If\<close> that the same walk finds.
\<close>

theorem if_chain_discipline:
  "(walk_back ops view = Some i \<longleftrightarrow>
      (\<exists>k<length view. view ! k = i \<and> i < length ops \<and> is_If (ops ! i)
         \<and> (\<forall>j<k. view ! j < length ops \<and> is_ElseIfWrapper (ops ! (view ! j)))))
   \<and> (Blocks s = BlockEntry (Some b) et # blocks \<and> BlockHeap s b = Some blk
        \<and> walk_back (Operations blk) (TailView x s (Operations blk)) = Some n
        \<and> Operations blk ! n = If trueblock falseblock None \<and> b \<noteq> NextRef s
      \<longrightarrow> RegisterControl x Keywords_ElseIf False s =
            Inr (s\<lparr>BlockHeap := (BlockHeap s)
                     (NextRef s := Some \<lparr>Operations = [], BoundScope = Some (Suc (NextRef s))\<rparr>,
                      b := Some (blk\<lparr>Operations := (Operations blk)
                                 [n := If trueblock falseblock (Some (ElseIfWrapper (NextRef s)))]\<rparr>)),
                   ScopeHeap := (ScopeHeap s)(Suc (NextRef s) :=
                      Some (new_ScopeDescription\<lparr>ParentScope := CurrentScope s\<rparr>)),
                   NextRef := Suc (Suc (NextRef s)),
                   Blocks := BlockEntry (Some (NextRef s)) BLOCKENTRYTYPE_ELSEIFWRAPPER # Blocks s,
                   ExpectedBlockTypes := BLOCKENTRYTYPE_ELSEIF # ExpectedBlockTypes s\<rparr>))
   \<and> (Blocks s = BlockEntry (Some b) et # blocks \<and> BlockHeap s b = Some blk
        \<and> walk_back (Operations blk) (TailView x s (Operations blk)) = Some n
        \<and> Operations blk ! n = If trueblock falseblock (Some (ElseIfWrapper w))
      \<longrightarrow> RegisterControl x Keywords_ElseIf False s =
            Inr (s\<lparr>Blocks := BlockEntry (Some w) BLOCKENTRYTYPE_ELSEIFWRAPPER # Blocks s,
                   ExpectedBlockTypes := BLOCKENTRYTYPE_ELSEIF # ExpectedBlockTypes s\<rparr>))
   \<and> (Blocks s = BlockEntry (Some body) BLOCKENTRYTYPE_ELSEIF # BlockEntry (Some w) et # blocks
        \<and> TheStack s = entry # stack
        \<and> BlockHeap s body = Some bblk \<and> BlockHeap s w = Some wblk \<and> body \<noteq> w
        \<and> boolean_condition x
             (s\<lparr>Blocks := BlockEntry (Some w) et # blocks,
                 BlockHeap := (BlockHeap s)
                    (body := Some (bblk\<lparr>Operations := Operations bblk @ [ExitIfChain]\<rparr>))\<rparr>)
             entry
        \<and> CurrentScope s = Some r \<and> ScopeHeap s r = Some sc
      \<longrightarrow> ExitBlock x s =
            Inr (s\<lparr>Blocks := blocks,
                   BlockHeap := (BlockHeap s)
                      (body := Some (bblk\<lparr>Operations := Operations bblk @ [ExitIfChain]\<rparr>),
                       w := Some (wblk\<lparr>Operations := Operations wblk @ [ElseIf body]\<rparr>)),
                   TheStack := stack,
                   CurrentScope := ParentScope sc\<rparr>))
   \<and> (Blocks s = BlockEntry (Some body) BLOCKENTRYTYPE_ELSEIF # others
        \<and> BlockHeap s body = Some bblk \<and> Some body \<notin> TheBlock ` set others
        \<and> ExitBlock x s = Inr s'
      \<longrightarrow> BlockHeap s' body = Some (bblk\<lparr>Operations := Operations bblk @ [ExitIfChain]\<rparr>))
   \<and> (Blocks s = BlockEntry (Some elseblock) BLOCKENTRYTYPE_ELSE # BlockEntry (Some b) et # blocks
        \<and> BlockHeap s b = Some blk
        \<and> walk_back (Operations blk)
             (TailView x (s\<lparr>Blocks := BlockEntry (Some b) et # blocks\<rparr>) (Operations blk)) = Some n
        \<and> Operations blk ! n = If trueblock falseblock elseifs
        \<and> CurrentScope s = Some r \<and> ScopeHeap s r = Some sc
      \<longrightarrow> ExitBlock x s =
            Inr (s\<lparr>Blocks := BlockEntry (Some b) et # blocks,
                   BlockHeap := (BlockHeap s)(b := Some (blk\<lparr>Operations := (Operations blk)
                                   [n := If trueblock (Some elseblock) elseifs]\<rparr>)),
                   CurrentScope := ParentScope sc\<rparr>))"
proof (intro conjI impI, goal_cases)
  case 1
  show ?case by (rule walk_back_nearest)
next
  case 2
  then show ?case by (elim conjE) (rule first_elseif)
next
  case 3
  then show ?case by (elim conjE) (rule later_elseif)
next
  case 4
  then show ?case by (elim conjE) (rule elseif_exit)
next
  case 5
  then show ?case by (elim conjE) (rule elseif_body_ends_with_ExitIfChain)
next
  case 6
  then show ?case by (elim conjE) (rule else_exit)
qed


theorem if_chain_discipline_witness:
  "walk_back [OtherOperation ''PushBooleanLiteral'', If 10 None None] [1, 0] = Some 1
   \<and> (\<exists>s'. RegisterControl plain_collaborators Keywords_ElseIf False
               (if_chain_state (If 10 None None) [] []) = Inr s'
        \<and> map_option Operations (BlockHeap s' 2)
            = Some [OtherOperation ''PushBooleanLiteral'', If 10 None (Some (ElseIfWrapper 20))]
        \<and> BlockHeap s' 20 = Some \<lparr>Operations = [], BoundScope = Some 21\<rparr>
        \<and> map_option ParentScope (ScopeHeap s' 21) = Some (Some 3)
        \<and> hd (Blocks s') = BlockEntry (Some 20) BLOCKENTRYTYPE_ELSEIFWRAPPER)
   \<and> (\<exists>s'. RegisterControl plain_collaborators Keywords_ElseIf False
               (if_chain_state (If 10 None (Some (ElseIfWrapper 12))) [] []) = Inr s'
        \<and> hd (Blocks s') = BlockEntry (Some 12) BLOCKENTRYTYPE_ELSEIFWRAPPER \<and> NextRef s' = 20)
   \<and> (\<exists>s'. ExitBlock plain_collaborators
               (if_chain_state (If 10 None (Some (ElseIfWrapper 12)))
                  [BlockEntry (Some 14) BLOCKENTRYTYPE_ELSEIF,
                   BlockEntry (Some 12) BLOCKENTRYTYPE_ELSEIFWRAPPER]
                  [operation_entry (OtherOperation ''PushBooleanLiteral'')]) = Inr s'
        \<and> map_option Operations (BlockHeap s' 14) = Some [ExitIfChain]
        \<and> map_option Operations (BlockHeap s' 12)
            = Some [OtherOperation ''PushBooleanLiteral'', ElseIf 14]
        \<and> CurrentScope s' = Some 3 \<and> TheStack s' = [])
   \<and> (\<exists>s'. ExitBlock plain_collaborators
               (if_chain_state (If 10 None (Some (ElseIfWrapper 12)))
                  [BlockEntry (Some 14) BLOCKENTRYTYPE_ELSE] []) = Inr s'
        \<and> map_option Operations (BlockHeap s' 2)
            = Some [OtherOperation ''PushBooleanLiteral'', If 10 (Some 14) (Some (ElseIfWrapper 12))]
        \<and> CurrentScope s' = Some 3)"
proof -
  let ?x = plain_collaborators
  let ?c = "OtherOperation ''PushBooleanLiteral''"
  let ?wrapped = "If 10 None (Some (ElseIfWrapper 12))"
  let ?outer = "[BlockEntry (Some 1) BLOCKENTRYTYPE_FREE]"
  let ?a = "if_chain_state (If 10 None None) [] []"
  let ?b = "if_chain_state ?wrapped [] []"
  let ?e = "if_chain_state ?wrapped
              [BlockEntry (Some 14) BLOCKENTRYTYPE_ELSEIF, BlockEntry (Some 12) BLOCKENTRYTYPE_ELSEIFWRAPPER]
              [operation_entry ?c]"
  let ?f = "if_chain_state ?wrapped [BlockEntry (Some 14) BLOCKENTRYTYPE_ELSE] []"
  have w1: "walk_back [?c, If 10 None None] [1, 0] = Some 1"
    using if_chain_discipline [where ops = "[?c, If 10 None None]" and view = "[1, 0]" and i = 1,
        THEN conjunct1]
    by simp
  have w2: "\<exists>s'. RegisterControl ?x Keywords_ElseIf False ?a = Inr s'
        \<and> map_option Operations (BlockHeap s' 2) = Some [?c, If 10 None (Some (ElseIfWrapper 20))]
        \<and> BlockHeap s' 20 = Some \<lparr>Operations = [], BoundScope = Some 21\<rparr>
        \<and> map_option ParentScope (ScopeHeap s' 21) = Some (Some 3)
        \<and> hd (Blocks s') = BlockEntry (Some 20) BLOCKENTRYTYPE_ELSEIFWRAPPER"
    using if_chain_discipline [where s = ?a and b = 2 and et = BLOCKENTRYTYPE_FREE and blocks = ?outer
        and blk = "\<lparr>Operations = [?c, If 10 None None], BoundScope = Some 3\<rparr>" and x = ?x
        and n = 1 and trueblock = 10 and falseblock = None,
        THEN conjunct2, THEN conjunct1]
    by (simp add: if_chain_state_def new_ParserState_def plain_collaborators_def)
  have w3: "\<exists>s'. RegisterControl ?x Keywords_ElseIf False ?b = Inr s'
        \<and> hd (Blocks s') = BlockEntry (Some 12) BLOCKENTRYTYPE_ELSEIFWRAPPER \<and> NextRef s' = 20"
    using if_chain_discipline [where s = ?b and b = 2 and et = BLOCKENTRYTYPE_FREE and blocks = ?outer
        and blk = "\<lparr>Operations = [?c, ?wrapped], BoundScope = Some 3\<rparr>" and x = ?x
        and n = 1 and trueblock = 10 and falseblock = None and w = 12,
        THEN conjunct2, THEN conjunct2, THEN conjunct1]
    by (simp add: if_chain_state_def new_ParserState_def plain_collaborators_def)
  have w4: "\<exists>s'. ExitBlock ?x ?e = Inr s'
        \<and> map_option Operations (BlockHeap s' 12) = Some [?c, ElseIf 14]
        \<and> CurrentScope s' = Some 3 \<and> TheStack s' = []"
    using if_chain_discipline [where s = ?e and body = 14 and w = 12 and et = BLOCKENTRYTYPE_ELSEIFWRAPPER
        and blocks = "[BlockEntry (Some 2) BLOCKENTRYTYPE_FREE, BlockEntry (Some 1) BLOCKENTRYTYPE_FREE]"
        and entry = "operation_entry ?c" and stack = "[]"
        and bblk = "\<lparr>Operations = [], BoundScope = Some 5\<rparr>"
        and wblk = "\<lparr>Operations = [?c], BoundScope = Some 13\<rparr>" and x = ?x
        and r = 5 and sc = "new_ScopeDescription\<lparr>ParentScope := Some 3\<rparr>",
        THEN conjunct2, THEN conjunct2, THEN conjunct2, THEN conjunct1]
    by (simp add: if_chain_state_def new_ParserState_def plain_collaborators_def
        boolean_condition_def operation_entry_def)
  then obtain s4 where run4: "ExitBlock ?x ?e = Inr s4"
    and f4: "map_option Operations (BlockHeap s4 12) = Some [?c, ElseIf 14]"
      "CurrentScope s4 = Some 3" "TheStack s4 = []"
    by blast
  have w5: "BlockHeap s4 14 = Some (\<lparr>Operations = [], BoundScope = Some 5\<rparr>
        \<lparr>Operations := Operations \<lparr>Operations = [], BoundScope = Some 5\<rparr> @ [ExitIfChain]\<rparr>)"
    using if_chain_discipline [where s = ?e and body = 14 and s' = s4 and x = ?x
        and others = "[BlockEntry (Some 12) BLOCKENTRYTYPE_ELSEIFWRAPPER,
                       BlockEntry (Some 2) BLOCKENTRYTYPE_FREE, BlockEntry (Some 1) BLOCKENTRYTYPE_FREE]"
        and bblk = "\<lparr>Operations = [], BoundScope = Some 5\<rparr>",
        THEN conjunct2, THEN conjunct2, THEN conjunct2, THEN conjunct2, THEN conjunct1]
      run4
    by (simp add: if_chain_state_def new_ParserState_def)
  have w45: "\<exists>s'. ExitBlock ?x ?e = Inr s'
        \<and> map_option Operations (BlockHeap s' 14) = Some [ExitIfChain]
        \<and> map_option Operations (BlockHeap s' 12) = Some [?c, ElseIf 14]
        \<and> CurrentScope s' = Some 3 \<and> TheStack s' = []"
    using run4 f4 w5 by simp
  have w6: "\<exists>s'. ExitBlock ?x ?f = Inr s'
        \<and> map_option Operations (BlockHeap s' 2) = Some [?c, If 10 (Some 14) (Some (ElseIfWrapper 12))]
        \<and> CurrentScope s' = Some 3"
    using if_chain_discipline [where s = ?f and elseblock = 14 and b = 2 and et = BLOCKENTRYTYPE_FREE
        and blocks = ?outer and blk = "\<lparr>Operations = [?c, ?wrapped], BoundScope = Some 3\<rparr>"
        and x = ?x and n = 1 and trueblock = 10 and falseblock = None
        and elseifs = "Some (ElseIfWrapper 12)" and r = 5
        and sc = "new_ScopeDescription\<lparr>ParentScope := Some 3\<rparr>",
        THEN conjunct2, THEN conjunct2, THEN conjunct2, THEN conjunct2, THEN conjunct2]
    by (simp add: if_chain_state_def new_ParserState_def plain_collaborators_def)
  from w1 w2 w3 w45 w6 show ?thesis by blast
qed

text \<open>
  Claim C2 holds of the chain that the source builds on every path but one. At the exit
  of an \<open>elseif\<close> body whose condition is an operation that is not Boolean, the case
  reports the fatal error and cleans up as its two sibling error branches do, but it
  lacks their \<open>return\<close>: control falls through to the code that attaches the \<open>ElseIf\<close>.
  On \<open>elseif(1)\<close> after an \<open>if\<close>, inside a block whose own argument \<open>i\<close> is still on the
  builder stack, the \<open>ElseIf\<close> for body 14 is appended to the enclosing block 2, after
  the \<open>If\<close>, and not to the wrapper's block 12; the entries of the wrapper and of the
  enclosing block are both popped, the enclosing argument is popped with the condition,
  and two scopes are left.
\<close>

theorem elseif_nonboolean_operation_misplaced:
  "(case ExitBlock plain_collaborators
           (if_chain_state (If 10 None (Some (ElseIfWrapper 12)))
              [BlockEntry (Some 14) BLOCKENTRYTYPE_ELSEIF,
               BlockEntry (Some 12) BLOCKENTRYTYPE_ELSEIFWRAPPER]
              [operation_entry (OtherOperation ''PushIntegerLiteral''), identifier_entry ''i'']) of
      Inl e \<Rightarrow> False
    | Inr s' \<Rightarrow>
        FatalError s'
        \<and> Diagnostics s' = [''Expected a conditional expression here'']
        \<and> map_option Operations (BlockHeap s' 14) = Some [ExitIfChain]
        \<and> map_option Operations (BlockHeap s' 12) = Some [OtherOperation ''PushBooleanLiteral'']
        \<and> map_option Operations (BlockHeap s' 2)
            = Some [OtherOperation ''PushBooleanLiteral'',
                    If 10 None (Some (ElseIfWrapper 12)), ElseIf 14]
        \<and> Blocks s' = [BlockEntry (Some 1) BLOCKENTRYTYPE_FREE]
        \<and> TheStack s' = []
        \<and> CurrentScope s' = Some 0)"
  by (simp add: ExitBlock_def ExitBlock_ELSEIF_def if_chain_state_def new_ParserState_def
      new_ScopeDescription_def pop_block_def pop_Blocks_def pop_TheStack_def leave_scope_def
      back_block_def AddOperation_def update_block_def AddOperationToCurrentBlock_def
      ReportFatalError_def plain_collaborators_def operation_entry_def identifier_entry_def
      Let_def)


subsection \<open>Operator precedence\<close>

lemma collect_unit_InfixOperatorList:
  "collect_unit x b t j acc bailout s = Inr (ops, bailout', s')
   \<Longrightarrow> InfixOperatorList s' = InfixOperatorList s"
proof (induction j arbitrary: acc bailout s)
  case 0
  then show ?case by simp
next
  case (Suc j)
  then show ?case
    by (auto simp: Let_def ReportFatalError_def split: option.splits if_splits)
qed

lemma collect_units_InfixOperatorList:
  "collect_units x scope b t i unitlist bailout s = Inr (unitlist', bailout', s')
   \<Longrightarrow> InfixOperatorList s' = InfixOperatorList s"
proof (induction i arbitrary: unitlist bailout s)
  case 0
  then show ?case by simp
next
  case (Suc i)
  from Suc.prems obtain blk where blk: "BlockHeap s b = Some blk"
    by (auto split: option.splits)
  define tailcount where "tailcount = CountTailOps x (s\<lparr>CurrentScope := scope\<rparr>) (Operations blk) 1"
  from Suc.prems blk obtain pushops bailout1 s1 entry stack where
    unit: "collect_unit x b t (length (Operations blk) - tailcount) [] bailout s
             = Inr (pushops, bailout1, s1)"
    and stack: "TheStack s1 = entry # stack"
    and rest: "collect_units x scope b t i (InfixUnitRawOperations pushops [entry] # unitlist)
                 bailout1 (s1\<lparr>TheStack := stack\<rparr>) = Inr (unitlist', bailout', s')"
    by (auto simp: Let_def tailcount_def and_then_def split: if_splits sum.splits list.splits)
  from Suc.IH [OF rest] collect_unit_InfixOperatorList [OF unit]
  show ?case by simp
qed

lemma scan_operators_no_match:
  assumes "\<forall>operator \<in> set rest. \<exists>d. InfixOperators operator = Some d
             \<and> enum_value (Precedence d) \<noteq> precedence"
    and "unititer + length (filter (\<lambda>operator. operator \<noteq> Operators_Assign) rest)
           \<le> length (units l)"
  shows "scan_operators x y InfixOperators t precedence kept rest unititer l s
           = Inr (Continued l s)"
  using assms
proof (induction rest arbitrary: kept unititer)
  case Nil
  then show ?case by simp
next
  case (Cons operator rest)
  from Cons.prems(1) obtain d where d: "InfixOperators operator = Some d"
    and level: "enum_value (Precedence d) \<noteq> precedence"
    by auto
  have rest: "\<forall>operator \<in> set rest. \<exists>d. InfixOperators operator = Some d
                \<and> enum_value (Precedence d) \<noteq> precedence"
    using Cons.prems(1) by simp
  show ?case
  proof (cases "operator = Operators_Assign")
    case True
    with Cons.prems(2) have "unititer
        + length (filter (\<lambda>operator. operator \<noteq> Operators_Assign) rest) \<le> length (units l)"
      by simp
    from Cons.IH [OF rest this] d level True show ?thesis
      by (simp add: GetInfixPrecedence_def)
  next
    case False
    with Cons.prems(2) have bound: "Suc unititer
        + length (filter (\<lambda>operator. operator \<noteq> Operators_Assign) rest) \<le> length (units l)"
      and here: "unititer < length (units l)"
      by simp_all
    from Cons.IH [OF rest bound] d level False here show ?thesis
      by (simp add: GetInfixPrecedence_def)
  qed
qed

lemma combine_by_precedence_skip:
  assumes "InfixOperatorList s = ops # others"
    and "\<forall>operator \<in> set ops. \<exists>d. InfixOperators operator = Some d
           \<and> (enum_value (Precedence d) \<le> p \<or> p + k < enum_value (Precedence d))"
    and "length (filter (\<lambda>operator. operator \<noteq> Operators_Assign) ops) \<le> length (units l)"
  shows "combine_by_precedence x y InfixOperators t (p + k) l s
           = combine_by_precedence x y InfixOperators t p l s"
  using assms(2)
proof (induction k)
  case 0
  then show ?case by simp
next
  case (Suc k)
  have nomatch: "\<forall>operator \<in> set ops. \<exists>d. InfixOperators operator = Some d
      \<and> enum_value (Precedence d) \<noteq> Suc (p + k)"
    using Suc.prems by fastforce
  have below: "\<forall>operator \<in> set ops. \<exists>d. InfixOperators operator = Some d
      \<and> (enum_value (Precedence d) \<le> p \<or> p + k < enum_value (Precedence d))"
    using Suc.prems by fastforce
  have "scan_operators x y InfixOperators t (Suc (p + k)) [] ops 0 l s = Inr (Continued l s)"
    by (rule scan_operators_no_match [OF nomatch]) (simp add: assms(3))
  with assms(1) Suc.IH [OF below] show ?case by simp
qed

lemma combine_by_precedence_skip_to:
  assumes "InfixOperatorList s = ops # others"
    and "\<forall>operator \<in> set ops. \<exists>d. InfixOperators operator = Some d
           \<and> (enum_value (Precedence d) \<le> p \<or> n < enum_value (Precedence d))"
    and "length (filter (\<lambda>operator. operator \<noteq> Operators_Assign) ops) \<le> length (units l)"
    and "p \<le> n"
  shows "combine_by_precedence x y InfixOperators t n l s
           = combine_by_precedence x y InfixOperators t p l s"
proof -
  have n: "p + (n - p) = n" using assms(4) by simp
  show ?thesis
    using combine_by_precedence_skip [where p = p and k = "n - p", OF assms(1) _ assms(3)] assms(2)
    unfolding n by blast
qed

lemma combine_by_precedence_done:
  assumes "InfixOperatorList s = [] # others"
  shows "combine_by_precedence x y InfixOperators t p l s = Inr (Continued l s)"
  using combine_by_precedence_skip [where p = 0 and k = p and ops = "[]" and l = l, OF assms]
  by simp


lemma erase_operator_list:
  "erase_operator kept rest s = Inr s' \<Longrightarrow> \<exists>others. InfixOperatorList s' = (kept @ rest) # others"
  by (auto simp: erase_operator_def split: list.splits)

lemma level_second_of_two:
  assumes list: "InfixOperatorList s = [oa, ob] # others"
    and da: "InfixOperators oa = Some da" and db: "InfixOperators ob = Some db"
    and l1: "enum_value (Precedence da) \<noteq> Suc q" and l2: "enum_value (Precedence db) = Suc q"
    and n1: "oa \<noteq> Operators_Assign" and n2: "ob \<noteq> Operators_Assign"
    and u: "units l = [a, b, c]"
  shows "combine_by_precedence x y InfixOperators t (Suc q) l s =
           and_then (combine_units x y InfixOperators t ob b c s) (\<lambda>(bc, s1).
           and_then (erase_operator [oa] [] s1) (\<lambda>s2.
             combine_by_precedence x y InfixOperators t q (l\<lparr>units := [a, bc]\<rparr>) s2))"
  using assms
  by (simp add: GetInfixPrecedence_def and_then_def split: sum.splits prod.splits)

lemma level_only_operator:
  assumes list: "InfixOperatorList s = [oa] # others"
    and da: "InfixOperators oa = Some da"
    and l1: "enum_value (Precedence da) = Suc q"
    and n1: "oa \<noteq> Operators_Assign"
    and u: "units l = [a, bc]"
  shows "combine_by_precedence x y InfixOperators t (Suc q) l s =
           and_then (combine_units x y InfixOperators t oa a bc s) (\<lambda>(abc, s1).
           and_then (erase_operator [] [] s1) (\<lambda>s2.
             combine_by_precedence x y InfixOperators t q (l\<lparr>units := [abc]\<rparr>) s2))"
  using assms
  by (simp add: GetInfixPrecedence_def and_then_def split: sum.splits prod.splits)

lemma level_after_assignment:
  assumes list: "InfixOperatorList s = [Operators_Assign, ob] # others"
    and da: "InfixOperators Operators_Assign = Some da" and db: "InfixOperators ob = Some db"
    and l1: "enum_value (Precedence da) \<noteq> Suc q" and l2: "enum_value (Precedence db) = Suc q"
    and n2: "ob \<noteq> Operators_Assign"
    and u: "units l = [b, c]"
  shows "combine_by_precedence x y InfixOperators t (Suc q) l s =
           and_then (combine_units x y InfixOperators t ob b c s) (\<lambda>(bc, s1).
           and_then (erase_operator [Operators_Assign] [] s1) (\<lambda>s2.
             combine_by_precedence x y InfixOperators t q (l\<lparr>units := [bc]\<rparr>) s2))"
  using assms
  by (simp add: GetInfixPrecedence_def and_then_def split: sum.splits prod.splits)

lemma level_assignment:
  assumes list: "InfixOperatorList s = [Operators_Assign] # others"
    and da: "InfixOperators Operators_Assign = Some da"
    and l1: "enum_value (Precedence da) = Suc q"
  shows "combine_by_precedence x y InfixOperators t (Suc q) l s =
           (case TheStack s of
              [] \<Rightarrow> Inl InvalidAccess
            | entry # stack \<Rightarrow>
                if GetVariableType x (s\<lparr>TheStack := stack\<rparr>) (StringValue entry) \<noteq> t then
                  Inr (Returned False
                         (ReportFatalError ''Variable must have the same type as the expression''
                            (s\<lparr>TheStack := stack\<rparr>)))
                else
                  and_then (erase_operator [] [] (s\<lparr>TheStack := stack\<rparr>)) (\<lambda>s1.
                    combine_by_precedence x y InfixOperators t q
                      (l\<lparr>injectlvalue := StringValue entry, ret := True\<rparr>) s1))"
  using assms
  by (simp add: GetInfixPrecedence_def and_then_def split: sum.splits prod.splits list.splits)


lemma levels_two_operators:
  assumes list: "InfixOperatorList s = [o1, o2] # others"
    and d1: "InfixOperators o1 = Some d1" and d2: "InfixOperators o2 = Some d2"
    and low: "0 < enum_value (Precedence d1)"
    and order: "enum_value (Precedence d1) < enum_value (Precedence d2)"
    and high: "enum_value (Precedence d2) \<le> 13"
    and n1: "o1 \<noteq> Operators_Assign" and n2: "o2 \<noteq> Operators_Assign"
  shows "and_then
           (combine_by_precedence x y InfixOperators t 13
              \<lparr>units = [a, b, c], ret = False, injectlvalue = []\<rparr> s)
           (\<lambda>step. case step of
                      Returned result s' \<Rightarrow> Inr (result, s')
                    | Continued l s' \<Rightarrow> finish_expression workingblock l s')
         = lowered_by_precedence x y InfixOperators t workingblock o1 o2 a b c s"
proof -
  define p1 where "p1 = enum_value (Precedence d1)"
  define p2 where "p2 = enum_value (Precedence d2)"
  obtain q1 where q1: "p1 = Suc q1" using low by (cases p1) (simp_all add: p1_def)
  obtain q2 where q2: "p2 = Suc q2" using low order by (cases p2) (simp_all add: p1_def p2_def)
  have le: "q1 < q2" "p1 \<le> q2" "p2 \<le> 13"
    using order high by (simp_all add: p1_def [symmetric] p2_def [symmetric] q1 q2)
  let ?l = "\<lparr>units = [a, b, c], ret = False, injectlvalue = []\<rparr>"
  let ?finish = "\<lambda>step. case step of
                      Returned result s' \<Rightarrow> Inr (result, s')
                    | Continued l s' \<Rightarrow> finish_expression workingblock l s'"
  have top: "combine_by_precedence x y InfixOperators t 13 ?l s
          = combine_by_precedence x y InfixOperators t p2 ?l s"
    by (rule combine_by_precedence_skip_to [OF list])
       (use d1 d2 order le in \<open>auto simp: p1_def p2_def\<close>)
  have second: "combine_by_precedence x y InfixOperators t p2 ?l s =
           and_then (combine_units x y InfixOperators t o2 b c s) (\<lambda>(bc, s1).
           and_then (erase_operator [o1] [] s1) (\<lambda>s2.
             combine_by_precedence x y InfixOperators t q2 (?l\<lparr>units := [a, bc]\<rparr>) s2))"
    unfolding q2
    by (rule level_second_of_two [where InfixOperators = InfixOperators and da = d1 and db = d2, OF list d1 d2 _ _ n1 n2])
       (use order in \<open>simp_all add: p1_def [symmetric] p2_def [symmetric] q1 q2\<close>)
  have first: "and_then (combine_by_precedence x y InfixOperators t q2
                   \<lparr>units = [a, bc], ret = False, injectlvalue = []\<rparr> s2) ?finish
        = and_then (combine_units x y InfixOperators t o1 a bc s2) (\<lambda>(abc, s3).
          and_then (erase_operator [] [] s3) (\<lambda>s4.
            finish_expression workingblock \<lparr>units = [abc], ret = False, injectlvalue = []\<rparr> s4))"
    if erased: "erase_operator [o1] [] s1 = Inr s2" for bc s1 s2
  proof -
    let ?l2 = "\<lparr>units = [a, bc], ret = False, injectlvalue = []\<rparr>"
    from erase_operator_list [OF erased] obtain others2
      where list2: "InfixOperatorList s2 = [o1] # others2" by auto
    have skip: "combine_by_precedence x y InfixOperators t q2 ?l2 s2
            = combine_by_precedence x y InfixOperators t p1 ?l2 s2"
      by (rule combine_by_precedence_skip_to [OF list2])
         (use d1 n1 le in \<open>auto simp: p1_def\<close>)
    have step: "combine_by_precedence x y InfixOperators t p1 ?l2 s2 =
           and_then (combine_units x y InfixOperators t o1 a bc s2) (\<lambda>(abc, s3).
           and_then (erase_operator [] [] s3) (\<lambda>s4.
             combine_by_precedence x y InfixOperators t q1 (?l2\<lparr>units := [abc]\<rparr>) s4))"
      unfolding q1
      by (rule level_only_operator [where InfixOperators = InfixOperators and da = d1, OF list2 d1 _ n1])
         (simp_all add: p1_def [symmetric] q1)
    have finished: "combine_by_precedence x y InfixOperators t q1 l' s4 = Inr (Continued l' s4)"
      if "erase_operator [] [] s3 = Inr s4" for s3 s4 l'
      using erase_operator_list [OF that] combine_by_precedence_done by auto
    show ?thesis
      unfolding skip step
      by (auto simp: and_then_def finished split: sum.splits prod.splits)
  qed
  show ?thesis
    unfolding top second lowered_by_precedence_def
    using first
    by (auto simp: and_then_def split: sum.splits prod.splits)
qed


lemma levels_assignment:
  assumes list: "InfixOperatorList s = [Operators_Assign, o2] # others"
    and d1: "InfixOperators Operators_Assign = Some d1" and d2: "InfixOperators o2 = Some d2"
    and low: "0 < enum_value (Precedence d1)"
    and order: "enum_value (Precedence d1) < enum_value (Precedence d2)"
    and high: "enum_value (Precedence d2) \<le> 13"
    and n2: "o2 \<noteq> Operators_Assign"
  shows "and_then
           (combine_by_precedence x y InfixOperators t 13
              \<lparr>units = [b, c], ret = False, injectlvalue = []\<rparr> s)
           (\<lambda>step. case step of
                      Returned result s' \<Rightarrow> Inr (result, s')
                    | Continued l s' \<Rightarrow> finish_expression workingblock l s')
         = assignment_lowered_by_precedence x y InfixOperators t workingblock o2 b c s"
proof -
  define p1 where "p1 = enum_value (Precedence d1)"
  define p2 where "p2 = enum_value (Precedence d2)"
  obtain q1 where q1: "p1 = Suc q1" using low by (cases p1) (simp_all add: p1_def)
  obtain q2 where q2: "p2 = Suc q2" using low order by (cases p2) (simp_all add: p1_def p2_def)
  have le: "q1 < q2" "p1 \<le> q2" "p2 \<le> 13"
    using order high by (simp_all add: p1_def [symmetric] p2_def [symmetric] q1 q2)
  let ?l = "\<lparr>units = [b, c], ret = False, injectlvalue = []\<rparr>"
  let ?finish = "\<lambda>step. case step of
                      Returned result s' \<Rightarrow> Inr (result, s')
                    | Continued l s' \<Rightarrow> finish_expression workingblock l s'"
  have top: "combine_by_precedence x y InfixOperators t 13 ?l s
          = combine_by_precedence x y InfixOperators t p2 ?l s"
    by (rule combine_by_precedence_skip_to [OF list])
       (use d1 d2 order le in \<open>auto simp: p1_def p2_def\<close>)
  have second: "combine_by_precedence x y InfixOperators t p2 ?l s =
           and_then (combine_units x y InfixOperators t o2 b c s) (\<lambda>(bc, s1).
           and_then (erase_operator [Operators_Assign] [] s1) (\<lambda>s2.
             combine_by_precedence x y InfixOperators t q2 (?l\<lparr>units := [bc]\<rparr>) s2))"
    unfolding q2
    by (rule level_after_assignment [where InfixOperators = InfixOperators and da = d1 and db = d2,
          OF list d1 d2 _ _ n2])
       (use order in \<open>simp_all add: p1_def [symmetric] p2_def [symmetric] q1 q2\<close>)
  have first: "and_then (combine_by_precedence x y InfixOperators t q2
                   \<lparr>units = [bc], ret = False, injectlvalue = []\<rparr> s2) ?finish
        = (case TheStack s2 of
             [] \<Rightarrow> Inl InvalidAccess
           | a # stack \<Rightarrow>
               if GetVariableType x (s2\<lparr>TheStack := stack\<rparr>) (StringValue a) \<noteq> t then
                 Inr (False,
                      ReportFatalError ''Variable must have the same type as the expression''
                        (s2\<lparr>TheStack := stack\<rparr>))
               else
                 and_then (erase_operator [] [] (s2\<lparr>TheStack := stack\<rparr>)) (\<lambda>s3.
                   finish_expression workingblock
                     \<lparr>units = [bc], ret = True, injectlvalue = StringValue a\<rparr> s3))"
    if erased: "erase_operator [Operators_Assign] [] s1 = Inr s2" for bc s1 s2
  proof -
    let ?l2 = "\<lparr>units = [bc], ret = False, injectlvalue = []\<rparr>"
    from erase_operator_list [OF erased] obtain others2
      where list2: "InfixOperatorList s2 = [Operators_Assign] # others2" by auto
    have skip: "combine_by_precedence x y InfixOperators t q2 ?l2 s2
            = combine_by_precedence x y InfixOperators t p1 ?l2 s2"
      by (rule combine_by_precedence_skip_to [OF list2])
         (use d1 le in \<open>auto simp: p1_def\<close>)
    have step: "combine_by_precedence x y InfixOperators t p1 ?l2 s2 =
           (case TheStack s2 of
              [] \<Rightarrow> Inl InvalidAccess
            | entry # stack \<Rightarrow>
                if GetVariableType x (s2\<lparr>TheStack := stack\<rparr>) (StringValue entry) \<noteq> t then
                  Inr (Returned False
                         (ReportFatalError ''Variable must have the same type as the expression''
                            (s2\<lparr>TheStack := stack\<rparr>)))
                else
                  and_then (erase_operator [] [] (s2\<lparr>TheStack := stack\<rparr>)) (\<lambda>s1.
                    combine_by_precedence x y InfixOperators t q1
                      (?l2\<lparr>injectlvalue := StringValue entry, ret := True\<rparr>) s1))"
      unfolding q1
      by (rule level_assignment [where InfixOperators = InfixOperators and da = d1, OF list2 d1])
         (simp_all add: p1_def [symmetric] q1)
    have finished: "combine_by_precedence x y InfixOperators t q1 l' s4 = Inr (Continued l' s4)"
      if "erase_operator [] [] s3 = Inr s4" for s3 s4 l'
      using erase_operator_list [OF that] combine_by_precedence_done by auto
    show ?thesis
      unfolding skip step
      by (auto simp: and_then_def finished split: sum.splits prod.splits list.splits)
  qed
  show ?thesis
    unfolding top second assignment_lowered_by_precedence_def
    using first
    by (auto simp: and_then_def split: sum.splits prod.splits)
qed

lemma PushContents_ClearOperands: "PushContents (ClearOperands u) = PushContents u"
  by (induction u) (simp_all add: comp_def cong: map_cong)

lemma PushContents_ClearOperations: "PushContents (ClearOperations u) = []"
  by (induction u) (simp_all add: comp_def)

lemma combine_units_contents:
  assumes "LookupInfixAlias InfixOperators operator = Inr opname"
    and "combine_units x y InfixOperators t operator first second s = Inr (u, s')"
  shows "\<exists>operation.
           PushContents u =
             (if opname = Keywords_Or \<or> opname = Keywords_And then []
              else PushContents first @ PushContents second) @ [PushOperation operation]"
  using assms
  by (auto simp: combine_units_def compound_operation_def and_then_def Let_def
        PushContents_ClearOperands PushContents_ClearOperations
      split: list.splits sum.splits prod.splits if_splits)




text \<open>
  The routine on a phrase of two operators, the first at the lower level, is the loop
  body run for the second operator and then for the first (or the assignment taken
  last), followed by the emission.
\<close>

lemma FinalizeInfixExpression_levels:
  assumes "InfixOperators o1 = Some d1" and "InfixOperators o2 = Some d2"
    and "enum_value OPREC_MIN < enum_value (Precedence d1)"
    and "enum_value (Precedence d1) < enum_value (Precedence d2)"
    and "enum_value (Precedence d2) < enum_value OPREC_MAX"
    and "o2 \<noteq> Operators_Assign"
    and "InfixOperatorList s = [o1, o2] # others"
    and "working_block y s = Inr (workingblock, workingscope)"
    and "BlockHeap s workingblock = Some blk" and "Operations blk \<noteq> []"
    and "t = GetType x (s\<lparr>CurrentScope := workingscope\<rparr>) (last (Operations blk))"
  shows
    "(o1 \<noteq> Operators_Assign \<longrightarrow> InfixOperandCount s = 3 # counts \<longrightarrow>
      collect_units x scope workingblock t 3 [] False (s\<lparr>CurrentScope := workingscope\<rparr>)
        = Inr ([a, b, c], False, s1) \<longrightarrow>
      FinalizeInfixExpression x y InfixOperators isfirstrun scope s
        = restore_scope (CurrentScope s)
            (lowered_by_precedence x y InfixOperators t workingblock o1 o2 a b c s1))
     \<and> (o1 = Operators_Assign \<longrightarrow> InfixOperandCount s = 2 # counts \<longrightarrow>
      collect_units x scope workingblock t 2 [] False (s\<lparr>CurrentScope := workingscope\<rparr>)
        = Inr ([b, c], False, s1) \<longrightarrow>
      FinalizeInfixExpression x y InfixOperators isfirstrun scope s
        = restore_scope (CurrentScope s)
            (assignment_lowered_by_precedence x y InfixOperators t workingblock o2 b c s1))
     \<and> (\<forall>operator d first second s0 u s'.
          InfixOperators operator = Some d \<longrightarrow>
          combine_units x y InfixOperators t operator first second s0 = Inr (u, s') \<longrightarrow>
          (\<exists>operation.
             PushContents u =
               (if FunctionName d = Keywords_Or \<or> FunctionName d = Keywords_And then []
                else PushContents first @ PushContents second) @ [PushOperation operation]))"
proof (intro conjI impI allI)
  assume n1: "o1 \<noteq> Operators_Assign" and count: "InfixOperandCount s = 3 # counts"
    and collect: "collect_units x scope workingblock t 3 [] False
                    (s\<lparr>CurrentScope := workingscope\<rparr>) = Inr ([a, b, c], False, s1)"
  from collect_units_InfixOperatorList [OF collect] assms(7)
  have list: "InfixOperatorList s1 = [o1, o2] # others" by simp
  have levels: "and_then
           (combine_by_precedence x y InfixOperators t 13
              \<lparr>units = [a, b, c], ret = False, injectlvalue = []\<rparr> s1)
           (\<lambda>step. case step of
                      Returned result s' \<Rightarrow> Inr (result, s')
                    | Continued l s' \<Rightarrow> finish_expression workingblock l s')
         = lowered_by_precedence x y InfixOperators t workingblock o1 o2 a b c s1"
    by (rule levels_two_operators [OF list assms(1,2) _ assms(4) _ n1 assms(6)])
       (use assms(3,5) in simp_all)
  show "FinalizeInfixExpression x y InfixOperators isfirstrun scope s
        = restore_scope (CurrentScope s)
            (lowered_by_precedence x y InfixOperators t workingblock o1 o2 a b c s1)"
    unfolding levels [symmetric]
    using assms(7-10) assms(11) [symmetric] count collect
    by (simp add: FinalizeInfixExpression_def)
next
  assume n1: "o1 = Operators_Assign" and count: "InfixOperandCount s = 2 # counts"
    and collect: "collect_units x scope workingblock t 2 [] False
                    (s\<lparr>CurrentScope := workingscope\<rparr>) = Inr ([b, c], False, s1)"
  from collect_units_InfixOperatorList [OF collect] assms(7) n1
  have list: "InfixOperatorList s1 = [Operators_Assign, o2] # others" by simp
  have levels: "and_then
           (combine_by_precedence x y InfixOperators t 13
              \<lparr>units = [b, c], ret = False, injectlvalue = []\<rparr> s1)
           (\<lambda>step. case step of
                      Returned result s' \<Rightarrow> Inr (result, s')
                    | Continued l s' \<Rightarrow> finish_expression workingblock l s')
         = assignment_lowered_by_precedence x y InfixOperators t workingblock o2 b c s1"
    by (rule levels_assignment [OF list assms(1) [unfolded n1] assms(2) _ assms(4) _ assms(6)])
       (use assms(3,5) in simp_all)
  show "FinalizeInfixExpression x y InfixOperators isfirstrun scope s
        = restore_scope (CurrentScope s)
            (assignment_lowered_by_precedence x y InfixOperators t workingblock o2 b c s1)"
    unfolding levels [symmetric]
    using assms(7-10) assms(11) [symmetric] count collect n1 assms(6)
    by (simp add: FinalizeInfixExpression_def)
next
  fix operator d first second s0 u s'
  assume "InfixOperators operator = Some d"
    and "combine_units x y InfixOperators t operator first second s0 = Inr (u, s')"
  from combine_units_contents [OF _ this(2), of "FunctionName d"] this(1)
  show "\<exists>operation.
             PushContents u =
               (if FunctionName d = Keywords_Or \<or> FunctionName d = Keywords_And then []
                else PushContents first @ PushContents second) @ [PushOperation operation]"
    by (simp add: LookupInfixAlias_def)
qed

lemma foldl_keeps_compound:
  assumes "\<forall>op i. IsCompoundOperator y (CompoundAddOperation y op i) = IsCompoundOperator y op"
  shows "IsCompoundOperator y (foldl (CompoundAddOperation y) op contents) = IsCompoundOperator y op"
  using assms by (induction contents arbitrary: op) simp_all

lemma taken_over_append:
  assumes "\<forall>op i. IsCompoundOperator y (CompoundAddOperation y op i) = IsCompoundOperator y op"
  shows "taken_over y (taken_over y op xs) ys = taken_over y op (xs @ ys)"
  using foldl_keeps_compound [OF assms] by (simp add: taken_over_def)

lemma fold_taken_over:
  assumes keep: "\<forall>op i. IsCompoundOperator y (CompoundAddOperation y op i) = IsCompoundOperator y op"
    and each: "\<And>u op. u \<in> set us \<Longrightarrow> f u op = taken_over y op (g u)"
  shows "fold f us op = taken_over y op (concat (map g us))"
  using each
proof (induction us arbitrary: op)
  case Nil
  show ?case by (simp add: taken_over_def)
next
  case (Cons u us)
  have "fold f us (f u op) = taken_over y (f u op) (concat (map g us))"
    by (rule Cons.IH) (simp add: Cons.prems)
  with Cons.prems [of u op] show ?case
    by (simp add: taken_over_append [OF keep])
qed

lemma CopyInstructionsToOp_taken_over:
  assumes keep: "\<forall>op i. IsCompoundOperator y (CompoundAddOperation y op i) = IsCompoundOperator y op"
  shows "CopyInstructionsToOp y u op = taken_over y op (PushContents u)"
proof (induction u arbitrary: op)
  case (InfixUnitRawOperations pushoperations operands)
  show ?case by (simp add: taken_over_def)
next
  case (InfixUnitCompound us)
  show ?case
    using fold_taken_over [OF keep, of us "CopyInstructionsToOp y" PushContents op]
      InfixUnitCompound.IH
    by simp
qed

lemma PushOperandsToStack_ClearOperands: "PushOperandsToStack (ClearOperands u) = []"
  by (induction u) (simp_all add: comp_def)

lemma PushOperandsToStack_ClearOperations:
  "PushOperandsToStack (ClearOperations u) = PushOperandsToStack u"
  by (induction u) (simp_all add: comp_def cong: map_cong)

lemma combine_units_apply_operator:
  assumes keep: "\<forall>op i. IsCompoundOperator y (CompoundAddOperation y op i) = IsCompoundOperator y op"
  shows "apply_operator x y InfixOperators t operator (unit_view first) (unit_view second) s
         = (case combine_units x y InfixOperators t operator first second s of
              Inl e \<Rightarrow> Inl e
            | Inr (u, s') \<Rightarrow> Inr (unit_view u, s'))"
  by (simp add: apply_operator_def combine_units_def compound_operation_def
        operator_operation_def LookupInfixAlias_def unit_view_def Let_def and_then_def
        CopyInstructionsToOp_taken_over [OF keep]
        PushContents_ClearOperands PushContents_ClearOperations
        PushOperandsToStack_ClearOperands PushOperandsToStack_ClearOperations
      split: list.splits option.splits sum.splits prod.splits)

lemma add_operations_append:
  "BlockHeap s b = Some blk \<Longrightarrow>
   add_operations b ops s =
     Inr (s\<lparr>BlockHeap := (BlockHeap s)(b := Some (blk\<lparr>Operations := Operations blk @ ops\<rparr>))\<rparr>)"
proof (induction ops arbitrary: s blk)
  case Nil
  then show ?case by (simp add: fun_upd_idem)
next
  case (Cons op ops)
  let ?s = "s\<lparr>BlockHeap := (BlockHeap s)(b := Some (blk\<lparr>Operations := Operations blk @ [op]\<rparr>))\<rparr>"
  have heap: "BlockHeap ?s b = Some (blk\<lparr>Operations := Operations blk @ [op]\<rparr>)" by simp
  have same: "(\<lambda>a. if a = b then Some (blk\<lparr>Operations := Operations blk @ op # ops\<rparr>)
                    else if a = b then Some (blk\<lparr>Operations := Operations blk @ [op]\<rparr>)
                    else BlockHeap s a)
              = (\<lambda>a. if a = b then Some (blk\<lparr>Operations := Operations blk @ op # ops\<rparr>)
                    else BlockHeap s a)"
    by (simp add: fun_eq_iff)
  from Cons.IH [OF heap] Cons.prems show ?case
    by (simp add: AddOperation_def update_block_def same)
qed

lemma add_operations_no_block:
  "BlockHeap s b = None \<Longrightarrow> ops \<noteq> [] \<Longrightarrow> add_operations b ops s = Inl InvalidAccess"
  by (cases ops) (simp_all add: AddOperation_def update_block_def)

lemma apply_operator_contents:
  "apply_operator x y InfixOperators t operator first second s = Inr (u, s') \<Longrightarrow> fst u \<noteq> []"
  by (auto simp: apply_operator_def split: list.splits option.splits sum.splits prod.splits)


lemma unit_view_simps:
  "fst (unit_view u) = PushContents u" "snd (unit_view u) = PushOperandsToStack u"
  by (simp_all add: unit_view_def)

lemma finish_expression_marker:
  assumes "contents \<noteq> []" and "concat (map PushContents us) = contents"
  shows "finish_expression b \<lparr>units = us, ret = r, injectlvalue = []\<rparr> s =
     (case BlockHeap s b of
        None \<Rightarrow> Inl InvalidAccess
      | Some blk \<Rightarrow>
          Inr (r, s\<lparr>BlockHeap := (BlockHeap s)(b := Some (blk\<lparr>Operations := Operations blk @ contents\<rparr>)),
                    TheStack := \<lparr>Type = STACKENTRYTYPE_OPERATION, StringValue = [],
                                 OperationPointer = Some (last contents),
                                 ScopePointer = None\<rparr> # TheStack s,
                    InfixOperandCount := tl (InfixOperandCount s),
                    InfixOperatorList := tl (InfixOperatorList s)\<rparr>))"
proof (cases "BlockHeap s b")
  case None
  from add_operations_no_block [OF None assms(1)] None show ?thesis
    by (simp add: finish_expression_def assms(2))
next
  case (Some blk)
  from add_operations_append [OF Some, of contents] Some assms(1) show ?thesis
    by (simp add: finish_expression_def assms(2))
qed

lemma finish_expression_assignment:
  assumes "contents \<noteq> []" and "concat (map PushContents us) = contents" and "name \<noteq> []"
  shows "finish_expression b \<lparr>units = us, ret = r, injectlvalue = name\<rparr> s =
     (case BlockHeap s b of
        None \<Rightarrow> Inl InvalidAccess
      | Some blk \<Rightarrow>
          (case AddOperationToCurrentBlock (AssignValue name)
                  (PoolStaticString name
                     (s\<lparr>BlockHeap := (BlockHeap s)(b := Some (blk\<lparr>Operations := Operations blk @ contents\<rparr>))\<rparr>)) of
             Inl e \<Rightarrow> Inl e
           | Inr s' \<Rightarrow>
               Inr (r, s'\<lparr>InfixOperandCount := tl (InfixOperandCount s'),
                          InfixOperatorList := tl (InfixOperatorList s')\<rparr>)))"
proof (cases "BlockHeap s b")
  case None
  from add_operations_no_block [OF None assms(1)] None show ?thesis
    by (simp add: finish_expression_def assms(2))
next
  case (Some blk)
  from add_operations_append [OF Some, of contents] Some assms(1,3) show ?thesis
    by (simp add: finish_expression_def assms(2) and_then_def split: sum.splits)
qed

lemma lowered_by_precedence_phrase:
  assumes keep: "\<forall>op i. IsCompoundOperator y (CompoundAddOperation y op i) = IsCompoundOperator y op"
  shows "restore_scope callerscope
           (lowered_by_precedence x y InfixOperators t workingblock o1 o2 a b c s)
         = lowered_phrase x y InfixOperators t workingblock callerscope o1 o2
             (unit_view a) (unit_view b) (unit_view c) s"
proof (cases "combine_units x y InfixOperators t o2 b c s")
  case (Inl e)
  then show ?thesis
    by (simp add: lowered_by_precedence_def lowered_phrase_def restore_scope_def
          combine_units_apply_operator [OF keep])
next
  case second: (Inr r)
  obtain bc s1 where r: "r = (bc, s1)" by (cases r)
  show ?thesis
  proof (cases "InfixOperatorList s1")
    case Nil
    with second r show ?thesis
      by (simp add: lowered_by_precedence_def lowered_phrase_def restore_scope_def
            combine_units_apply_operator [OF keep] erase_operator_def)
  next
    case list1: (Cons ops others)
    let ?s1 = "s1\<lparr>InfixOperatorList := [o1] # others\<rparr>"
    show ?thesis
    proof (cases "combine_units x y InfixOperators t o1 a bc ?s1")
      case (Inl e)
      with second r list1 show ?thesis
        by (simp add: lowered_by_precedence_def lowered_phrase_def restore_scope_def
              combine_units_apply_operator [OF keep] erase_operator_def)
    next
      case first: (Inr r')
      obtain abc s2 where r': "r' = (abc, s2)" by (cases r')
      have "apply_operator x y InfixOperators t o1 (unit_view a) (unit_view bc) ?s1
              = Inr (unit_view abc, s2)"
        using first r' by (simp add: combine_units_apply_operator [OF keep])
      from apply_operator_contents [OF this]
      have contents: "PushContents abc \<noteq> []" by (simp add: unit_view_simps)
      have finish: "finish_expression workingblock \<lparr>units = [abc], ret = False, injectlvalue = []\<rparr> s' =
         (case BlockHeap s' workingblock of
            None \<Rightarrow> Inl InvalidAccess
          | Some blk \<Rightarrow>
              Inr (False, s'\<lparr>BlockHeap := (BlockHeap s')(workingblock :=
                                  Some (blk\<lparr>Operations := Operations blk @ PushContents abc\<rparr>)),
                    TheStack := \<lparr>Type = STACKENTRYTYPE_OPERATION, StringValue = [],
                                 OperationPointer = Some (last (PushContents abc)),
                                 ScopePointer = None\<rparr> # TheStack s',
                    InfixOperandCount := tl (InfixOperandCount s'),
                    InfixOperatorList := tl (InfixOperatorList s')\<rparr>))" for s'
        by (rule finish_expression_marker [OF contents]) simp
      from second r list1 first r' show ?thesis
        by (simp add: lowered_by_precedence_def lowered_phrase_def restore_scope_def
              combine_units_apply_operator [OF keep] erase_operator_def finish unit_view_simps
            split: list.splits option.splits)
    qed
  qed
qed

lemma assignment_lowered_by_precedence_phrase:
  assumes keep: "\<forall>op i. IsCompoundOperator y (CompoundAddOperation y op i) = IsCompoundOperator y op"
  shows "restore_scope callerscope
           (assignment_lowered_by_precedence x y InfixOperators t workingblock o2 b c s)
         = lowered_assignment x y InfixOperators t workingblock callerscope o2
             (unit_view b) (unit_view c) s"
proof (cases "combine_units x y InfixOperators t o2 b c s")
  case (Inl e)
  then show ?thesis
    by (simp add: assignment_lowered_by_precedence_def lowered_assignment_def restore_scope_def
          combine_units_apply_operator [OF keep])
next
  case second: (Inr r)
  obtain bc s1 where r: "r = (bc, s1)" by (cases r)
  have "apply_operator x y InfixOperators t o2 (unit_view b) (unit_view c) s
          = Inr (unit_view bc, s1)"
    using second r by (simp add: combine_units_apply_operator [OF keep])
  from apply_operator_contents [OF this]
  have contents: "PushContents bc \<noteq> []" by (simp add: unit_view_simps)
  have marker: "finish_expression workingblock \<lparr>units = [bc], ret = True, injectlvalue = []\<rparr> s' =
         (case BlockHeap s' workingblock of
            None \<Rightarrow> Inl InvalidAccess
          | Some blk \<Rightarrow>
              Inr (True, s'\<lparr>BlockHeap := (BlockHeap s')(workingblock :=
                                  Some (blk\<lparr>Operations := Operations blk @ PushContents bc\<rparr>)),
                    TheStack := \<lparr>Type = STACKENTRYTYPE_OPERATION, StringValue = [],
                                 OperationPointer = Some (last (PushContents bc)),
                                 ScopePointer = None\<rparr> # TheStack s',
                    InfixOperandCount := tl (InfixOperandCount s'),
                    InfixOperatorList := tl (InfixOperatorList s')\<rparr>))" for s'
    by (rule finish_expression_marker [OF contents]) simp
  have assign: "name \<noteq> [] \<Longrightarrow>
      finish_expression workingblock \<lparr>units = [bc], ret = True, injectlvalue = name\<rparr> s' =
     (case BlockHeap s' workingblock of
        None \<Rightarrow> Inl InvalidAccess
      | Some blk \<Rightarrow>
          (case AddOperationToCurrentBlock (AssignValue name)
                  (PoolStaticString name
                     (s'\<lparr>BlockHeap := (BlockHeap s')(workingblock :=
                            Some (blk\<lparr>Operations := Operations blk @ PushContents bc\<rparr>))\<rparr>)) of
             Inl e \<Rightarrow> Inl e
           | Inr s'' \<Rightarrow>
               Inr (True, s''\<lparr>InfixOperandCount := tl (InfixOperandCount s''),
                          InfixOperatorList := tl (InfixOperatorList s'')\<rparr>)))" for s' name
    by (rule finish_expression_assignment [OF contents]) simp_all
  have pooled: "InfixOperatorList s'' = InfixOperatorList s'"
    if "AddOperationToCurrentBlock op (PoolStaticString name s') = Inr s''" for op name s' s''
    using that
    by (auto simp: AddOperationToCurrentBlock_def AddOperation_def update_block_def
          PoolStaticString_def back_block_def split: sum.splits option.splits list.splits)
  have ap: "apply_operator x y InfixOperators t o2 (unit_view b) (unit_view c) s
          = Inr (unit_view bc, s1)"
    using second r by (simp add: combine_units_apply_operator [OF keep])
  have left: "assignment_lowered_by_precedence x y InfixOperators t workingblock o2 b c s =
       and_then (erase_operator [Operators_Assign] [] s1) (\<lambda>s2.
       case TheStack s2 of
         [] \<Rightarrow> Inl InvalidAccess
       | a # stack \<Rightarrow>
           if GetVariableType x (s2\<lparr>TheStack := stack\<rparr>) (StringValue a) \<noteq> t then
             Inr (False,
                  ReportFatalError ''Variable must have the same type as the expression''
                    (s2\<lparr>TheStack := stack\<rparr>))
           else
             and_then (erase_operator [] [] (s2\<lparr>TheStack := stack\<rparr>)) (\<lambda>s3.
               finish_expression workingblock
                 \<lparr>units = [bc], ret = True, injectlvalue = StringValue a\<rparr> s3))"
    using second r by (simp add: assignment_lowered_by_precedence_def)
  show ?thesis
  proof (cases "InfixOperatorList s1")
    case Nil
    then show ?thesis
      unfolding left lowered_assignment_def ap
      by (simp add: erase_operator_def restore_scope_def)
  next
    case list1: (Cons ops others)
    show ?thesis
    proof (cases "TheStack s1")
      case Nil
      with list1 show ?thesis
        unfolding left lowered_assignment_def ap
        by (simp add: erase_operator_def restore_scope_def)
    next
      case stack1: (Cons e stack)
      let ?s2 = "s1\<lparr>InfixOperatorList := [Operators_Assign] # others, TheStack := stack\<rparr>"
      show ?thesis
      proof (cases "GetVariableType x ?s2 (StringValue e) \<noteq> t")
        case True
        with list1 stack1 show ?thesis
          unfolding left lowered_assignment_def ap
          by (simp add: erase_operator_def restore_scope_def)
      next
        case typed: False
        let ?s3 = "s1\<lparr>TheStack := stack, InfixOperatorList := [] # others\<rparr>"
        have erased: "erase_operator [] [] ?s2 = Inr ?s3"
          by (simp add: erase_operator_def)
        have running: "restore_scope callerscope
              (assignment_lowered_by_precedence x y InfixOperators t workingblock o2 b c s)
            = restore_scope callerscope
                (finish_expression workingblock
                   \<lparr>units = [bc], ret = True, injectlvalue = StringValue e\<rparr> ?s3)"
          unfolding left using list1 stack1 typed erased
          by (simp add: erase_operator_def)
        show ?thesis
        proof (cases "BlockHeap s1 workingblock")
          case None
          with list1 stack1 typed show ?thesis
            unfolding running lowered_assignment_def ap
            by (cases "StringValue e = []")
               (simp_all add: marker assign restore_scope_def unit_view_simps)
        next
          case block: (Some blk)
          show ?thesis
          proof (cases "StringValue e = []")
            case True
            with list1 stack1 typed block show ?thesis
              unfolding running lowered_assignment_def ap
              by (simp add: marker restore_scope_def unit_view_simps Let_def)
          next
            case named: False
            let ?s4 = "?s3\<lparr>BlockHeap := (BlockHeap s1)(workingblock :=
                            Some (blk\<lparr>Operations := Operations blk @ PushContents bc\<rparr>))\<rparr>"
            show ?thesis
            proof (cases "AddOperationToCurrentBlock (AssignValue (StringValue e))
                            (PoolStaticString (StringValue e) ?s4)")
              case (Inl f)
              with list1 stack1 typed block named show ?thesis
                unfolding running lowered_assignment_def ap
                by (simp add: assign restore_scope_def unit_view_simps Let_def)
            next
              case (Inr s5)
              from pooled [OF Inr] have "InfixOperatorList s5 = [] # others" by simp
              with Inr list1 stack1 typed block named show ?thesis
                unfolding running lowered_assignment_def ap
                by (simp add: assign restore_scope_def unit_view_simps Let_def)
            qed
          qed
        qed
      qed
    qed
  qed
qed


lemma example_operators_simps:
  "example_operators ''+'' = Some \<lparr>Precedence = OPREC_ADDITION, FunctionName = ''add''\<rparr>"
  "example_operators ''*'' = Some \<lparr>Precedence = OPREC_MULTIPLICATION, FunctionName = ''multiply''\<rparr>"
  "example_operators ''&&'' = Some \<lparr>Precedence = OPREC_BOOLEAN, FunctionName = ''and''\<rparr>"
  "example_operators ''='' = Some \<lparr>Precedence = OPREC_ASSIGNMENT, FunctionName = ''assign''\<rparr>"
  by (simp_all add: example_operators_def DefineInfixOperator_def Operators_Assign_def
        Keywords_And_def)

lemma plain_compound_kept:
  "\<forall>op i. IsCompoundOperator plain_infix_collaborators
            (CompoundAddOperation plain_infix_collaborators op i)
          = IsCompoundOperator plain_infix_collaborators op"
proof (intro allI)
  fix op i
  show "IsCompoundOperator plain_infix_collaborators
            (CompoundAddOperation plain_infix_collaborators op i)
          = IsCompoundOperator plain_infix_collaborators op"
    by (cases op) (simp_all add: plain_infix_collaborators_def)
qed

text \<open>
  Claim C3. Operator precedence lowering: whenever \<open>o1\<close> has a lower precedence level
  than \<open>o2\<close> (both at a level between \<open>OPREC_MIN\<close> and \<open>OPREC_MAX\<close>, under any table of
  operators), \<open>FinalizeInfixExpression\<close> on the phrase \<open>a o1 b o2 c\<close>, whose operands the
  conversion has turned into the units \<open>a\<close>, \<open>b\<close> and \<open>c\<close>, does what \<open>lowered_phrase\<close>
  says: it applies \<open>o2\<close> to the units for \<open>b\<close> and \<open>c\<close> first and then \<open>o1\<close> to the unit
  for \<open>a\<close> and the unit produced for \<open>o2\<close>, and emits the contents of the result. When
  \<open>o1\<close> is the assignment, the phrase has the two units \<open>b\<close> and \<open>c\<close> and the l-value on
  the stack below them, and the routine does what \<open>lowered_assignment\<close> says. (Adding an
  operation to a compound operator works on the object in place, so it does not change
  whether the operation is a compound operator.)
\<close>

theorem operator_precedence_lowering:
  assumes "InfixOperators o1 = Some d1" and "InfixOperators o2 = Some d2"
    and "enum_value OPREC_MIN < enum_value (Precedence d1)"
    and "enum_value (Precedence d1) < enum_value (Precedence d2)"
    and "enum_value (Precedence d2) < enum_value OPREC_MAX"
    and "o2 \<noteq> Operators_Assign"
    and "\<forall>op i. IsCompoundOperator y (CompoundAddOperation y op i) = IsCompoundOperator y op"
    and "InfixOperatorList s = [o1, o2] # others"
    and "working_block y s = Inr (workingblock, workingscope)"
    and "BlockHeap s workingblock = Some blk" and "Operations blk \<noteq> []"
    and "t = GetType x (s\<lparr>CurrentScope := workingscope\<rparr>) (last (Operations blk))"
  shows
    "(o1 \<noteq> Operators_Assign \<longrightarrow> InfixOperandCount s = 3 # counts \<longrightarrow>
      collect_units x scope workingblock t 3 [] False (s\<lparr>CurrentScope := workingscope\<rparr>)
        = Inr ([a, b, c], False, s1) \<longrightarrow>
      FinalizeInfixExpression x y InfixOperators isfirstrun scope s
        = lowered_phrase x y InfixOperators t workingblock (CurrentScope s) o1 o2
            (unit_view a) (unit_view b) (unit_view c) s1)
     \<and> (o1 = Operators_Assign \<longrightarrow> InfixOperandCount s = 2 # counts \<longrightarrow>
      collect_units x scope workingblock t 2 [] False (s\<lparr>CurrentScope := workingscope\<rparr>)
        = Inr ([b, c], False, s1) \<longrightarrow>
      FinalizeInfixExpression x y InfixOperators isfirstrun scope s
        = lowered_assignment x y InfixOperators t workingblock (CurrentScope s) o2
            (unit_view b) (unit_view c) s1)"
  using FinalizeInfixExpression_levels [OF assms(1-6) assms(8-12), of counts scope a b c s1 isfirstrun]
  by (simp add: lowered_by_precedence_phrase [OF assms(7)]
        assignment_lowered_by_precedence_phrase [OF assms(7)])

theorem operator_precedence_lowering_witness:
  "(case FinalizeInfixExpression expression_collaborators plain_infix_collaborators
           example_operators True (Some 0)
           (expression_state [] [''+'', ''*''] [''a'', ''b'', ''c'']) of
      Inl e \<Rightarrow> False
    | Inr (result, s) \<Rightarrow>
        \<not> result
        \<and> map_option Operations (BlockHeap s 1) = Some
            [PushOperation (GetVariableValue ''a''), PushOperation (GetVariableValue ''b''),
             PushOperation (GetVariableValue ''c''),
             PushOperation (ArithmeticOp Multiply EpochVariableType_Integer (Binary False False)),
             PushOperation (ArithmeticOp Sum EpochVariableType_Integer (Binary False False))])
   \<and> (case FinalizeInfixExpression expression_collaborators plain_infix_collaborators
           example_operators True (Some 0)
           (expression_state [] [''+'', ''&&''] [''a'', ''b'', ''c'']) of
      Inl e \<Rightarrow> False
    | Inr (result, s) \<Rightarrow>
        \<not> result
        \<and> map_option Operations (BlockHeap s 1) = Some
            [PushOperation (GetVariableValue ''a''),
             PushOperation (BitwiseAnd EpochVariableType_Integer
               [PushOperation (GetVariableValue ''b''), PushOperation (GetVariableValue ''c'')]),
             PushOperation (ArithmeticOp Sum EpochVariableType_Integer (Binary False False))])
   \<and> (case FinalizeInfixExpression expression_collaborators plain_infix_collaborators
           example_operators True (Some 0)
           (expression_state [''r''] [''='', ''*''] [''b'', ''c'']) of
      Inl e \<Rightarrow> False
    | Inr (result, s) \<Rightarrow>
        result
        \<and> map_option Operations (BlockHeap s 1) = Some
            [PushOperation (GetVariableValue ''b''), PushOperation (GetVariableValue ''c''),
             PushOperation (ArithmeticOp Multiply EpochVariableType_Integer (Binary False False)),
             AssignValue ''r''])"
proof -
  let ?x = expression_collaborators
  let ?y = plain_infix_collaborators
  let ?unit = "\<lambda>name. InfixUnitRawOperations [PushOperation (GetVariableValue name)]
                 [identifier_entry name]"
  let ?blk = "\<lambda>operands. \<lparr>Operations = map (\<lambda>name. PushOperation (GetVariableValue name)) operands,
               BoundScope = Some 0\<rparr>"
  let ?split = "\<lambda>s stack. s\<lparr>BlockHeap := (\<lambda>r. None)(1 := Some \<lparr>Operations = [], BoundScope = Some 0\<rparr>),
               TheStack := stack\<rparr>"
  have wb: "working_block ?y (expression_state lvalues operators operands) = Inr (1, Some 0)"
    for lvalues operators operands
    by (simp add: working_block_def expression_state_def new_ParserState_def)
  have heap: "BlockHeap (expression_state lvalues operators operands) 1 = Some (?blk operands)"
    for lvalues operators operands
    by (simp add: expression_state_def new_ParserState_def)
  have t: "EpochVariableType_Integer
             = GetType ?x ((expression_state lvalues operators [p, q, ''c''])\<lparr>CurrentScope := Some 0\<rparr>)
                 (last (Operations (?blk [p, q, ''c''])))"
    for lvalues operators p q
    by (simp add: expression_collaborators_def plain_collaborators_def expression_GetType_def
          plain_GetVariableType_def expression_state_def new_ParserState_def
          new_ScopeDescription_def)
  have t': "EpochVariableType_Integer
             = GetType ?x ((expression_state lvalues operators [q, ''c''])\<lparr>CurrentScope := Some 0\<rparr>)
                 (last (Operations (?blk [q, ''c''])))"
    for lvalues operators q
    by (simp add: expression_collaborators_def plain_collaborators_def expression_GetType_def
          plain_GetVariableType_def expression_state_def new_ParserState_def
          new_ScopeDescription_def)
  have collect: "collect_units ?x (Some 0) 1 EpochVariableType_Integer 3 [] False
                   ((expression_state [] operators [''a'', ''b'', ''c''])\<lparr>CurrentScope := Some 0\<rparr>)
                 = Inr ([?unit ''a'', ?unit ''b'', ?unit ''c''], False,
                        ?split (expression_state [] operators [''a'', ''b'', ''c'']) [])"
    for operators
    by (simp add: eval_nat_numeral expression_collaborators_def plain_collaborators_def
          expression_GetType_def plain_GetVariableType_def expression_state_def
          new_ParserState_def new_ScopeDescription_def Let_def identifier_entry_def)
  have collect': "collect_units ?x (Some 0) 1 EpochVariableType_Integer 2 [] False
                   ((expression_state [''r''] operators [''b'', ''c''])\<lparr>CurrentScope := Some 0\<rparr>)
                 = Inr ([?unit ''b'', ?unit ''c''], False,
                        ?split (expression_state [''r''] operators [''b'', ''c''])
                          [identifier_entry ''r''])"
    for operators
    by (simp add: eval_nat_numeral expression_collaborators_def plain_collaborators_def
          expression_GetType_def plain_GetVariableType_def expression_state_def
          new_ParserState_def new_ScopeDescription_def Let_def identifier_entry_def)
  let ?s = "expression_state [] [''+'', ''*''] [''a'', ''b'', ''c'']"
  have first: "FinalizeInfixExpression ?x ?y example_operators True (Some 0) ?s
        = lowered_phrase ?x ?y example_operators EpochVariableType_Integer 1 (CurrentScope ?s)
            ''+'' ''*'' (unit_view (?unit ''a'')) (unit_view (?unit ''b'')) (unit_view (?unit ''c''))
            (?split ?s [])"
    using operator_precedence_lowering [where x = ?x and y = ?y
        and InfixOperators = example_operators
        and ?o1.0 = "''+''" and ?o2.0 = "''*''" and s = ?s and others = "[]"
        and workingblock = 1 and workingscope = "Some 0" and blk = "?blk [''a'', ''b'', ''c'']"
        and t = EpochVariableType_Integer and counts = "[]" and scope = "Some 0"
        and a = "?unit ''a''" and b = "?unit ''b''" and c = "?unit ''c''"
        and ?s1.0 = "?split ?s []" and isfirstrun = True,
        OF example_operators_simps(1) example_operators_simps(2) _ _ _ _ plain_compound_kept
           _ wb heap _ t,
        THEN conjunct1]
      collect
    by (simp add: Operators_Assign_def expression_state_def new_ParserState_def)
  let ?s' = "expression_state [] [''+'', ''&&''] [''a'', ''b'', ''c'']"
  have second: "FinalizeInfixExpression ?x ?y example_operators True (Some 0) ?s'
        = lowered_phrase ?x ?y example_operators EpochVariableType_Integer 1 (CurrentScope ?s')
            ''+'' ''&&'' (unit_view (?unit ''a'')) (unit_view (?unit ''b'')) (unit_view (?unit ''c''))
            (?split ?s' [])"
    using operator_precedence_lowering [where x = ?x and y = ?y
        and InfixOperators = example_operators
        and ?o1.0 = "''+''" and ?o2.0 = "''&&''" and s = ?s' and others = "[]"
        and workingblock = 1 and workingscope = "Some 0" and blk = "?blk [''a'', ''b'', ''c'']"
        and t = EpochVariableType_Integer and counts = "[]" and scope = "Some 0"
        and a = "?unit ''a''" and b = "?unit ''b''" and c = "?unit ''c''"
        and ?s1.0 = "?split ?s' []" and isfirstrun = True,
        OF example_operators_simps(1) example_operators_simps(3) _ _ _ _ plain_compound_kept
           _ wb heap _ t,
        THEN conjunct1]
      collect
    by (simp add: Operators_Assign_def expression_state_def new_ParserState_def)
  let ?s'' = "expression_state [''r''] [''='', ''*''] [''b'', ''c'']"
  have third: "FinalizeInfixExpression ?x ?y example_operators True (Some 0) ?s''
        = lowered_assignment ?x ?y example_operators EpochVariableType_Integer 1 (CurrentScope ?s'')
            ''*'' (unit_view (?unit ''b'')) (unit_view (?unit ''c''))
            (?split ?s'' [identifier_entry ''r''])"
    using operator_precedence_lowering [where x = ?x and y = ?y
        and InfixOperators = example_operators
        and ?o1.0 = "''=''" and ?o2.0 = "''*''" and s = ?s'' and others = "[]"
        and workingblock = 1 and workingscope = "Some 0" and blk = "?blk [''b'', ''c'']"
        and t = EpochVariableType_Integer and counts = "[]" and scope = "Some 0"
        and b = "?unit ''b''" and c = "?unit ''c''"
        and ?s1.0 = "?split ?s'' [identifier_entry ''r'']" and isfirstrun = True,
        OF example_operators_simps(4) example_operators_simps(2) _ _ _ _ plain_compound_kept
           _ wb heap _ t',
        THEN conjunct2]
      collect'
    by (simp add: Operators_Assign_def expression_state_def new_ParserState_def)
  note run = lowered_phrase_def lowered_assignment_def apply_operator_def operator_operation_def
    taken_over_def unit_view_def example_operators_simps Keywords_Or_def Keywords_And_def
    expression_collaborators_def plain_collaborators_def arithmetic_CreateOperation_def
    CreateOperation_Multiply_def CreateOperation_Add_def CreateArithmeticOperation_def
    plain_GetVariableType_def identifier_entry_def decrement_def plain_infix_collaborators_def
    Operators_Assign_def AddOperationToCurrentBlock_def AddOperation_def update_block_def
    back_block_def PoolStaticString_def
    expression_state_def new_ParserState_def new_ScopeDescription_def Let_def
  have left: "(case lowered_phrase ?x ?y example_operators EpochVariableType_Integer 1 (CurrentScope ?s)
            ''+'' ''*'' (unit_view (?unit ''a'')) (unit_view (?unit ''b'')) (unit_view (?unit ''c''))
            (?split ?s []) of
      Inl e \<Rightarrow> False
    | Inr (result, s) \<Rightarrow>
        \<not> result
        \<and> map_option Operations (BlockHeap s 1) = Some
            [PushOperation (GetVariableValue ''a''), PushOperation (GetVariableValue ''b''),
             PushOperation (GetVariableValue ''c''),
             PushOperation (ArithmeticOp Multiply EpochVariableType_Integer (Binary False False)),
             PushOperation (ArithmeticOp Sum EpochVariableType_Integer (Binary False False))])"
    by (simp add: run)
  have middle: "(case lowered_phrase ?x ?y example_operators EpochVariableType_Integer 1 (CurrentScope ?s')
            ''+'' ''&&'' (unit_view (?unit ''a'')) (unit_view (?unit ''b'')) (unit_view (?unit ''c''))
            (?split ?s' []) of
      Inl e \<Rightarrow> False
    | Inr (result, s) \<Rightarrow>
        \<not> result
        \<and> map_option Operations (BlockHeap s 1) = Some
            [PushOperation (GetVariableValue ''a''),
             PushOperation (BitwiseAnd EpochVariableType_Integer
               [PushOperation (GetVariableValue ''b''), PushOperation (GetVariableValue ''c'')]),
             PushOperation (ArithmeticOp Sum EpochVariableType_Integer (Binary False False))])"
    by (simp add: run)
  have right: "(case lowered_assignment ?x ?y example_operators EpochVariableType_Integer 1 (CurrentScope ?s'')
            ''*'' (unit_view (?unit ''b'')) (unit_view (?unit ''c''))
            (?split ?s'' [identifier_entry ''r'']) of
      Inl e \<Rightarrow> False
    | Inr (result, s) \<Rightarrow>
        result
        \<and> map_option Operations (BlockHeap s 1) = Some
            [PushOperation (GetVariableValue ''b''), PushOperation (GetVariableValue ''c''),
             PushOperation (ArithmeticOp Multiply EpochVariableType_Integer (Binary False False)),
             AssignValue ''r''])"
    by (simp add: run)
  show ?thesis
    unfolding first second third using left middle right by simp
qed

end
